theory Spec2Isabelle
  imports Main "HOL-Library.AList" "HOL-Library.Sublist" "HOL-Library.Char_ord"
    "HOL-Library.List_Lexorder"
begin

section \<open>Time\<close>

text \<open>
  A \<open>time.Time\<close> is modelled as a wall-clock instant: the number of nanoseconds since the
  Unix epoch (locations and monotonic readings are not modelled). A \<open>time.Duration\<close> is
  an \<open>int64\<close> count of nanoseconds; its values lie between \<open>minDuration\<close> and
  \<open>maxDuration\<close>. The zero \<open>time.Time{}\<close> is January 1 of year 1, which is
  62135596800 seconds before the epoch.
\<close>

type_synonym time = int
type_synonym duration = int

definition Second :: duration where
  "Second = 1000000000"

definition zeroTime :: time where
  "zeroTime = - 62135596800 * 1000000000"

definition maxDuration :: duration where
  "maxDuration = 2 ^ 63 - 1"

definition minDuration :: duration where
  "minDuration = - (2 ^ 63)"

text \<open>\<open>t.Sub(u)\<close> saturates at the largest and smallest \<open>Duration\<close>.\<close>

definition Sub :: "time \<Rightarrow> time \<Rightarrow> duration" where
  "Sub t u =
     (if t - u > maxDuration then maxDuration
      else if t - u < minDuration then minDuration
      else t - u)"

definition Add :: "time \<Rightarrow> duration \<Rightarrow> time" where
  "Add t d = t + d"

definition Before :: "time \<Rightarrow> time \<Rightarrow> bool" where
  "Before t u = (t < u)"

text \<open>
  The two layouts the repository formats times with. \<open>RFC3339\<close> is
  \<^verbatim>\<open>2006-01-02T15:04:05Z07:00\<close>: date and time of day down to whole seconds.
  \<open>RFC3339Nano\<close> is \<^verbatim>\<open>2006-01-02T15:04:05.999999999Z07:00\<close>: the same with the
  fraction of the second. A formatted time is modelled by what the text carries: the
  whole seconds since the epoch (the date and time-of-day fields) and the nanoseconds
  written after the decimal point.
\<close>

datatype layout = RFC3339 | RFC3339Nano

datatype timetext = TimeText (seconds: int) (fraction: nat)

definition Format :: "layout \<Rightarrow> time \<Rightarrow> timetext" where
  "Format l t =
     (case l of
        RFC3339 \<Rightarrow> TimeText (t div Second) 0
      | RFC3339Nano \<Rightarrow> TimeText (t div Second) (nat (t mod Second)))"

text \<open>
  The layouts have a year of four digits. \<open>Format\<close> writes every year, with more digits
  or a sign where needed, but \<open>time.Parse\<close> reads a text back only when its year lies
  between 0 and 9999. Times are formatted in UTC, the zone of a process in the image that
  the Makefile builds: year 0 begins 62167219200 seconds before the epoch and year
  10000 begins 253402300800 seconds after it.
\<close>

definition inYears :: "time \<Rightarrow> bool" where
  "inYears t = (- 62167219200 \<le> t div Second \<and> t div Second < 253402300800)"

section \<open>Errors\<close>

text \<open>
  Error values. \<open>ErrNotFound\<close> is the package variable \<open>storage.ErrNotFound\<close>;
  \<open>ErrorsNew m\<close> is a fresh \<open>errors.New(m)\<close>, which never compares equal to a
  package variable even when the message is the same. \<open>LevelDBNotFound\<close> is the
  \<open>ErrNotFound\<close> of the leveldb package. \<open>Transport\<close> stands for any failure of a call
  to etcd, to a webhook, to Slack or to the database file, \<open>Panic\<close> for a run-time panic.
\<close>

datatype error =
    ErrNotFound
  | ErrQueueEmpty
  | Canceled
  | DeadlineExceeded
  | ErrorsNew string
  | Transport
  | ParseError
  | UnmarshalError
  | DecodeError
  | LevelDBNotFound
  | Panic

section \<open>Configuration (package config)\<close>

record WebhookConfig =
  URL :: string
  Method :: string
  Body :: string
  Headers :: "(string \<times> string list) list option"

record SlackConfig =
  SlackToken :: string
  Channel :: string
  MessageFields :: "(string \<times> string) list"

text \<open>
  The \<open>Config\<close> field of a notification is an \<open>interface{}\<close> that
  \<open>mapstructure.Decode\<close> turns into a webhook or a Slack configuration. It is
  represented by what decoding it into each of the two targets gives.
\<close>

record iface =
  asWebhook :: "error + WebhookConfig"
  asSlack :: "error + SlackConfig"

record NotificationConfig =
  Type :: string
  Config :: iface

definition NotificationTypeWebhook :: string where
  "NotificationTypeWebhook = ''webhook''"

definition NotificationTypeSlack :: string where
  "NotificationTypeSlack = ''slack''"

record ServiceConfig =
  ID :: string
  Token :: string
  Timeout :: duration
  Debounce :: duration
  AlertNotifications :: "NotificationConfig list"
  RecoveryNotifications :: "NotificationConfig list"

definition GetWebhookConfig :: "NotificationConfig \<Rightarrow> error + WebhookConfig" where
  "GetWebhookConfig n =
     (if Type n \<noteq> NotificationTypeWebhook then Inl (ErrorsNew ''this is not a webhook config'')
      else asWebhook (Config n))"

definition GetSlackConfig :: "NotificationConfig \<Rightarrow> error + SlackConfig" where
  "GetSlackConfig n =
     (if Type n \<noteq> NotificationTypeSlack then Inl (ErrorsNew ''this is not a slack config'')
      else asSlack (Config n))"

record notificationWrapper =
  Service :: ServiceConfig
  Notification :: NotificationConfig
  IsRecoveryMessage :: bool

section \<open>The world a node runs in\<close>

text \<open>
  The values held under etcd keys are byte strings; they are modelled by what they
  encode: a formatted time, the JSON of a service configuration, the JSON of a queued
  notification task, or other bytes. JSON encoding followed by decoding is taken to
  give the value back.
\<close>

datatype val =
    TimeVal timetext
  | ConfigJSON ServiceConfig
  | TaskJSON notificationWrapper
  | Bytes string

text \<open>
  \<open>time.Parse(time.RFC3339, s)\<close>: the zero time and an error when the text is not a time
  or its year is not one of the years 0 to 9999.
\<close>

definition Parse :: "val \<Rightarrow> time \<times> error option" where
  "Parse v =
     (case v of
        TimeVal (TimeText s f) \<Rightarrow>
          if - 62167219200 \<le> s \<and> s < 253402300800 then (s * Second + int f, None)
          else (zeroTime, Some ParseError)
      | _ \<Rightarrow> (zeroTime, Some ParseError))"

datatype level = Debug | Info | Warn | Error

record attachment =
  Title :: string
  Color :: string
  Text :: string
  Fields :: "(string \<times> string) list"

text \<open>
  The calls a node makes to outside services: the requests of the etcd client (key-value
  reads and writes, watches, locks, campaigns), the HTTP request of a webhook and the
  post of a Slack message (token, channel, attachment).
\<close>

datatype request =
    ReqPut string val
  | ReqGet string
  | ReqRange string
  | ReqFirst string
  | ReqDelete string
  | ReqWatch string
  | ReqLock string
  | ReqUnlock string
  | ReqCampaign duration string
  | ReqHttp WebhookConfig
  | ReqSlack string string attachment

text \<open>What a watch channel delivers: it is closed, or it hands over a response with events.\<close>

datatype watchResponse = Closed | Events "(string \<times> val) list"

record memoryStorage =
  services :: "ServiceConfig list"
  heartbeats :: "string \<rightharpoonup> time"
  active :: "string \<rightharpoonup> time"
  lastMessage :: "string \<rightharpoonup> time"

datatype Storage = MemoryStorage memoryStorage | EtcdStorage string

text \<open>
  The state one node acts on. \<open>clock\<close> is what the next \<open>time.Now()\<close> returns and
  \<open>drift\<close> lists by how much the clock moves after each reading. \<open>faults\<close> says, for
  each coming call to an outside service (etcd, a webhook, Slack), whether it fails;
  \<open>watches\<close> what each coming watch delivers; \<open>campaigns\<close> how each coming election
  campaign ends (its error, and whether the election holds its key afterwards).
  \<open>render\<close> gives the characters of a formatted time, and \<open>newRequest\<close> says for which
  method and URL \<open>http.NewRequest\<close> builds a request (for the others it returns an error
  and no request). \<open>kv\<close> is the etcd key space in which the replicated store and the
  queue live. \<open>store\<close> is the storage backend, \<open>queue\<close> the prefix of the etcd queue
  when one is wired. \<open>election\<close> is what \<open>Key()\<close> of the election of the concurrency
  client returns, when a client is wired, and \<open>lease\<close> the id of the lease of its
  session, in hexadecimal digits. \<open>wire\<close> lists the calls made to outside services, in
  order, and \<open>logs\<close> the log lines written (level, service, message).
\<close>

record world =
  clock :: time
  drift :: "int list"
  faults :: "bool list"
  watches :: "watchResponse list"
  campaigns :: "(error option \<times> bool) list"
  render :: "timetext \<Rightarrow> string"
  newRequest :: "string \<Rightarrow> string \<Rightarrow> bool"
  kv :: "(string \<times> val) list"
  store :: Storage
  queue :: "string option"
  election :: "string option"
  lease :: string
  wire :: "request list"
  logs :: "(level \<times> string \<times> string) list"

definition Now :: "world \<Rightarrow> time \<times> world" where
  "Now w =
     (case drift w of
        [] \<Rightarrow> (clock w, w)
      | d # ds \<Rightarrow> (clock w, w\<lparr>clock := clock w + d, drift := ds\<rparr>))"

text \<open>A call to an outside service: whether it fails, and the world after it.\<close>

definition call :: "request \<Rightarrow> world \<Rightarrow> bool \<times> world" where
  "call r w =
     (case faults w of
        [] \<Rightarrow> (False, w\<lparr>wire := wire w @ [r]\<rparr>)
      | f # fs \<Rightarrow> (f, w\<lparr>faults := fs, wire := wire w @ [r]\<rparr>))"

definition logmsg :: "level \<Rightarrow> string \<Rightarrow> string \<Rightarrow> world \<Rightarrow> world" where
  "logmsg l svc m w = w\<lparr>logs := logs w @ [(l, svc, m)]\<rparr>"

subsection \<open>Paths (package filepath)\<close>

text \<open>The elements of a path between its slashes, and elements put together with slashes.\<close>

fun splitSlash :: "string \<Rightarrow> string list" where
  "splitSlash [] = [[]]"
| "splitSlash (c # cs) =
     (if c = CHR ''/'' then [] # splitSlash cs
      else (case splitSlash cs of [] \<Rightarrow> [[c]] | x # xs \<Rightarrow> (c # x) # xs))"

fun joinSlash :: "string list \<Rightarrow> string" where
  "joinSlash [] = []"
| "joinSlash [x] = x"
| "joinSlash (x # y # ys) = x @ ''/'' @ joinSlash (y # ys)"

text \<open>
  \<open>filepath.Clean\<close> on Unix reads the path element by element and keeps the elements of
  the result: the number of \<open>..\<close> it begins with and the names after them. An empty
  element and \<open>.\<close> are dropped; \<open>..\<close> removes the last name, is dropped at the root, and
  is kept at the beginning of a path that is not rooted; any other element is added.
\<close>

definition cleanStep :: "bool \<Rightarrow> nat \<times> string list \<Rightarrow> string \<Rightarrow> nat \<times> string list" where
  "cleanStep rooted s c =
     (case s of
        (ups, st) \<Rightarrow>
          if c = [] \<or> c = ''.'' then (ups, st)
          else if c = ''..'' then
            (if st \<noteq> [] then (ups, butlast st)
             else if rooted then (ups, st)
             else (ups + 1, st))
          else (ups, st @ [c]))"

definition Clean :: "string \<Rightarrow> string" where
  "Clean path =
     (if path = [] then ''.''
      else
        (case foldl (cleanStep (hd path = CHR ''/'')) (0, []) (splitSlash path) of
           (ups, st) \<Rightarrow>
             if hd path = CHR ''/'' then ''/'' @ joinSlash st
             else if replicate ups ''..'' @ st = [] then ''.''
             else joinSlash (replicate ups ''..'' @ st)))"

text \<open>
  \<open>filepath.Join\<close>: the elements from the first non-empty one on, joined by slashes
  and cleaned; the empty string when every element is empty.
\<close>

definition Join :: "string list \<Rightarrow> string" where
  "Join elem =
     (case dropWhile (\<lambda>e. e = []) elem of
        [] \<Rightarrow> []
      | rest \<Rightarrow> Clean (joinSlash rest))"

subsection \<open>The etcd key-value client\<close>

definition kvPut :: "string \<Rightarrow> val \<Rightarrow> world \<Rightarrow> error option \<times> world" where
  "kvPut k v w =
     (case call (ReqPut k v) w of
        (True, w1) \<Rightarrow> (Some Transport, w1)
      | (False, w1) \<Rightarrow> (None, w1\<lparr>kv := AList.update k v (kv w1)\<rparr>))"

definition kvGet :: "string \<Rightarrow> world \<Rightarrow> (error + val list) \<times> world" where
  "kvGet k w =
     (case call (ReqGet k) w of
        (True, w1) \<Rightarrow> (Inl Transport, w1)
      | (False, w1) \<Rightarrow>
          (Inr (case map_of (kv w1) k of None \<Rightarrow> [] | Some v \<Rightarrow> [v]), w1))"

text \<open>A range read with \<open>WithPrefix\<close>: the pairs whose key starts with \<open>k\<close>, in key order.\<close>

definition kvGetPrefix :: "string \<Rightarrow> world \<Rightarrow> (error + (string \<times> val) list) \<times> world" where
  "kvGetPrefix k w =
     (case call (ReqRange k) w of
        (True, w1) \<Rightarrow> (Inl Transport, w1)
      | (False, w1) \<Rightarrow>
          (Inr (sort_key fst (filter (\<lambda>p. prefix k (fst p)) (kv w1))), w1))"

definition kvDelete :: "string \<Rightarrow> world \<Rightarrow> error option \<times> world" where
  "kvDelete k w =
     (case call (ReqDelete k) w of
        (True, w1) \<Rightarrow> (Some Transport, w1)
      | (False, w1) \<Rightarrow> (None, w1\<lparr>kv := AList.delete k (kv w1)\<rparr>))"

section \<open>Storage backends (package storage)\<close>

subsection \<open>In-memory storage\<close>

definition emptyServiceConfig :: ServiceConfig where
  "emptyServiceConfig =
     \<lparr>ID = [], Token = [], Timeout = 0, Debounce = 0,
      AlertNotifications = [], RecoveryNotifications = []\<rparr>"

definition memoryStorage_SetLastHeartbeat ::
  "string \<Rightarrow> time \<Rightarrow> memoryStorage \<Rightarrow> error option \<times> memoryStorage" where
  "memoryStorage_SetLastHeartbeat key t s = (None, s\<lparr>heartbeats := (heartbeats s)(key \<mapsto> t)\<rparr>)"

definition memoryStorage_GetLastHeartbeat ::
  "string \<Rightarrow> memoryStorage \<Rightarrow> time \<times> error option" where
  "memoryStorage_GetLastHeartbeat key s =
     (case heartbeats s key of None \<Rightarrow> (zeroTime, Some ErrNotFound) | Some t \<Rightarrow> (t, None))"

definition memoryStorage_SetAlarmActiveSince ::
  "string \<Rightarrow> time \<Rightarrow> memoryStorage \<Rightarrow> error option \<times> memoryStorage" where
  "memoryStorage_SetAlarmActiveSince key t s = (None, s\<lparr>active := (active s)(key \<mapsto> t)\<rparr>)"

definition memoryStorage_GetAlarmActiveSince ::
  "string \<Rightarrow> memoryStorage \<Rightarrow> time \<times> error option" where
  "memoryStorage_GetAlarmActiveSince key s =
     (case active s key of None \<Rightarrow> (zeroTime, Some ErrNotFound) | Some t \<Rightarrow> (t, None))"

definition memoryStorage_SetLastMessageSendTimestamp ::
  "string \<Rightarrow> time \<Rightarrow> memoryStorage \<Rightarrow> error option \<times> memoryStorage" where
  "memoryStorage_SetLastMessageSendTimestamp key t s =
     (None, s\<lparr>lastMessage := (lastMessage s)(key \<mapsto> t)\<rparr>)"

definition memoryStorage_GetLastMessageSendTimestamp ::
  "string \<Rightarrow> memoryStorage \<Rightarrow> time \<times> error option" where
  "memoryStorage_GetLastMessageSendTimestamp key s =
     (case lastMessage s key of None \<Rightarrow> (zeroTime, Some ErrNotFound) | Some t \<Rightarrow> (t, None))"

definition memoryStorage_ClearAlarm ::
  "string \<Rightarrow> memoryStorage \<Rightarrow> error option \<times> memoryStorage" where
  "memoryStorage_ClearAlarm key s = (None, s\<lparr>active := (active s)(key := None)\<rparr>)"

text \<open>The loop over \<open>s.cfg.Services\<close> that returns the first configuration with the id.\<close>

fun findService :: "string \<Rightarrow> ServiceConfig list \<Rightarrow> error + ServiceConfig" where
  "findService i [] = Inl (ErrorsNew ''not found'')"
| "findService i (svc # rest) = (if ID svc = i then Inr svc else findService i rest)"

definition memoryStorage_GetServiceConfig ::
  "string \<Rightarrow> memoryStorage \<Rightarrow> error + ServiceConfig" where
  "memoryStorage_GetServiceConfig i s = findService i (services s)"

definition memoryStorage_GetServiceConfigs ::
  "memoryStorage \<Rightarrow> ServiceConfig list \<times> error list" where
  "memoryStorage_GetServiceConfigs s = (services s, [])"

definition memoryStorage_SaveServiceConfig ::
  "ServiceConfig \<Rightarrow> memoryStorage \<Rightarrow> error option \<times> memoryStorage" where
  "memoryStorage_SaveServiceConfig svc s = (None, s\<lparr>services := services s @ [svc]\<rparr>)"

text \<open>
  The loop of \<open>DeleteServiceConfig\<close>: the list without the first configuration that has
  the id, or nothing when no configuration has it.
\<close>

fun removeFirst :: "string \<Rightarrow> ServiceConfig list \<Rightarrow> ServiceConfig list option" where
  "removeFirst i [] = None"
| "removeFirst i (v # rest) =
     (if ID v = i then Some rest
      else (case removeFirst i rest of None \<Rightarrow> None | Some rest' \<Rightarrow> Some (v # rest')))"

definition memoryStorage_DeleteServiceConfig ::
  "string \<Rightarrow> memoryStorage \<Rightarrow> error option \<times> memoryStorage" where
  "memoryStorage_DeleteServiceConfig i s =
     (case removeFirst i (services s) of
        Some rest \<Rightarrow> (None, s\<lparr>services := rest\<rparr>)
      | None \<Rightarrow> (Some (ErrorsNew ''not found''), s))"

subsection \<open>Storage in etcd\<close>

text \<open>The storage holds its key prefix; its client is the key space of the world.\<close>

definition etcdSetTime :: "string \<Rightarrow> time \<Rightarrow> world \<Rightarrow> error option \<times> world" where
  "etcdSetTime k t w = kvPut k (TimeVal (Format RFC3339 t)) w"

definition etcdGetTime :: "string \<Rightarrow> world \<Rightarrow> (time \<times> error option) \<times> world" where
  "etcdGetTime k w =
     (case kvGet k w of
        (Inl e, w1) \<Rightarrow> ((zeroTime, Some e), w1)
      | (Inr [], w1) \<Rightarrow> ((zeroTime, Some ErrNotFound), w1)
      | (Inr (v # _), w1) \<Rightarrow> (Parse v, w1))"

definition etcdStorage_SetLastHeartbeat ::
  "string \<Rightarrow> string \<Rightarrow> time \<Rightarrow> world \<Rightarrow> error option \<times> world" where
  "etcdStorage_SetLastHeartbeat p key t w = etcdSetTime (Join [p, ''heartbeats'', key]) t w"

definition etcdStorage_GetLastHeartbeat ::
  "string \<Rightarrow> string \<Rightarrow> world \<Rightarrow> (time \<times> error option) \<times> world" where
  "etcdStorage_GetLastHeartbeat p key w = etcdGetTime (Join [p, ''heartbeats'', key]) w"

definition etcdStorage_SetAlarmActiveSince ::
  "string \<Rightarrow> string \<Rightarrow> time \<Rightarrow> world \<Rightarrow> error option \<times> world" where
  "etcdStorage_SetAlarmActiveSince p key t w = etcdSetTime (Join [p, ''alarms'', key]) t w"

definition etcdStorage_GetAlarmActiveSince ::
  "string \<Rightarrow> string \<Rightarrow> world \<Rightarrow> (time \<times> error option) \<times> world" where
  "etcdStorage_GetAlarmActiveSince p key w = etcdGetTime (Join [p, ''alarms'', key]) w"

definition etcdStorage_ClearAlarm :: "string \<Rightarrow> string \<Rightarrow> world \<Rightarrow> error option \<times> world" where
  "etcdStorage_ClearAlarm p key w = kvDelete (Join [p, ''alarms'', key]) w"

definition etcdStorage_SetLastMessageSendTimestamp ::
  "string \<Rightarrow> string \<Rightarrow> time \<Rightarrow> world \<Rightarrow> error option \<times> world" where
  "etcdStorage_SetLastMessageSendTimestamp p key t w =
     etcdSetTime (Join [p, ''lastMessage'', key]) t w"

definition etcdStorage_GetLastMessageSendTimestamp ::
  "string \<Rightarrow> string \<Rightarrow> world \<Rightarrow> (time \<times> error option) \<times> world" where
  "etcdStorage_GetLastMessageSendTimestamp p key w =
     etcdGetTime (Join [p, ''lastMessage'', key]) w"

definition etcdStorage_SaveServiceConfig ::
  "string \<Rightarrow> ServiceConfig \<Rightarrow> world \<Rightarrow> error option \<times> world" where
  "etcdStorage_SaveServiceConfig p svc w = kvPut (Join [p, ''services'', ID svc]) (ConfigJSON svc) w"

definition etcdStorage_DeleteServiceConfig ::
  "string \<Rightarrow> string \<Rightarrow> world \<Rightarrow> error option \<times> world" where
  "etcdStorage_DeleteServiceConfig p i w = kvDelete (Join [p, ''services'', i]) w"

text \<open>\<open>json.Unmarshal\<close> into a service configuration.\<close>

definition unmarshalConfig :: "val \<Rightarrow> error + ServiceConfig" where
  "unmarshalConfig v = (case v of ConfigJSON c \<Rightarrow> Inr c | _ \<Rightarrow> Inl UnmarshalError)"

definition etcdStorage_GetServiceConfig ::
  "string \<Rightarrow> string \<Rightarrow> world \<Rightarrow> (error + ServiceConfig) \<times> world" where
  "etcdStorage_GetServiceConfig p i w =
     (case kvGet (Join [p, ''services'', i]) w of
        (Inl e, w1) \<Rightarrow> (Inl e, w1)
      | (Inr [], w1) \<Rightarrow> (Inl (ErrorsNew ''not found''), w1)
      | (Inr (v # _), w1) \<Rightarrow> (unmarshalConfig v, w1))"

text \<open>
  The producer of \<open>GetServiceConfigs\<close>: the configurations sent on the channel before
  the first value that does not decode, and the errors sent on the error channel.
\<close>

fun decodeConfigs :: "(string \<times> val) list \<Rightarrow> ServiceConfig list \<times> error list" where
  "decodeConfigs [] = ([], [])"
| "decodeConfigs ((k, v) # rest) =
     (case unmarshalConfig v of
        Inl e \<Rightarrow> ([], [e])
      | Inr c \<Rightarrow> (case decodeConfigs rest of (cs, es) \<Rightarrow> (c # cs, es)))"

definition etcdStorage_GetServiceConfigs ::
  "string \<Rightarrow> world \<Rightarrow> (ServiceConfig list \<times> error list) \<times> world" where
  "etcdStorage_GetServiceConfigs p w =
     (case kvGetPrefix (Join [p, ''services'']) w of
        (Inl e, w1) \<Rightarrow> (([], [e]), w1)
      | (Inr kvs, w1) \<Rightarrow> (decodeConfigs kvs, w1))"

subsection \<open>Storage in a leveldb file\<close>

text \<open>
  The file backend keeps the same records in a leveldb database: \<open>db\<close> is its content
  and \<open>dbFaults\<close> says which coming accesses fail. A \<open>Get\<close> of a key that is not there
  returns the \<open>ErrNotFound\<close> of leveldb.
\<close>

record fileStorage =
  db :: "(string \<times> val) list"
  dbFaults :: "bool list"

definition dbCall :: "fileStorage \<Rightarrow> bool \<times> fileStorage" where
  "dbCall s = (case dbFaults s of [] \<Rightarrow> (False, s) | f # fs \<Rightarrow> (f, s\<lparr>dbFaults := fs\<rparr>))"

definition dbPut :: "string \<Rightarrow> val \<Rightarrow> fileStorage \<Rightarrow> error option \<times> fileStorage" where
  "dbPut k v s =
     (case dbCall s of
        (True, s1) \<Rightarrow> (Some Transport, s1)
      | (False, s1) \<Rightarrow> (None, s1\<lparr>db := AList.update k v (db s1)\<rparr>))"

definition dbGet :: "string \<Rightarrow> fileStorage \<Rightarrow> (error + val) \<times> fileStorage" where
  "dbGet k s =
     (case dbCall s of
        (True, s1) \<Rightarrow> (Inl Transport, s1)
      | (False, s1) \<Rightarrow>
          (case map_of (db s1) k of None \<Rightarrow> (Inl LevelDBNotFound, s1) | Some v \<Rightarrow> (Inr v, s1)))"

definition dbDelete :: "string \<Rightarrow> fileStorage \<Rightarrow> error option \<times> fileStorage" where
  "dbDelete k s =
     (case dbCall s of
        (True, s1) \<Rightarrow> (Some Transport, s1)
      | (False, s1) \<Rightarrow> (None, s1\<lparr>db := AList.delete k (db s1)\<rparr>))"

definition fileSetTime :: "string \<Rightarrow> time \<Rightarrow> fileStorage \<Rightarrow> error option \<times> fileStorage" where
  "fileSetTime k t s = dbPut k (TimeVal (Format RFC3339 t)) s"

definition fileGetTime :: "string \<Rightarrow> fileStorage \<Rightarrow> (time \<times> error option) \<times> fileStorage" where
  "fileGetTime k s =
     (case dbGet k s of
        (Inl e, s1) \<Rightarrow> ((zeroTime, Some e), s1)
      | (Inr v, s1) \<Rightarrow> (Parse v, s1))"

definition fileStorage_SetLastHeartbeat ::
  "string \<Rightarrow> time \<Rightarrow> fileStorage \<Rightarrow> error option \<times> fileStorage" where
  "fileStorage_SetLastHeartbeat key t s = fileSetTime (Join [''heartbeats'', key]) t s"

definition fileStorage_GetLastHeartbeat ::
  "string \<Rightarrow> fileStorage \<Rightarrow> (time \<times> error option) \<times> fileStorage" where
  "fileStorage_GetLastHeartbeat key s = fileGetTime (Join [''heartbeats'', key]) s"

definition fileStorage_SetAlarmActiveSince ::
  "string \<Rightarrow> time \<Rightarrow> fileStorage \<Rightarrow> error option \<times> fileStorage" where
  "fileStorage_SetAlarmActiveSince key t s = fileSetTime (Join [''alarms'', key]) t s"

definition fileStorage_GetAlarmActiveSince ::
  "string \<Rightarrow> fileStorage \<Rightarrow> (time \<times> error option) \<times> fileStorage" where
  "fileStorage_GetAlarmActiveSince key s = fileGetTime (Join [''alarms'', key]) s"

definition fileStorage_ClearAlarm :: "string \<Rightarrow> fileStorage \<Rightarrow> error option \<times> fileStorage" where
  "fileStorage_ClearAlarm key s = dbDelete (Join [''alarms'', key]) s"

definition fileStorage_SetLastMessageSendTimestamp ::
  "string \<Rightarrow> time \<Rightarrow> fileStorage \<Rightarrow> error option \<times> fileStorage" where
  "fileStorage_SetLastMessageSendTimestamp key t s = fileSetTime (Join [''lastMessage'', key]) t s"

definition fileStorage_GetLastMessageSendTimestamp ::
  "string \<Rightarrow> fileStorage \<Rightarrow> (time \<times> error option) \<times> fileStorage" where
  "fileStorage_GetLastMessageSendTimestamp key s = fileGetTime (Join [''lastMessage'', key]) s"

subsection \<open>The Storage interface\<close>

text \<open>A call through the interface runs the method of the backend the node was wired with.\<close>

definition onMemory ::
  "(memoryStorage \<Rightarrow> 'a \<times> memoryStorage) \<Rightarrow> memoryStorage \<Rightarrow> world \<Rightarrow> 'a \<times> world" where
  "onMemory f m w = (case f m of (r, m') \<Rightarrow> (r, w\<lparr>store := MemoryStorage m'\<rparr>))"

definition SetLastHeartbeat :: "string \<Rightarrow> time \<Rightarrow> world \<Rightarrow> error option \<times> world" where
  "SetLastHeartbeat key t w =
     (case store w of
        MemoryStorage m \<Rightarrow> onMemory (memoryStorage_SetLastHeartbeat key t) m w
      | EtcdStorage p \<Rightarrow> etcdStorage_SetLastHeartbeat p key t w)"

definition GetLastHeartbeat :: "string \<Rightarrow> world \<Rightarrow> (time \<times> error option) \<times> world" where
  "GetLastHeartbeat key w =
     (case store w of
        MemoryStorage m \<Rightarrow> (memoryStorage_GetLastHeartbeat key m, w)
      | EtcdStorage p \<Rightarrow> etcdStorage_GetLastHeartbeat p key w)"

definition SetAlarmActiveSince :: "string \<Rightarrow> time \<Rightarrow> world \<Rightarrow> error option \<times> world" where
  "SetAlarmActiveSince key t w =
     (case store w of
        MemoryStorage m \<Rightarrow> onMemory (memoryStorage_SetAlarmActiveSince key t) m w
      | EtcdStorage p \<Rightarrow> etcdStorage_SetAlarmActiveSince p key t w)"

definition GetAlarmActiveSince :: "string \<Rightarrow> world \<Rightarrow> (time \<times> error option) \<times> world" where
  "GetAlarmActiveSince key w =
     (case store w of
        MemoryStorage m \<Rightarrow> (memoryStorage_GetAlarmActiveSince key m, w)
      | EtcdStorage p \<Rightarrow> etcdStorage_GetAlarmActiveSince p key w)"

definition ClearAlarm :: "string \<Rightarrow> world \<Rightarrow> error option \<times> world" where
  "ClearAlarm key w =
     (case store w of
        MemoryStorage m \<Rightarrow> onMemory (memoryStorage_ClearAlarm key) m w
      | EtcdStorage p \<Rightarrow> etcdStorage_ClearAlarm p key w)"

definition SetLastMessageSendTimestamp ::
  "string \<Rightarrow> time \<Rightarrow> world \<Rightarrow> error option \<times> world" where
  "SetLastMessageSendTimestamp key t w =
     (case store w of
        MemoryStorage m \<Rightarrow> onMemory (memoryStorage_SetLastMessageSendTimestamp key t) m w
      | EtcdStorage p \<Rightarrow> etcdStorage_SetLastMessageSendTimestamp p key t w)"

definition GetLastMessageSendTimestamp ::
  "string \<Rightarrow> world \<Rightarrow> (time \<times> error option) \<times> world" where
  "GetLastMessageSendTimestamp key w =
     (case store w of
        MemoryStorage m \<Rightarrow> (memoryStorage_GetLastMessageSendTimestamp key m, w)
      | EtcdStorage p \<Rightarrow> etcdStorage_GetLastMessageSendTimestamp p key w)"

definition GetServiceConfigs :: "world \<Rightarrow> (ServiceConfig list \<times> error list) \<times> world" where
  "GetServiceConfigs w =
     (case store w of
        MemoryStorage m \<Rightarrow> (memoryStorage_GetServiceConfigs m, w)
      | EtcdStorage p \<Rightarrow> etcdStorage_GetServiceConfigs p w)"

definition GetServiceConfig :: "string \<Rightarrow> world \<Rightarrow> (error + ServiceConfig) \<times> world" where
  "GetServiceConfig i w =
     (case store w of
        MemoryStorage m \<Rightarrow> (memoryStorage_GetServiceConfig i m, w)
      | EtcdStorage p \<Rightarrow> etcdStorage_GetServiceConfig p i w)"

definition SaveServiceConfig :: "ServiceConfig \<Rightarrow> world \<Rightarrow> error option \<times> world" where
  "SaveServiceConfig svc w =
     (case store w of
        MemoryStorage m \<Rightarrow> onMemory (memoryStorage_SaveServiceConfig svc) m w
      | EtcdStorage p \<Rightarrow> etcdStorage_SaveServiceConfig p svc w)"

definition DeleteServiceConfig :: "string \<Rightarrow> world \<Rightarrow> error option \<times> world" where
  "DeleteServiceConfig i w =
     (case store w of
        MemoryStorage m \<Rightarrow> onMemory (memoryStorage_DeleteServiceConfig i) m w
      | EtcdStorage p \<Rightarrow> etcdStorage_DeleteServiceConfig p i w)"

section \<open>The queue in etcd (package queue)\<close>

definition Enqueue :: "string \<Rightarrow> notificationWrapper \<Rightarrow> world \<Rightarrow> error option \<times> world" where
  "Enqueue q obj w =
     (case Now w of
        (now, w1) \<Rightarrow>
          kvPut (Join [q, ''items'', render w1 (Format RFC3339Nano now)]) (TaskJSON obj)
            (logmsg Debug [] ''enqueue stuff'' w1))"







section \<open>Leader election (package concurrency)\<close>

text \<open>
  The election is made by \<open>NewElection(session, "/deadman-switch-leader")\<close>. Its
  \<open>Key()\<close> is the empty string until a campaign has put its key, and that key is the
  prefix of the election, a slash and the lease id of the session in hexadecimal.
\<close>

definition leaderKey :: "world \<Rightarrow> string" where
  "leaderKey w = ''/deadman-switch-leader/'' @ lease w"

text \<open>
  \<open>election.Campaign(ctx, val)\<close> under a context with the given timeout. How it ends is
  for the cluster to decide, and so is whether the election holds its key afterwards;
  with no outcome left the call fails.
\<close>

definition Campaign :: "duration \<Rightarrow> string \<Rightarrow> world \<Rightarrow> error option \<times> world" where
  "Campaign timeout v w =
     (case campaigns w of
        [] \<Rightarrow> (Some Transport, w\<lparr>wire := wire w @ [ReqCampaign timeout v]\<rparr>)
      | (e, holds) # cs \<Rightarrow>
          (e, w\<lparr>wire := wire w @ [ReqCampaign timeout v], campaigns := cs,
                election := Some (if holds then leaderKey w else [])\<rparr>))"

text \<open>
  \<open>IsLeader\<close> of the etcd client; calling it on a nil client panics. It compares the
  key of the election with the value it campaigns with.
\<close>

definition IsLeader :: "string \<Rightarrow> world \<Rightarrow> (bool \<times> error option) \<times> world" where
  "IsLeader i w =
     (case election w of
        None \<Rightarrow> ((False, Some Panic), w)
      | Some key \<Rightarrow>
          if key = i then ((True, None), w)
          else
            (case Campaign (1 * Second) i w of
               (Some err, w1) \<Rightarrow>
                 if err = Canceled then ((False, None), w1) else ((False, Some err), w1)
             | (None, w1) \<Rightarrow> ((True, None), w1)))"

section \<open>The notifier (package notifier)\<close>

text \<open>
  A function that panics is modelled as returning the error \<open>Panic\<close>, which every caller
  hands on instead of treating it as a returned error.

  The two webhook functions drop the error of \<open>http.NewRequest\<close>. When no request was
  built, \<open>r.WithContext(ctx)\<close> dereferences a nil request: the function panics after its
  log line and before any call is made.
\<close>

definition sendAlertToWebhook ::
  "ServiceConfig \<Rightarrow> WebhookConfig \<Rightarrow> world \<Rightarrow> error option \<times> world" where
  "sendAlertToWebhook service cfg w =
     (if newRequest w (Method cfg) (URL cfg) then
        (case call (ReqHttp cfg) (logmsg Info (ID service) ''calling webhook'' w) of
           (True, w1) \<Rightarrow> (Some Transport, w1)
         | (False, w1) \<Rightarrow> (None, w1))
      else (Some Panic, logmsg Info (ID service) ''calling webhook'' w))"

definition sendRecoveryToWebhook ::
  "ServiceConfig \<Rightarrow> WebhookConfig \<Rightarrow> world \<Rightarrow> error option \<times> world" where
  "sendRecoveryToWebhook service cfg w =
     (if newRequest w (Method cfg) (URL cfg) then
        (case call (ReqHttp cfg) (logmsg Info (ID service) ''calling webhook'' w) of
           (True, w1) \<Rightarrow> (Some Transport, w1)
         | (False, w1) \<Rightarrow> (None, w1))
      else (Some Panic, logmsg Info (ID service) ''calling webhook'' w))"

text \<open>
  The body shared by \<open>sendAlertToSlack\<close> and \<open>sendRecoveryToSlack\<close>, which differ in
  the title, the colour and the text of the attachment.
\<close>

definition postToSlack ::
  "string \<Rightarrow> string \<Rightarrow> string \<Rightarrow> ServiceConfig \<Rightarrow> SlackConfig \<Rightarrow> world \<Rightarrow> error option \<times> world" where
  "postToSlack title color txt service cfg w =
     (case GetLastHeartbeat (ID service) (logmsg Info (ID service) ''sending slack message'' w) of
        ((lastHearbeat, err), w1) \<Rightarrow>
          (case call
                  (ReqSlack (SlackToken cfg) (Channel cfg)
                     \<lparr>Title = title, Color = color, Text = txt,
                      Fields =
                        [(''service'', ID service)]
                        @ (if err = None
                           then [(''last heartbeat'', render w1 (Format RFC3339 lastHearbeat))]
                           else [])
                        @ MessageFields cfg\<rparr>)
                  (if err = None then w1
                   else logmsg Error (ID service) ''can't load last heartbeat'' w1) of
             (True, w2) \<Rightarrow> (Some Transport, w2)
           | (False, w2) \<Rightarrow> (None, w2)))"

definition sendAlertToSlack ::
  "ServiceConfig \<Rightarrow> SlackConfig \<Rightarrow> world \<Rightarrow> error option \<times> world" where
  "sendAlertToSlack service cfg w =
     postToSlack ''ALERT'' ''danger''
       (''The service '' @ ID service @ '' has stopped sending heartbeats'') service cfg w"

definition sendRecoveryToSlack ::
  "ServiceConfig \<Rightarrow> SlackConfig \<Rightarrow> world \<Rightarrow> error option \<times> world" where
  "sendRecoveryToSlack service cfg w =
     postToSlack ''RECOVERY'' ''good''
       (''The service '' @ ID service @ '' started sending heartbeats again'') service cfg w"

text \<open>
  The loop over the notifications of a service, which \<open>SendAlerts\<close> and
  \<open>SendRecoveryNotifications\<close> each write out; the flag says which of the two runs.
  With a queue, the task is enqueued and an error of the queue is returned. Without a
  queue, each case of the switch declares its own \<open>err\<close> (\<open>cfg, err := ...\<close>), so the
  result of the send function is assigned to that variable of the case; the test after
  the switch reads the result variable of the function, which nothing has assigned, and
  the loop goes on to the next notification. A panic of the send function is not an
  error it returns: it ends the loop and everything that called it.
\<close>

fun notifyLoop ::
  "bool \<Rightarrow> ServiceConfig \<Rightarrow> NotificationConfig list \<Rightarrow> world \<Rightarrow> error option \<times> world" where
  "notifyLoop recovery service [] w = (None, w)"
| "notifyLoop recovery service (notification # rest) w =
     (case queue w of
        Some q \<Rightarrow>
          (case Enqueue q
                  \<lparr>Service = service, Notification = notification, IsRecoveryMessage = recovery\<rparr>
                  (logmsg Debug (ID service) ''enqueuing notification call'' w) of
             (Some err, w1) \<Rightarrow> (Some err, w1)
           | (None, w1) \<Rightarrow> notifyLoop recovery service rest w1)
      | None \<Rightarrow>
          if Type notification = NotificationTypeWebhook then
            (case GetWebhookConfig notification of
               Inl err \<Rightarrow> (Some err, w)
             | Inr cfg \<Rightarrow>
                 (case (if recovery then sendRecoveryToWebhook else sendAlertToWebhook)
                         service cfg w of
                    (err, w1) \<Rightarrow>
                      if err = Some Panic then (Some Panic, w1)
                      else notifyLoop recovery service rest w1))
          else if Type notification = NotificationTypeSlack then
            (case GetSlackConfig notification of
               Inl err \<Rightarrow> (Some err, w)
             | Inr cfg \<Rightarrow>
                 notifyLoop recovery service rest
                   (snd ((if recovery then sendRecoveryToSlack else sendAlertToSlack)
                           service cfg w)))
          else (Some (ErrorsNew ''unimplemented notification type''), w))"

text \<open>The debounce test at the head of \<open>SendAlerts\<close>: whether the alerts are held back.\<close>

definition debounced :: "ServiceConfig \<Rightarrow> world \<Rightarrow> bool \<times> world" where
  "debounced service w =
     (if Debounce service > 0 then
        (case GetLastMessageSendTimestamp (ID service) w of
           ((lastMessageSend, None), w1) \<Rightarrow>
             (case Now w1 of
                (now, w2) \<Rightarrow> (Before (Add now (- Debounce service)) lastMessageSend, w2))
         | ((lastMessageSend, Some err), w1) \<Rightarrow> (False, w1))
      else (False, w))"

definition SendAlerts :: "ServiceConfig \<Rightarrow> world \<Rightarrow> error option \<times> world" where
  "SendAlerts service w =
     (case debounced service w of
        (True, w1) \<Rightarrow>
          (None,
           logmsg Info (ID service) ''don't enqueue alert messages because of debouncing'' w1)
      | (False, w1) \<Rightarrow>
          (case notifyLoop False service (AlertNotifications service)
                  (logmsg Info (ID service) ''send out alert messages'' w1) of
             (Some err, w2) \<Rightarrow> (Some err, w2)
           | (None, w2) \<Rightarrow>
               (case Now w2 of (now, w3) \<Rightarrow> SetLastMessageSendTimestamp (ID service) now w3)))"

definition SendRecoveryNotifications :: "ServiceConfig \<Rightarrow> world \<Rightarrow> error option \<times> world" where
  "SendRecoveryNotifications service w =
     (case notifyLoop True service (RecoveryNotifications service)
             (logmsg Info (ID service) ''send out recovery messages'' w) of
        (Some err, w1) \<Rightarrow> (Some err, w1)
      | (None, w1) \<Rightarrow>
          (case Now w1 of (now, w2) \<Rightarrow> SetLastMessageSendTimestamp (ID service) now w2))"

section \<open>The checker (package checker)\<close>

definition checkDeadlineOfService :: "ServiceConfig \<Rightarrow> world \<Rightarrow> error option \<times> world" where
  "checkDeadlineOfService svc w =
     (case GetLastHeartbeat (ID svc) w of
        ((t, err), w1) \<Rightarrow>
          (case Now (if err \<noteq> None
                     then logmsg Error (ID svc) ''failed to get last heartbeat'' w1 else w1) of
             (now, w2) \<Rightarrow>
               if Sub now t > Timeout svc then
                 (case GetAlarmActiveSince (ID svc)
                         (logmsg Info (ID svc) ''service is overdue'' w2) of
                    ((a, err'), w3) \<Rightarrow>
                      SendAlerts svc
                        (if err' = Some ErrNotFound then
                           (case Now w3 of
                              (now', w4) \<Rightarrow>
                                (case SetAlarmActiveSince (ID svc) now' w4 of
                                   (Some e, w5) \<Rightarrow>
                                     logmsg Error (ID svc) ''failed to set alarm active state'' w5
                                 | (None, w5) \<Rightarrow> w5))
                         else w3))
               else
                 (None, logmsg Info (ID svc) ''service is considered alive'' (snd (Now w2)))))"

text \<open>
  The loop of \<open>checkDeadlines\<close> over the configurations read from the channel. The
  context is taken not to be cancelled; what arrives on the error channel is only
  logged. An error that a check returns is logged and the loop goes on; a check that
  panics ends the loop, and with it the goroutine of the checker and the process.
\<close>

fun checkServices :: "ServiceConfig list \<Rightarrow> world \<Rightarrow> error option \<times> world" where
  "checkServices [] w = (None, w)"
| "checkServices (svc # rest) w =
     (case checkDeadlineOfService svc w of
        (Some err, w1) \<Rightarrow>
          if err = Panic then (Some Panic, w1)
          else checkServices rest (logmsg Error (ID svc) ''failed to check deadline'' w1)
      | (None, w1) \<Rightarrow> checkServices rest w1)"

definition checkDeadlines :: "world \<Rightarrow> error option \<times> world" where
  "checkDeadlines w =
     (case GetServiceConfigs w of
        ((configs, errs), w1) \<Rightarrow>
          (case checkServices configs w1 of
             (Some err, w2) \<Rightarrow> (Some err, w2)
           | (None, w2) \<Rightarrow>
               (None, fold (\<lambda>e. logmsg Error [] ''error reading service configs'') errs w2)))"

definition checkDeadlinesIfLeader :: "world \<Rightarrow> error option \<times> world" where
  "checkDeadlinesIfLeader w =
     (if election w \<noteq> None then
        (case IsLeader ''/deadman-switch/check-leader'' w of
           ((isLeader, Some err), w1) \<Rightarrow>
             if err = DeadlineExceeded then (None, w1) else (Some err, w1)
         | ((isLeader, None), w1) \<Rightarrow>
             if \<not> isLeader then (None, w1) else checkDeadlines w1)
      else checkDeadlines w)"

section \<open>The HTTP server (package server)\<close>

record response =
  status :: nat
  body :: string

text \<open>
  \<open>updateLastHeartbeat\<close> returns nothing; the result says whether it returned (\<open>None\<close>)
  or panicked.
\<close>

definition updateLastHeartbeat :: "ServiceConfig \<Rightarrow> world \<Rightarrow> error option \<times> world" where
  "updateLastHeartbeat svc w =
     (case Now w of
        (now, w1) \<Rightarrow>
          (case SetLastHeartbeat (ID svc) now w1 of
             (err, w2) \<Rightarrow>
               (case GetAlarmActiveSince (ID svc)
                       (if err \<noteq> None
                        then logmsg Error (ID svc) ''failed to update timestamp'' w2 else w2) of
                  ((a, Some err'), w3) \<Rightarrow> (None, w3)
                | ((a, None), w3) \<Rightarrow>
                    (case ClearAlarm (ID svc) w3 of
                       (err'', w4) \<Rightarrow>
                         (case SendRecoveryNotifications svc
                                 (if err'' \<noteq> None
                                  then logmsg Error (ID svc) ''failed to clear alarm timestamp'' w4
                                  else w4) of
                            (Some e, w5) \<Rightarrow>
                              if e = Panic then (Some Panic, w5)
                              else
                                (None,
                                 logmsg Error (ID svc) ''failed to send recovery notifications'' w5)
                          | (None, w5) \<Rightarrow> (None, w5))))))"

text \<open>
  \<open>handlePing\<close> for a request to \<open>/ping/{serviceID}\<close> whose query gives \<open>token\<close> (the
  empty string when the query has none). The response is written after
  \<open>updateLastHeartbeat\<close> has returned. When that call panics, the HTTP server recovers the
  panic of the handler and closes the connection: the request gets no response.
\<close>

definition handlePing :: "string \<Rightarrow> string \<Rightarrow> world \<Rightarrow> response option \<times> world" where
  "handlePing serviceID token w =
     (case GetServiceConfig serviceID w of
        (Inl err, w1) \<Rightarrow>
          (Some \<lparr>status = 404, body = ''nice to meet you stranger''\<rparr>,
           logmsg Error serviceID ''failed to load service config'' w1)
      | (Inr svcConfig, w1) \<Rightarrow>
          if Token svcConfig \<noteq> [] \<and> token \<noteq> Token svcConfig then
            (Some \<lparr>status = 401,
                   body = ''you might wish to supply a correct token for this request''\<rparr>,
             logmsg Warn serviceID ''failed to validate token'' w1)
          else
            (case updateLastHeartbeat svcConfig
                    (logmsg Info serviceID ''received heartbeat'' w1) of
               (Some e, w2) \<Rightarrow> (None, w2)
             | (None, w2) \<Rightarrow>
                 (Some \<lparr>status = 200,
                        body = ''got it '' @ serviceID @ '', you are still alive''\<rparr>,
                  w2)))"

section \<open>Nodes as the main program wires them\<close>

text \<open>
  What \<open>http.NewRequest\<close> does with the requests of the examples below: it builds the
  \<open>POST\<close> to \<open>http://example.org/alert\<close>. The other request of the examples has the URL
  \<open>://bad\<close>, which has no scheme before the colon and is refused.
\<close>

definition exampleRequest :: "string \<Rightarrow> string \<Rightarrow> bool" where
  "exampleRequest method url = (method = ''POST'' \<and> url = ''http://example.org/alert'')"

text \<open>
  With the memory backend the node has neither a queue nor a concurrency client. With
  the etcd backend the store lives under \<open>/deadman-switch/store\<close>, the queue under
  \<open>/deadman-switch/queue\<close>, and the concurrency client holds an election that has not
  campaigned yet.
\<close>

definition memoryNode :: "ServiceConfig list \<Rightarrow> world" where
  "memoryNode cfgs =
     \<lparr>clock = 0, drift = [], faults = [], watches = [], campaigns = [],
      render = (\<lambda>t. []), newRequest = exampleRequest, kv = [],
      store = MemoryStorage
        \<lparr>services = cfgs, heartbeats = Map.empty, active = Map.empty, lastMessage = Map.empty\<rparr>,
      queue = None, election = None, lease = [], wire = [], logs = []\<rparr>"

definition etcdNode :: world where
  "etcdNode =
     \<lparr>clock = 0, drift = [], faults = [], watches = [], campaigns = [],
      render = (\<lambda>t. []), newRequest = exampleRequest, kv = [],
      store = EtcdStorage ''/deadman-switch/store'',
      queue = Some ''/deadman-switch/queue'', election = Some [], lease = ''694d8b1a3f2c5e07'',
      wire = [], logs = []\<rparr>"

text \<open>No coming call to an outside service fails.\<close>

definition calm :: "world \<Rightarrow> bool" where
  "calm w = (True \<notin> set (faults w))"

text \<open>Two configurations of one service, the second with a token.\<close>

definition svc1 :: ServiceConfig where
  "svc1 = emptyServiceConfig\<lparr>ID := ''svc-1'', Timeout := 30 * Second\<rparr>"

definition svc1' :: ServiceConfig where
  "svc1' = emptyServiceConfig\<lparr>ID := ''svc-1'', Token := ''abc'', Timeout := 30 * Second\<rparr>"

text \<open>A webhook notification and two queued tasks that carry it.\<close>

definition hook :: NotificationConfig where
  "hook =
     \<lparr>Type = ''webhook'',
      Config =
        \<lparr>asWebhook =
           Inr \<lparr>URL = ''http://example.org/alert'', Method = ''POST'', Body = [], Headers = None\<rparr>,
         asSlack = Inl DecodeError\<rparr>\<rparr>"

text \<open>A webhook whose URL \<open>http.NewRequest\<close> refuses.\<close>

definition badHook :: NotificationConfig where
  "badHook =
     \<lparr>Type = ''webhook'',
      Config =
        \<lparr>asWebhook = Inr \<lparr>URL = ''://bad'', Method = ''POST'', Body = [], Headers = None\<rparr>,
         asSlack = Inl DecodeError\<rparr>\<rparr>"



text \<open>
  A service with a debounce of one minute that alerts two webhooks and reports its
  recovery to one.
\<close>

definition svc2 :: ServiceConfig where
  "svc2 =
     \<lparr>ID = ''svc-2'', Token = [], Timeout = 30 * Second, Debounce = 60 * Second,
      AlertNotifications = [hook, hook], RecoveryNotifications = [hook]\<rparr>"

text \<open>
  A memory node half a minute after the epoch on which \<open>svc-2\<close> is in alarm and the
  last message for it went out at ten seconds.
\<close>

definition debouncingNode :: world where
  "debouncingNode =
     (memoryNode [svc2])
       \<lparr>clock := 30 * Second,
        store := MemoryStorage
          \<lparr>services = [svc2], heartbeats = Map.empty,
           active = [''svc-2'' \<mapsto> 5 * Second], lastMessage = [''svc-2'' \<mapsto> 10 * Second]\<rparr>\<rparr>"

text \<open>A service with a debounce of one second, one alert and one recovery notification.\<close>

definition svc3 :: ServiceConfig where
  "svc3 =
     \<lparr>ID = ''svc-3'', Token = [], Timeout = 30 * Second, Debounce = 1 * Second,
      AlertNotifications = [hook], RecoveryNotifications = [hook]\<rparr>"

text \<open>
  A service whose first alert and first recovery notification is the webhook whose
  request cannot be built, and a memory node on which this service is in alarm.
\<close>

definition svc4 :: ServiceConfig where
  "svc4 =
     \<lparr>ID = ''svc-4'', Token = [], Timeout = 30 * Second, Debounce = 0,
      AlertNotifications = [badHook, hook], RecoveryNotifications = [badHook, hook]\<rparr>"

definition brokenHookNode :: world where
  "brokenHookNode =
     (memoryNode [svc4, svc1])
       \<lparr>clock := 30 * Second,
        store := MemoryStorage
          \<lparr>services = [svc4, svc1], heartbeats = Map.empty,
           active = [''svc-4'' \<mapsto> 5 * Second], lastMessage = Map.empty\<rparr>\<rparr>"

text \<open>
  An etcd node at one and a half seconds after the epoch that holds the configuration of
  \<open>svc-2\<close> and an alarm record for it.
\<close>

definition alarmedEtcdNode :: world where
  "alarmedEtcdNode =
     etcdNode
       \<lparr>clock := 1500000000,
        kv := [(''/deadman-switch/store/services/svc-2'', ConfigJSON svc2),
               (''/deadman-switch/store/alarms/svc-2'', TimeVal (TimeText 1 0))]\<rparr>"

text \<open>
  The time \<open>SendRecoveryNotifications\<close> reads from the clock for the last-message
  record: the clock after the loop over the recovery notifications.
\<close>

definition recoveryTime :: "ServiceConfig \<Rightarrow> world \<Rightarrow> time" where
  "recoveryTime service w =
     clock (snd (notifyLoop True service (RecoveryNotifications service)
                   (logmsg Info (ID service) ''send out recovery messages'' w)))"

text \<open>
  The heartbeat record and the alarm record of a service as the store holds them: what
  \<open>GetLastHeartbeat\<close> and \<open>GetAlarmActiveSince\<close> return when the call does not fail.
\<close>

definition heartbeatOf :: "world \<Rightarrow> string \<Rightarrow> time \<times> error option" where
  "heartbeatOf w key =
     (case store w of
        MemoryStorage m \<Rightarrow> memoryStorage_GetLastHeartbeat key m
      | EtcdStorage p \<Rightarrow>
          (case map_of (kv w) (Join [p, ''heartbeats'', key]) of
             None \<Rightarrow> (zeroTime, Some ErrNotFound)
           | Some v \<Rightarrow> Parse v))"

definition alarmOf :: "world \<Rightarrow> string \<Rightarrow> time \<times> error option" where
  "alarmOf w key =
     (case store w of
        MemoryStorage m \<Rightarrow> memoryStorage_GetAlarmActiveSince key m
      | EtcdStorage p \<Rightarrow>
          (case map_of (kv w) (Join [p, ''alarms'', key]) of
             None \<Rightarrow> (zeroTime, Some ErrNotFound)
           | Some v \<Rightarrow> Parse v))"

text \<open>
  What the store of the node keeps of a time it is given, and whether it can read the
  time back: the etcd store reads back the times of the years 0 to 9999.
\<close>

definition kept :: "world \<Rightarrow> time \<Rightarrow> time" where
  "kept w t = (case store w of MemoryStorage m \<Rightarrow> t | EtcdStorage p \<Rightarrow> t - t mod Second)"

definition readable :: "world \<Rightarrow> time \<Rightarrow> bool" where
  "readable w t = (case store w of MemoryStorage m \<Rightarrow> True | EtcdStorage p \<Rightarrow> inYears t)"

text \<open>
  A clean path element: a name without a slash that is neither empty nor \<open>.\<close> nor
  \<open>..\<close>. The etcd store builds its keys with \<open>filepath.Join\<close>, and only for such an id
  are the keys of the records of a service its own; the in-memory store takes any id.
\<close>

definition simple :: "string \<Rightarrow> bool" where
  "simple k = (k \<noteq> [] \<and> CHR ''/'' \<notin> set k \<and> k \<noteq> ''.'' \<and> k \<noteq> ''..'')"

definition plainID :: "world \<Rightarrow> string \<Rightarrow> bool" where
  "plainID w k = (case store w of MemoryStorage m \<Rightarrow> True | EtcdStorage p \<Rightarrow> simple k)"

text \<open>The cleaned form of a prefix with the slash that follows it in a key.\<close>

definition cleanDir :: "string \<Rightarrow> string" where
  "cleanDir p =
     (if p = [] then []
      else
        (case foldl (cleanStep (hd p = CHR ''/'')) (0, []) (splitSlash p) of
           (ups, st) \<Rightarrow>
             if hd p = CHR ''/'' then ''/'' @ (if st = [] then [] else joinSlash st @ ''/'')
             else if replicate ups ''..'' @ st = [] then []
             else joinSlash (replicate ups ''..'' @ st) @ ''/''))"

text \<open>
  The calls of an accepted ping before the recovery notifications, in their order: the
  read of the configuration, the write of the heartbeat, the read of the alarm record
  and, when there is one, its deletion. The in-memory store makes no call.
\<close>

definition pingCalls :: "world \<Rightarrow> string \<Rightarrow> ServiceConfig \<Rightarrow> bool \<Rightarrow> request list" where
  "pingCalls w serviceID cfg alarm =
     (case store w of
        MemoryStorage m \<Rightarrow> []
      | EtcdStorage p \<Rightarrow>
          [ReqGet (Join [p, ''services'', serviceID]),
           ReqPut (Join [p, ''heartbeats'', ID cfg]) (TimeVal (Format RFC3339 (clock w))),
           ReqGet (Join [p, ''alarms'', ID cfg])]
          @ (if alarm then [ReqDelete (Join [p, ''alarms'', ID cfg])] else []))"

text \<open>The requests that emit a notification: a task put on the queue, a webhook call, a Slack post.\<close>

fun emits :: "request \<Rightarrow> bool" where
  "emits (ReqPut k (TaskJSON t)) = True"
| "emits (ReqHttp cfg) = True"
| "emits (ReqSlack token channel a) = True"
| "emits r = False"

text \<open>
  A notification that the loop without a queue can send: its type is one of the two the
  switch knows, its configuration decodes and, for a webhook, \<open>http.NewRequest\<close> builds
  its request.
\<close>

definition dispatchable :: "world \<Rightarrow> NotificationConfig \<Rightarrow> bool" where
  "dispatchable w n =
     (Type n = NotificationTypeWebhook \<and>
        (case asWebhook (Config n) of
           Inl e \<Rightarrow> False
         | Inr cfg \<Rightarrow> newRequest w (Method cfg) (URL cfg)) \<or>
      Type n = NotificationTypeSlack \<and> \<not> isl (asSlack (Config n)))"

text \<open>
  One pass through the body of the notification loop: the error that ends the loop, if
  any, and the world after the pass.
\<close>

definition notifyStep ::
  "bool \<Rightarrow> ServiceConfig \<Rightarrow> NotificationConfig \<Rightarrow> world \<Rightarrow> error option \<times> world" where
  "notifyStep recovery service notification w =
     (case queue w of
        Some q \<Rightarrow>
          Enqueue q
            \<lparr>Service = service, Notification = notification, IsRecoveryMessage = recovery\<rparr>
            (logmsg Debug (ID service) ''enqueuing notification call'' w)
      | None \<Rightarrow>
          if Type notification = NotificationTypeWebhook then
            (case GetWebhookConfig notification of
               Inl err \<Rightarrow> (Some err, w)
             | Inr cfg \<Rightarrow>
                 (case (if recovery then sendRecoveryToWebhook else sendAlertToWebhook)
                         service cfg w of
                    (err, w1) \<Rightarrow> if err = Some Panic then (Some Panic, w1) else (None, w1)))
          else if Type notification = NotificationTypeSlack then
            (case GetSlackConfig notification of
               Inl err \<Rightarrow> (Some err, w)
             | Inr cfg \<Rightarrow>
                 (None,
                  snd ((if recovery then sendRecoveryToSlack else sendAlertToSlack)
                         service cfg w)))
          else (Some (ErrorsNew ''unimplemented notification type''), w))"

text \<open>The world with every last-message record of the in-memory store erased.\<close>

definition forgetLastMessage :: "world \<Rightarrow> world" where
  "forgetLastMessage w =
     (case store w of
        MemoryStorage m \<Rightarrow> w\<lparr>store := MemoryStorage (m\<lparr>lastMessage := Map.empty\<rparr>)\<rparr>
      | EtcdStorage p \<Rightarrow> w)"

text \<open>The calls made between two states of the world.\<close>

definition sent :: "world \<Rightarrow> world \<Rightarrow> request list" where
  "sent w w' = drop (length (wire w)) (wire w')"

text \<open>A service whose timeout is the largest duration there is.\<close>

definition svcMax :: ServiceConfig where
  "svcMax = emptyServiceConfig\<lparr>ID := ''svc-max'', Timeout := maxDuration\<rparr>"

text \<open>
  A memory node ten seconds after the epoch on which \<open>svc-1\<close> was pinged at the epoch,
  and an etcd node whose third call to etcd fails.
\<close>

definition pingedNode :: world where
  "pingedNode =
     (memoryNode [svc1])
       \<lparr>clock := 10 * Second,
        store := MemoryStorage
          \<lparr>services = [svc1], heartbeats = [''svc-1'' \<mapsto> 0], active = Map.empty,
           lastMessage = Map.empty\<rparr>\<rparr>"

definition failingNode :: world where
  "failingNode = etcdNode\<lparr>faults := [False, False, True]\<rparr>"

text \<open>
  A state that differs from another one by reads and log lines only: store, key space
  and clock are the same, and nothing was emitted in between.
\<close>

definition quietly :: "world \<Rightarrow> world \<Rightarrow> bool" where
  "quietly w w' =
     (store w' = store w \<and> kv w' = kv w \<and> clock w' = clock w \<and> drift w' = drift w \<and>
      queue w' = queue w \<and> (calm w \<longrightarrow> calm w') \<and>
      (\<exists>new. wire w' = wire w @ new \<and> filter emits new = []))"

section \<open>Properties\<close>

subsection \<open>Calls that do not fail\<close>

lemma calm_update [simp]:
  "calm (clock_update f1 w) = calm w"
  "calm (drift_update f2 w) = calm w"
  "calm (watches_update f3 w) = calm w"
  "calm (campaigns_update f4 w) = calm w"
  "calm (render_update f5 w) = calm w"
  "calm (kv_update f6 w) = calm w"
  "calm (store_update f7 w) = calm w"
  "calm (queue_update f8 w) = calm w"
  "calm (election_update f9 w) = calm w"
  "calm (wire_update f10 w) = calm w"
  "calm (logs_update f11 w) = calm w"
  "calm (newRequest_update f12 w) = calm w"
  "calm (lease_update f13 w) = calm w"
  by (simp_all add: calm_def)

lemma calm_faults_update [simp]: "calm (faults_update f w) = (True \<notin> set (f (faults w)))"
  by (simp add: calm_def)

lemma calm_tl [simp]: "calm w \<Longrightarrow> True \<notin> set (tl (faults w))"
  by (cases "faults w") (auto simp: calm_def)

lemma call_calm:
  "calm w \<Longrightarrow> call r w = (False, w\<lparr>faults := tl (faults w), wire := wire w @ [r]\<rparr>)"
  by (cases "faults w") (auto simp: call_def calm_def)

lemma kvPut_calm:
  "calm w \<Longrightarrow> kvPut k v w =
     (None, w\<lparr>faults := tl (faults w), wire := wire w @ [ReqPut k v],
              kv := AList.update k v (kv w)\<rparr>)"
  by (simp add: kvPut_def call_calm)

lemma kvGet_calm:
  "calm w \<Longrightarrow> kvGet k w =
     (Inr (case map_of (kv w) k of None \<Rightarrow> [] | Some v \<Rightarrow> [v]),
      w\<lparr>faults := tl (faults w), wire := wire w @ [ReqGet k]\<rparr>)"
  by (simp add: kvGet_def call_calm)

lemma kvDelete_calm:
  "calm w \<Longrightarrow> kvDelete k w =
     (None, w\<lparr>faults := tl (faults w), wire := wire w @ [ReqDelete k],
              kv := AList.delete k (kv w)\<rparr>)"
  by (simp add: kvDelete_def call_calm)

subsection \<open>Keys\<close>

text \<open>
  A path that ends in clean elements is cleaned by cleaning what comes before them, so
  the key of a record is the cleaned prefix, the name of the record and the id.
\<close>

lemma splitSlash_ne [simp]: "splitSlash s \<noteq> []"
  by (induction s) (auto split: list.splits)

lemma splitSlash_plain: "CHR ''/'' \<notin> set k \<Longrightarrow> splitSlash k = [k]"
  by (induction k) auto

lemma splitSlash_append:
  "splitSlash (x @ CHR ''/'' # y) = splitSlash x @ splitSlash y"
  by (induction x) (auto split: list.splits)

lemma joinSlash_snoc:
  "joinSlash (xs @ [y]) = (if xs = [] then y else joinSlash xs @ CHR ''/'' # y)"
  by (induction xs rule: joinSlash.induct) auto

lemma joinSlash_snoc':
  "joinSlash (xs @ st @ [y]) = (if xs @ st = [] then y else joinSlash (xs @ st) @ CHR ''/'' # y)"
  using joinSlash_snoc [of "xs @ st" y] by simp

lemma cleanStep_simple: "simple c \<Longrightarrow> cleanStep r (ups, st) c = (ups, st @ [c])"
  by (auto simp: cleanStep_def simple_def)

lemma fold_state:
  "\<exists>ups st. foldl (cleanStep r) (0, []) xs = (ups, st)"
  by (cases "foldl (cleanStep r) (0, []) xs") simp

lemma simple_hd: "simple k \<Longrightarrow> hd k \<noteq> CHR ''/''"
  by (cases k) (auto simp: simple_def)

lemma splitSlash_simple: "simple k \<Longrightarrow> splitSlash k = [k]"
  by (simp add: splitSlash_plain simple_def)

lemma simple_ne: "simple k \<Longrightarrow> k \<noteq> []"
  by (simp add: simple_def)

lemma Clean_simple: "simple k \<Longrightarrow> Clean k = k"
  by (simp add: Clean_def splitSlash_simple cleanStep_simple simple_hd simple_ne)

lemma cleanDir_simple: "simple k \<Longrightarrow> cleanDir k = k @ ''/''"
  by (simp add: cleanDir_def splitSlash_simple cleanStep_simple simple_hd simple_ne)

lemma Clean_dir:
  assumes "simple k" and "p \<noteq> []"
  shows "Clean (p @ CHR ''/'' # k) = cleanDir p @ k"
proof -
  obtain ups st where s: "foldl (cleanStep (hd p = CHR ''/'')) (0, []) (splitSlash p) = (ups, st)"
    using fold_state by blast
  have k: "splitSlash k = [k]"
    using assms(1) by (rule splitSlash_simple)
  show ?thesis
    using assms(2)
    by (simp add: Clean_def cleanDir_def splitSlash_append k s cleanStep_simple [OF assms(1)]
        joinSlash_snoc joinSlash_snoc')
qed

lemma cleanDir_snoc:
  assumes "simple k" and "p \<noteq> []"
  shows "cleanDir (p @ CHR ''/'' # k) = cleanDir p @ k @ ''/''"
proof -
  obtain ups st where s: "foldl (cleanStep (hd p = CHR ''/'')) (0, []) (splitSlash p) = (ups, st)"
    using fold_state by blast
  have k: "splitSlash k = [k]"
    using assms(1) by (rule splitSlash_simple)
  show ?thesis
    using assms(2)
    by (simp add: cleanDir_def splitSlash_append k s cleanStep_simple [OF assms(1)]
        joinSlash_snoc joinSlash_snoc')
qed

lemma Join2: "simple a \<Longrightarrow> Join [p, a] = cleanDir p @ a"
  using Clean_dir [of a p]
  by (cases "p = []") (simp_all add: Join_def Clean_simple cleanDir_def simple_def)

lemma Join3:
  assumes "simple a" and "simple k"
  shows "Join [p, a, k] = cleanDir p @ a @ CHR ''/'' # k"
proof (cases "p = []")
  case True
  have "a \<noteq> []" using assms(1) by (simp add: simple_def)
  then show ?thesis
    using True Clean_dir [OF assms(2), of a] cleanDir_simple [OF assms(1)]
    by (simp add: Join_def cleanDir_def)
next
  case False
  have "Join [p, a, k] = Clean ((p @ CHR ''/'' # a) @ CHR ''/'' # k)"
    using False by (simp add: Join_def)
  also have "\<dots> = cleanDir (p @ CHR ''/'' # a) @ k"
    by (rule Clean_dir [OF assms(2)]) simp
  finally show ?thesis
    by (simp add: cleanDir_snoc [OF assms(1) False])
qed

lemma split_at_slash:
  "CHR ''/'' \<notin> set a \<Longrightarrow> CHR ''/'' \<notin> set b \<Longrightarrow> a @ CHR ''/'' # x = b @ CHR ''/'' # y \<Longrightarrow>
     a = b \<and> x = y"
proof (induction a arbitrary: b)
  case Nil
  then show ?case by (cases b) auto
next
  case (Cons c a)
  then show ?case by (cases b) auto
qed

lemma keys_apart:
  assumes "simple a" "simple b" "simple x" "simple y" "a \<noteq> b"
  shows "Join [p, a, x] \<noteq> Join [p, b, y]"
  using assms split_at_slash [of a b x y]
  by (auto simp: Join3 simple_def)

lemma simple_names [simp]:
  "simple ''heartbeats''" "simple ''alarms''" "simple ''lastMessage''" "simple ''services''"
  "simple ''items''" "simple ''queue''"
  by (simp_all add: simple_def)

lemma Join_alarms_heartbeats:
  "simple x \<Longrightarrow> simple y \<Longrightarrow> Join [p, ''alarms'', x] \<noteq> Join [p, ''heartbeats'', y]"
  by (rule keys_apart) simp_all

lemma Join_heartbeats_lastMessage:
  "simple x \<Longrightarrow> simple y \<Longrightarrow> Join [p, ''heartbeats'', x] \<noteq> Join [p, ''lastMessage'', y]"
  by (rule keys_apart) simp_all

lemma cleanDir_store [simp]: "cleanDir ''/deadman-switch/store'' = ''/deadman-switch/store/''"
  by (simp add: cleanDir_def cleanStep_def)

lemma cleanDir_queue [simp]: "cleanDir ''/deadman-switch/queue'' = ''/deadman-switch/queue/''"
  by (simp add: cleanDir_def cleanStep_def)

lemma simple_ids [simp]: "simple ''svc-1''" "simple ''svc-2''" "simple ''svc-3''"
  by (simp_all add: simple_def)

text \<open>
  An id that is not a clean element lands on another key: the heartbeat of
  \<open>../services-x\<close> is kept under a key beside the service configurations.
\<close>

lemma Join_unclean:
  "Join [''/deadman-switch/store'', ''heartbeats'', ''../services-x'']
     = ''/deadman-switch/store/services-x'' \<and>
   Join [''/deadman-switch/store'', ''alarms'', ''../services-x'']
     = ''/deadman-switch/store/services-x''"
  by (simp add: Join_def Clean_def cleanStep_def)

subsection \<open>Timestamps in the store\<close>

lemma Parse_Format:
  "Parse (TimeVal (Format RFC3339 t)) =
     (if inYears t then (t - t mod Second, None) else (zeroTime, Some ParseError))"
  by (simp add: Parse_def Format_def inYears_def minus_mod_eq_div_mult)

lemma etcd_time_roundtrip:
  "calm w \<Longrightarrow> fst (etcdGetTime k (snd (etcdSetTime k t w))) = Parse (TimeVal (Format RFC3339 t))"
  by (simp add: etcdGetTime_def etcdSetTime_def kvPut_calm kvGet_calm update_conv')

lemma file_time_roundtrip:
  "dbFaults s = [] \<Longrightarrow>
     fst (fileGetTime k (snd (fileSetTime k t s))) = Parse (TimeVal (Format RFC3339 t))"
  by (simp add: fileGetTime_def fileSetTime_def dbPut_def dbGet_def dbCall_def update_conv')

lemma store_etcdSetTime [simp]: "store (snd (etcdSetTime k t w)) = store w"
  by (cases "faults w") (simp_all add: etcdSetTime_def kvPut_def call_def split: bool.splits)

text \<open>
  Claim C5, as the code has it. The etcd store and the file store write every timestamp
  with the layout \<open>RFC3339\<close>, which has no fraction of a second, and read it back with
  \<open>time.Parse\<close>. Setting a record to a time \<open>t\<close> of the years 0 to 9999 and getting it
  back gives \<open>t\<close> cut to the whole second, \<open>t - t mod Second\<close>; for a time outside those
  years the get fails with the error of \<open>time.Parse\<close> (when no call fails). Only the
  in-memory store gives \<open>t\<close> itself back. This holds for the heartbeat, the alarm and
  the last-message records.
\<close>

theorem timestamps_whole_seconds:
  "(store w = EtcdStorage p \<and> calm w \<longrightarrow>
      fst (GetLastHeartbeat key (snd (SetLastHeartbeat key t w)))
        = (if inYears t then (t - t mod Second, None) else (zeroTime, Some ParseError)) \<and>
      fst (GetAlarmActiveSince key (snd (SetAlarmActiveSince key t w)))
        = (if inYears t then (t - t mod Second, None) else (zeroTime, Some ParseError)) \<and>
      fst (GetLastMessageSendTimestamp key (snd (SetLastMessageSendTimestamp key t w)))
        = (if inYears t then (t - t mod Second, None) else (zeroTime, Some ParseError))) \<and>
   (dbFaults s = [] \<longrightarrow>
      fst (fileStorage_GetLastHeartbeat key (snd (fileStorage_SetLastHeartbeat key t s)))
        = (if inYears t then (t - t mod Second, None) else (zeroTime, Some ParseError)) \<and>
      fst (fileStorage_GetAlarmActiveSince key (snd (fileStorage_SetAlarmActiveSince key t s)))
        = (if inYears t then (t - t mod Second, None) else (zeroTime, Some ParseError)) \<and>
      fst (fileStorage_GetLastMessageSendTimestamp key
             (snd (fileStorage_SetLastMessageSendTimestamp key t s)))
        = (if inYears t then (t - t mod Second, None) else (zeroTime, Some ParseError))) \<and>
   (store w' = MemoryStorage m \<longrightarrow>
      fst (GetLastHeartbeat key (snd (SetLastHeartbeat key t w'))) = (t, None) \<and>
      fst (GetAlarmActiveSince key (snd (SetAlarmActiveSince key t w'))) = (t, None) \<and>
      fst (GetLastMessageSendTimestamp key (snd (SetLastMessageSendTimestamp key t w')))
        = (t, None))"
proof (intro conjI impI)
  assume "store w = EtcdStorage p \<and> calm w"
  then show
    "fst (GetLastHeartbeat key (snd (SetLastHeartbeat key t w)))
        = (if inYears t then (t - t mod Second, None) else (zeroTime, Some ParseError))"
    "fst (GetAlarmActiveSince key (snd (SetAlarmActiveSince key t w)))
        = (if inYears t then (t - t mod Second, None) else (zeroTime, Some ParseError))"
    "fst (GetLastMessageSendTimestamp key (snd (SetLastMessageSendTimestamp key t w)))
        = (if inYears t then (t - t mod Second, None) else (zeroTime, Some ParseError))"
    by (simp_all add: GetLastHeartbeat_def SetLastHeartbeat_def GetAlarmActiveSince_def
        SetAlarmActiveSince_def GetLastMessageSendTimestamp_def SetLastMessageSendTimestamp_def
        etcdStorage_SetLastHeartbeat_def etcdStorage_GetLastHeartbeat_def
        etcdStorage_SetAlarmActiveSince_def etcdStorage_GetAlarmActiveSince_def
        etcdStorage_SetLastMessageSendTimestamp_def etcdStorage_GetLastMessageSendTimestamp_def
        etcd_time_roundtrip Parse_Format)
next
  assume "dbFaults s = []"
  then show
    "fst (fileStorage_GetLastHeartbeat key (snd (fileStorage_SetLastHeartbeat key t s)))
        = (if inYears t then (t - t mod Second, None) else (zeroTime, Some ParseError))"
    "fst (fileStorage_GetAlarmActiveSince key (snd (fileStorage_SetAlarmActiveSince key t s)))
        = (if inYears t then (t - t mod Second, None) else (zeroTime, Some ParseError))"
    "fst (fileStorage_GetLastMessageSendTimestamp key
             (snd (fileStorage_SetLastMessageSendTimestamp key t s)))
        = (if inYears t then (t - t mod Second, None) else (zeroTime, Some ParseError))"
    by (simp_all add: fileStorage_SetLastHeartbeat_def fileStorage_GetLastHeartbeat_def
        fileStorage_SetAlarmActiveSince_def fileStorage_GetAlarmActiveSince_def
        fileStorage_SetLastMessageSendTimestamp_def fileStorage_GetLastMessageSendTimestamp_def
        file_time_roundtrip Parse_Format)
next
  assume "store w' = MemoryStorage m"
  then show
    "fst (GetLastHeartbeat key (snd (SetLastHeartbeat key t w'))) = (t, None)"
    "fst (GetAlarmActiveSince key (snd (SetAlarmActiveSince key t w'))) = (t, None)"
    "fst (GetLastMessageSendTimestamp key (snd (SetLastMessageSendTimestamp key t w')))
        = (t, None)"
    by (simp_all add: GetLastHeartbeat_def SetLastHeartbeat_def GetAlarmActiveSince_def
        SetAlarmActiveSince_def GetLastMessageSendTimestamp_def SetLastMessageSendTimestamp_def
        onMemory_def
        memoryStorage_SetLastHeartbeat_def memoryStorage_GetLastHeartbeat_def
        memoryStorage_SetAlarmActiveSince_def memoryStorage_GetAlarmActiveSince_def
        memoryStorage_SetLastMessageSendTimestamp_def
        memoryStorage_GetLastMessageSendTimestamp_def)
qed

text \<open>
  The three stores at one and a half seconds after the epoch, and the etcd store at the
  first second of the year 10000.
\<close>

theorem timestamps_whole_seconds_witness:
  "fst (GetLastHeartbeat ''svc-1'' (snd (SetLastHeartbeat ''svc-1'' 1500000000 etcdNode)))
     = (1000000000, None) \<and>
   fst (GetAlarmActiveSince ''svc-1'' (snd (SetAlarmActiveSince ''svc-1'' 1500000000 etcdNode)))
     = (1000000000, None) \<and>
   fst (GetLastMessageSendTimestamp ''svc-1''
         (snd (SetLastMessageSendTimestamp ''svc-1'' 1500000000 etcdNode)))
     = (1000000000, None) \<and>
   fst (GetLastHeartbeat ''svc-1''
         (snd (SetLastHeartbeat ''svc-1'' 253402300800000000000 etcdNode)))
     = (zeroTime, Some ParseError) \<and>
   fst (fileStorage_GetLastHeartbeat ''svc-1''
         (snd (fileStorage_SetLastHeartbeat ''svc-1'' 1500000000 \<lparr>db = [], dbFaults = []\<rparr>)))
     = (1000000000, None) \<and>
   fst (fileStorage_GetAlarmActiveSince ''svc-1''
         (snd (fileStorage_SetAlarmActiveSince ''svc-1'' 1500000000 \<lparr>db = [], dbFaults = []\<rparr>)))
     = (1000000000, None) \<and>
   fst (fileStorage_GetLastMessageSendTimestamp ''svc-1''
         (snd (fileStorage_SetLastMessageSendTimestamp ''svc-1'' 1500000000
                \<lparr>db = [], dbFaults = []\<rparr>)))
     = (1000000000, None) \<and>
   fst (GetLastHeartbeat ''svc-1'' (snd (SetLastHeartbeat ''svc-1'' 1500000000 (memoryNode []))))
     = (1500000000, None)"
proof -
  let ?m = "\<lparr>services = [], heartbeats = Map.empty, active = Map.empty, lastMessage = Map.empty\<rparr>"
  let ?s = "\<lparr>db = [], dbFaults = []\<rparr>"
  have e: "store etcdNode = EtcdStorage ''/deadman-switch/store'' \<and> calm etcdNode"
    by (simp add: etcdNode_def calm_def)
  have f: "dbFaults ?s = []"
    by simp
  have m: "store (memoryNode []) = MemoryStorage ?m"
    by (simp add: memoryNode_def)
  have y: "inYears 1500000000" "\<not> inYears 253402300800000000000"
    by (simp_all add: inYears_def Second_def)
  note a = timestamps_whole_seconds [where w = etcdNode and p = "''/deadman-switch/store''"
      and key = "''svc-1''" and t = 1500000000 and s = ?s and w' = "memoryNode []" and m = ?m]
  note b = timestamps_whole_seconds [where w = etcdNode and p = "''/deadman-switch/store''"
      and key = "''svc-1''" and t = 253402300800000000000]
  show ?thesis
    using a b e f m y by (simp add: Second_def)
qed

text \<open>
  Claim C5 as stated fails: in the etcd store a heartbeat set at 1.5 seconds is read
  back as 1 second, the fraction of the second is gone.
\<close>

theorem timestamps_nanoseconds_counterexample:
  "fst (GetLastHeartbeat ''svc-1'' (snd (SetLastHeartbeat ''svc-1'' 1500000000 etcdNode)))
     \<noteq> (1500000000, None) \<and>
   map_of (kv (snd (SetLastHeartbeat ''svc-1'' 1500000000 etcdNode)))
     ''/deadman-switch/store/heartbeats/svc-1'' = Some (TimeVal (TimeText 1 0))"
  by (simp add: GetLastHeartbeat_def SetLastHeartbeat_def etcdNode_def
      etcdStorage_SetLastHeartbeat_def etcdStorage_GetLastHeartbeat_def
      etcdSetTime_def etcdGetTime_def kvPut_def kvGet_def call_def Join3 Format_def Parse_def
      Second_def)

subsection \<open>Service configurations in the store\<close>

lemma world_store_same [simp]: "store w = s \<Longrightarrow> w\<lparr>store := s\<rparr> = w"
  by auto

lemma removeFirst_None: "(removeFirst i xs = None) = (i \<notin> ID ` set xs)"
  by (induction xs) (auto split: option.splits)

lemma removeFirst_distinct:
  "distinct (map ID xs) \<Longrightarrow> removeFirst i xs = Some ys \<Longrightarrow> i \<notin> ID ` set ys"
proof (induction xs arbitrary: ys)
  case Nil
  then show ?case by simp
next
  case (Cons x xs)
  show ?case
  proof (cases "ID x = i")
    case True
    with Cons.prems show ?thesis by auto
  next
    case False
    with Cons.prems obtain zs where zs: "removeFirst i xs = Some zs" "ys = x # zs"
      by (auto split: option.splits)
    with Cons.IH [of zs] Cons.prems False show ?thesis by auto
  qed
qed

text \<open>
  Claim C8, as the code has it. In the etcd store \<open>DeleteServiceConfig\<close> returns no
  error whether or not a configuration is stored under the id (when the request does
  not fail), and a second delete leaves the keys as the first left them. In the
  in-memory store it returns no error exactly when a configuration with the id is
  stored; otherwise it returns the error \<open>not found\<close> and leaves the store as it was.
  When every id is stored once, deleting twice leaves the state that deleting once
  leaves.
\<close>

theorem deleteServiceConfig_idempotent:
  "(store w = EtcdStorage p \<and> calm w \<longrightarrow>
      fst (DeleteServiceConfig i w) = None \<and>
      fst (DeleteServiceConfig i (snd (DeleteServiceConfig i w))) = None \<and>
      kv (snd (DeleteServiceConfig i (snd (DeleteServiceConfig i w))))
        = kv (snd (DeleteServiceConfig i w))) \<and>
   (store w' = MemoryStorage m \<longrightarrow>
      ((fst (DeleteServiceConfig i w') = None) = (i \<in> ID ` set (services m))) \<and>
      (i \<notin> ID ` set (services m) \<longrightarrow>
         DeleteServiceConfig i w' = (Some (ErrorsNew ''not found''), w')) \<and>
      (distinct (map ID (services m)) \<longrightarrow>
         snd (DeleteServiceConfig i (snd (DeleteServiceConfig i w')))
           = snd (DeleteServiceConfig i w')))"
proof (intro conjI impI)
  assume "store w = EtcdStorage p \<and> calm w"
  then show "fst (DeleteServiceConfig i w) = None"
    "fst (DeleteServiceConfig i (snd (DeleteServiceConfig i w))) = None"
    "kv (snd (DeleteServiceConfig i (snd (DeleteServiceConfig i w))))
        = kv (snd (DeleteServiceConfig i w))"
    by (simp_all add: DeleteServiceConfig_def etcdStorage_DeleteServiceConfig_def kvDelete_calm
        delete_idem)
next
  assume m: "store w' = MemoryStorage m"
  show "(fst (DeleteServiceConfig i w') = None) = (i \<in> ID ` set (services m))"
    using m removeFirst_None [of i "services m"]
    by (auto simp: DeleteServiceConfig_def onMemory_def memoryStorage_DeleteServiceConfig_def
        split: option.splits)
  show "DeleteServiceConfig i w' = (Some (ErrorsNew ''not found''), w')"
    if "i \<notin> ID ` set (services m)"
    using m that removeFirst_None [of i "services m"]
    by (simp add: DeleteServiceConfig_def onMemory_def memoryStorage_DeleteServiceConfig_def)
  show "snd (DeleteServiceConfig i (snd (DeleteServiceConfig i w')))
           = snd (DeleteServiceConfig i w')"
    if d: "distinct (map ID (services m))"
  proof (cases "removeFirst i (services m)")
    case None
    with m show ?thesis
      by (simp add: DeleteServiceConfig_def onMemory_def memoryStorage_DeleteServiceConfig_def)
  next
    case (Some ys)
    with d have "removeFirst i ys = None"
      by (simp add: removeFirst_None removeFirst_distinct)
    with m Some show ?thesis
      by (simp add: DeleteServiceConfig_def onMemory_def memoryStorage_DeleteServiceConfig_def)
  qed
qed

text \<open>
  Claim C8 as stated fails: deleting an id that the in-memory store does not hold
  returns an error.
\<close>

theorem deleteServiceConfig_missing_counterexample:
  "fst (DeleteServiceConfig ''svc-1'' (memoryNode [])) = Some (ErrorsNew ''not found'')"
  by (simp add: DeleteServiceConfig_def memoryNode_def onMemory_def
      memoryStorage_DeleteServiceConfig_def)

text \<open>Deleting in an empty etcd store and in a memory store that holds \<open>svc-1\<close>.\<close>

theorem deleteServiceConfig_idempotent_witness:
  "fst (DeleteServiceConfig ''svc-1'' etcdNode) = None \<and>
   kv (snd (DeleteServiceConfig ''svc-1'' (snd (DeleteServiceConfig ''svc-1'' etcdNode))))
     = kv (snd (DeleteServiceConfig ''svc-1'' etcdNode)) \<and>
   fst (DeleteServiceConfig ''svc-1'' (memoryNode [svc1])) = None \<and>
   DeleteServiceConfig ''svc-2'' (memoryNode [svc1])
     = (Some (ErrorsNew ''not found''), memoryNode [svc1]) \<and>
   snd (DeleteServiceConfig ''svc-1'' (snd (DeleteServiceConfig ''svc-1'' (memoryNode [svc1]))))
     = snd (DeleteServiceConfig ''svc-1'' (memoryNode [svc1]))"
proof -
  let ?m = "\<lparr>services = [svc1], heartbeats = Map.empty, active = Map.empty,
             lastMessage = Map.empty\<rparr>"
  have e: "store etcdNode = EtcdStorage ''/deadman-switch/store'' \<and> calm etcdNode"
    by (simp add: etcdNode_def calm_def)
  have m: "store (memoryNode [svc1]) = MemoryStorage ?m"
    by (simp add: memoryNode_def)
  have i: "''svc-1'' \<in> ID ` set (services ?m)" "''svc-2'' \<notin> ID ` set (services ?m)"
    "distinct (map ID (services ?m))"
    by (simp_all add: svc1_def emptyServiceConfig_def)
  show ?thesis
    using deleteServiceConfig_idempotent
        [of etcdNode "''/deadman-switch/store''" "''svc-1''" "memoryNode [svc1]" ?m]
      deleteServiceConfig_idempotent
        [of etcdNode "''/deadman-switch/store''" "''svc-2''" "memoryNode [svc1]" ?m]
      e m i
    by simp
qed

text \<open>
  Claim C7 (the id of a service configuration is a primary key: a save with an existing
  id replaces the stored configuration) does not hold in the in-memory store. Saving a
  second configuration with the id \<open>svc-1\<close> appends it: the list then yields two
  configurations with that id, and \<open>GetServiceConfig\<close> keeps returning the old one.
\<close>

theorem memoryStorage_save_duplicates:
  "fst (fst (GetServiceConfigs (snd (SaveServiceConfig svc1' (memoryNode [svc1])))))
     = [svc1, svc1'] \<and>
   ID svc1 = ID svc1' \<and> svc1 \<noteq> svc1' \<and>
   fst (GetServiceConfig ''svc-1'' (snd (SaveServiceConfig svc1' (memoryNode [svc1]))))
     = Inr svc1"
  by (simp add: GetServiceConfigs_def SaveServiceConfig_def GetServiceConfig_def memoryNode_def
      onMemory_def memoryStorage_SaveServiceConfig_def memoryStorage_GetServiceConfigs_def
      memoryStorage_GetServiceConfig_def svc1_def svc1'_def emptyServiceConfig_def)

text \<open>
  The etcd store does what the claim says: the configuration is put under the key of
  its id, so the saved configuration is the one read back, and no key is added when the
  id was stored before.
\<close>

lemma etcdStorage_save_replaces:
  "store w = EtcdStorage p \<Longrightarrow> calm w \<Longrightarrow>
     fst (GetServiceConfig (ID svc) (snd (SaveServiceConfig svc w))) = Inr svc \<and>
     map fst (kv (snd (SaveServiceConfig svc w)))
       = (if Join [p, ''services'', ID svc] \<in> fst ` set (kv w) then map fst (kv w)
          else map fst (kv w) @ [Join [p, ''services'', ID svc]])"
  by (simp add: GetServiceConfig_def SaveServiceConfig_def etcdStorage_SaveServiceConfig_def
      etcdStorage_GetServiceConfig_def kvPut_calm kvGet_calm update_conv' unmarshalConfig_def
      update_keys)

subsection \<open>Leader election\<close>

text \<open>
  The key of the election is never the value the checker campaigns with: it is empty or
  begins with the prefix of the election. So the test at the head of \<open>IsLeader\<close> fails
  on every tick, and the node campaigns again although it is the leader.
\<close>

lemma leaderKey_not_slot: "leaderKey w \<noteq> ''/deadman-switch/check-leader''"
  by (simp add: leaderKey_def)

lemma isLeader_always_campaigns:
  assumes "election w = Some []  \<or> election w = Some (leaderKey w)"
  shows "wire (snd (IsLeader ''/deadman-switch/check-leader'' w))
           = wire w @ [ReqCampaign (1 * Second) ''/deadman-switch/check-leader'']"
    and "campaigns w = (e, holds) # cs \<Longrightarrow>
           fst (IsLeader ''/deadman-switch/check-leader'' w) =
             (case e of
                None \<Rightarrow> (True, None)
              | Some err \<Rightarrow> (False, if err = Canceled then None else Some err)) \<and>
           election (snd (IsLeader ''/deadman-switch/check-leader'' w))
             = Some (if holds then leaderKey w else [])"
  using assms leaderKey_not_slot [of w]
  by (auto simp: IsLeader_def Campaign_def split: list.splits option.splits prod.splits)

text \<open>
  Claim C4 (a session that already holds the slot gets true without campaigning again;
  an exceeded campaign deadline gives false with no error) does not hold. On an etcd node
  whose campaigns succeed, the first \<open>IsLeader\<close> of the checker wins the election, which
  then holds the key \<open>/deadman-switch-leader/694d8b1a3f2c5e07\<close>; the second
  \<open>IsLeader\<close> compares that key with \<open>/deadman-switch/check-leader\<close> and campaigns
  again before it returns true. And a campaign that runs into its deadline makes
  \<open>IsLeader\<close> return false together with the error \<open>DeadlineExceeded\<close>.
\<close>

theorem isLeader_holder_campaigns_again:
  "fst (IsLeader ''/deadman-switch/check-leader''
         (etcdNode\<lparr>campaigns := [(None, True), (None, True)]\<rparr>)) = (True, None) \<and>
   election (snd (IsLeader ''/deadman-switch/check-leader''
         (etcdNode\<lparr>campaigns := [(None, True), (None, True)]\<rparr>)))
     = Some ''/deadman-switch-leader/694d8b1a3f2c5e07'' \<and>
   fst (IsLeader ''/deadman-switch/check-leader''
         (snd (IsLeader ''/deadman-switch/check-leader''
                (etcdNode\<lparr>campaigns := [(None, True), (None, True)]\<rparr>)))) = (True, None) \<and>
   wire (snd (IsLeader ''/deadman-switch/check-leader''
         (snd (IsLeader ''/deadman-switch/check-leader''
                (etcdNode\<lparr>campaigns := [(None, True), (None, True)]\<rparr>)))))
     = [ReqCampaign 1000000000 ''/deadman-switch/check-leader'',
        ReqCampaign 1000000000 ''/deadman-switch/check-leader''] \<and>
   fst (IsLeader ''/deadman-switch/check-leader''
         (etcdNode\<lparr>campaigns := [(Some DeadlineExceeded, False)]\<rparr>))
     = (False, Some DeadlineExceeded)"
  by (simp add: IsLeader_def Campaign_def etcdNode_def leaderKey_def Second_def)

text \<open>
  It is \<open>checkDeadlinesIfLeader\<close> that turns \<open>DeadlineExceeded\<close> into a skipped tick
  with no error: it reads no configuration and checks no service.
\<close>

lemma checkDeadlinesIfLeader_deadline:
  "election w = Some [] \<or> election w = Some (leaderKey w) \<Longrightarrow>
   campaigns w = (Some DeadlineExceeded, holds) # cs \<Longrightarrow>
     checkDeadlinesIfLeader w =
       (None, w\<lparr>wire := wire w @ [ReqCampaign 1000000000 ''/deadman-switch/check-leader''],
                campaigns := cs, election := Some (if holds then leaderKey w else [])\<rparr>)"
  using leaderKey_not_slot [of w]
  by (auto simp: IsLeader_def Campaign_def Second_def checkDeadlinesIfLeader_def)

subsection \<open>The queue\<close>

lemma notin_tl [simp]: "x \<notin> set xs \<Longrightarrow> x \<notin> set (tl xs)"
  by (cases xs) auto

lemma calm_faults [simp]: "calm w \<Longrightarrow> True \<notin> set (faults w)"
  by (simp add: calm_def)


lemma wire_call: "wire (snd (call r w)) = wire w @ [r]"
  by (simp add: call_def split: list.splits)









subsection \<open>The notification loop\<close>

lemma call_eq:
  "call r w = (faults w \<noteq> [] \<and> hd (faults w), w\<lparr>faults := tl (faults w), wire := wire w @ [r]\<rparr>)"
  by (cases "faults w") (simp_all add: call_def)

lemma Now_eq:
  "Now w = (clock w, w\<lparr>clock := clock w + (case drift w of [] \<Rightarrow> 0 | d # ds \<Rightarrow> d),
                        drift := tl (drift w)\<rparr>)"
  by (cases "drift w") (simp_all add: Now_def)

lemma calm_hd [simp]: "calm w \<Longrightarrow> faults w \<noteq> [] \<Longrightarrow> \<not> hd (faults w)"
  by (cases "faults w") (auto simp: calm_def)

lemma calm_ok [simp]: "calm w \<Longrightarrow> faults w = [] \<or> \<not> hd (faults w)"
  by (cases "faults w") (auto simp: calm_def)

lemmas storage_defs =
  GetLastHeartbeat_def SetLastHeartbeat_def GetAlarmActiveSince_def SetAlarmActiveSince_def
  ClearAlarm_def GetLastMessageSendTimestamp_def SetLastMessageSendTimestamp_def
  etcdStorage_SetLastHeartbeat_def etcdStorage_GetLastHeartbeat_def
  etcdStorage_SetAlarmActiveSince_def etcdStorage_GetAlarmActiveSince_def
  etcdStorage_ClearAlarm_def
  etcdStorage_SetLastMessageSendTimestamp_def etcdStorage_GetLastMessageSendTimestamp_def
  memoryStorage_SetLastHeartbeat_def memoryStorage_GetLastHeartbeat_def
  memoryStorage_SetAlarmActiveSince_def memoryStorage_GetAlarmActiveSince_def
  memoryStorage_ClearAlarm_def
  memoryStorage_SetLastMessageSendTimestamp_def memoryStorage_GetLastMessageSendTimestamp_def
  onMemory_def etcdSetTime_def etcdGetTime_def kvPut_def kvGet_def kvDelete_def

lemmas notify_defs =
  sendAlertToWebhook_def sendRecoveryToWebhook_def sendAlertToSlack_def sendRecoveryToSlack_def
  postToSlack_def Enqueue_def logmsg_def

lemma logmsg_forget: "logmsg l sv m (forgetLastMessage w) = forgetLastMessage (logmsg l sv m w)"
  by (cases "store w") (simp_all add: forgetLastMessage_def logmsg_def)

lemma GetLastHeartbeat_forget:
  "GetLastHeartbeat k (forgetLastMessage w) =
     (fst (GetLastHeartbeat k w), forgetLastMessage (snd (GetLastHeartbeat k w)))"
  by (cases "store w")
    (auto simp: forgetLastMessage_def storage_defs call_eq
      split: bool.splits prod.splits sum.splits list.splits)

lemma call_forget:
  "call r (forgetLastMessage w) = (fst (call r w), forgetLastMessage (snd (call r w)))"
  by (cases "store w") (simp_all add: forgetLastMessage_def call_eq)

lemma Now_forget:
  "Now (forgetLastMessage w) = (fst (Now w), forgetLastMessage (snd (Now w)))"
  by (cases "store w") (simp_all add: forgetLastMessage_def Now_eq)

lemma render_forget [simp]: "render (forgetLastMessage w) = render w"
  by (cases "store w") (simp_all add: forgetLastMessage_def)

lemma newRequest_forget [simp]: "newRequest (forgetLastMessage w) = newRequest w"
  by (cases "store w") (simp_all add: forgetLastMessage_def)

lemma webhook_forget:
  "sendAlertToWebhook sv cfg (forgetLastMessage w) =
     (fst (sendAlertToWebhook sv cfg w), forgetLastMessage (snd (sendAlertToWebhook sv cfg w)))"
  "sendRecoveryToWebhook sv cfg (forgetLastMessage w) =
     (fst (sendRecoveryToWebhook sv cfg w), forgetLastMessage (snd (sendRecoveryToWebhook sv cfg w)))"
  by (simp_all add: sendAlertToWebhook_def sendRecoveryToWebhook_def logmsg_forget call_forget
      case_prod_beta split: bool.splits)

lemma postToSlack_forget:
  "postToSlack a b c sv cfg (forgetLastMessage w) =
     (fst (postToSlack a b c sv cfg w), forgetLastMessage (snd (postToSlack a b c sv cfg w)))"
proof -
  obtain t err w1 where g:
    "GetLastHeartbeat (ID sv) (logmsg Info (ID sv) ''sending slack message'' w) = ((t, err), w1)"
    by (metis surj_pair)
  then have g': "GetLastHeartbeat (ID sv)
      (forgetLastMessage (logmsg Info (ID sv) ''sending slack message'' w))
      = ((t, err), forgetLastMessage w1)"
    by (simp add: GetLastHeartbeat_forget)
  show ?thesis
    by (cases err)
      (simp_all add: postToSlack_def logmsg_forget g g' call_forget case_prod_beta
        split: bool.splits)
qed

lemma kvPut_forget:
  "kvPut k v (forgetLastMessage w) = (fst (kvPut k v w), forgetLastMessage (snd (kvPut k v w)))"
  by (cases "store w") (simp_all add: forgetLastMessage_def kvPut_def call_eq split: bool.splits)

lemma Enqueue_forget:
  "Enqueue q t (forgetLastMessage w) =
     (fst (Enqueue q t w), forgetLastMessage (snd (Enqueue q t w)))"
  by (simp add: Enqueue_def Now_forget logmsg_forget kvPut_forget case_prod_beta)

lemma queue_forget [simp]: "queue (forgetLastMessage w) = queue w"
  by (cases "store w") (simp_all add: forgetLastMessage_def)

lemma notifyLoop_forget:
  "notifyLoop r sv ns (forgetLastMessage w) =
     (fst (notifyLoop r sv ns w), forgetLastMessage (snd (notifyLoop r sv ns w)))"
proof (induction ns arbitrary: w r)
  case Nil
  show ?case by simp
next
  case (Cons n ns)
  show ?case
  proof (cases "queue w")
    case (Some q)
    then show ?thesis
      by (simp add: logmsg_forget Enqueue_forget Cons.IH split: prod.splits option.splits)
  next
    case None
    then show ?thesis
      by (simp add: webhook_forget postToSlack_forget sendAlertToSlack_def
          sendRecoveryToSlack_def Cons.IH case_prod_beta split: sum.splits)
  qed
qed

lemma SetLastMessage_forget:
  "fst (SetLastMessageSendTimestamp k t (forgetLastMessage w))
     = fst (SetLastMessageSendTimestamp k t w) \<and>
   forgetLastMessage (snd (SetLastMessageSendTimestamp k t (forgetLastMessage w)))
     = forgetLastMessage (snd (SetLastMessageSendTimestamp k t w))"
  by (cases "store w")
    (auto simp: forgetLastMessage_def storage_defs call_eq
      split: bool.splits prod.splits sum.splits list.splits)

lemma forget_idem [simp]: "forgetLastMessage (forgetLastMessage w) = forgetLastMessage w"
  by (cases "store w") (simp_all add: forgetLastMessage_def)

lemma recovery_forget:
  "fst (SendRecoveryNotifications service (forgetLastMessage w))
     = fst (SendRecoveryNotifications service w) \<and>
   forgetLastMessage (snd (SendRecoveryNotifications service (forgetLastMessage w)))
     = forgetLastMessage (snd (SendRecoveryNotifications service w))"
  by (auto simp: SendRecoveryNotifications_def logmsg_forget notifyLoop_forget Now_forget
      SetLastMessage_forget split: prod.splits option.splits)

lemma notifyLoop_step:
  "notifyLoop r sv (n # rest) w =
     (case notifyStep r sv n w of
        (Some e, w1) \<Rightarrow> (Some e, w1)
      | (None, w1) \<Rightarrow> notifyLoop r sv rest w1)"
  by (simp add: notifyStep_def split: option.splits sum.splits prod.splits)

text \<open>What one call through the storage interface puts on the wire.\<close>

lemma GetLastHeartbeat_snd:
  "snd (GetLastHeartbeat k w) =
     (case store w of
        MemoryStorage m \<Rightarrow> w
      | EtcdStorage p \<Rightarrow>
          w\<lparr>faults := tl (faults w), wire := wire w @ [ReqGet (Join [p, ''heartbeats'', k])]\<rparr>)"
  by (cases "store w")
    (simp_all add: storage_defs call_eq split: bool.splits option.splits)

lemma kvPut_snd:
  "snd (kvPut k v w) =
     (if faults w \<noteq> [] \<and> hd (faults w)
      then w\<lparr>faults := tl (faults w), wire := wire w @ [ReqPut k v]\<rparr>
      else w\<lparr>faults := tl (faults w), wire := wire w @ [ReqPut k v],
             kv := AList.update k v (kv w)\<rparr>)"
  by (simp add: kvPut_def call_eq)

lemma kvPut_fst: "fst (kvPut k v w) = (if faults w \<noteq> [] \<and> hd (faults w) then Some Transport else None)"
  by (simp add: kvPut_def call_eq)

lemma Enqueue_snd:
  "snd (Enqueue q t w) =
     snd (kvPut (Join [q, ''items'', render w (Format RFC3339Nano (clock w))]) (TaskJSON t)
            (logmsg Debug [] ''enqueue stuff'' (snd (Now w))))"
  by (simp add: Enqueue_def Now_eq)

lemma step_frame:
  "queue (snd (notifyStep r sv n w)) = queue w \<and>
   store (snd (notifyStep r sv n w)) = store w \<and>
   newRequest (snd (notifyStep r sv n w)) = newRequest w \<and>
   (calm w \<longrightarrow> calm (snd (notifyStep r sv n w)))"
  by (cases "store w")
    (simp_all add: notifyStep_def Enqueue_snd kvPut_snd Now_eq logmsg_def
      sendAlertToWebhook_def sendRecoveryToWebhook_def sendAlertToSlack_def
      sendRecoveryToSlack_def postToSlack_def call_eq case_prod_beta GetLastHeartbeat_snd
      split: option.splits sum.splits bool.splits)

lemma dispatchable_frame: "newRequest w' = newRequest w \<Longrightarrow> dispatchable w' = dispatchable w"
  by (rule ext) (simp add: dispatchable_def split: sum.splits)

lemma Enqueue_wire:
  "wire (snd (Enqueue q t w)) =
     wire w @ [ReqPut (Join [q, ''items'', render w (Format RFC3339Nano (clock w))]) (TaskJSON t)]"
  by (simp add: Enqueue_snd kvPut_snd Now_eq logmsg_def)

lemma Enqueue_calm: "calm w \<Longrightarrow> fst (Enqueue q t w) = None"
  by (simp add: Enqueue_def kvPut_fst Now_eq logmsg_def)

lemma webhook_wire:
  "wire (snd (sendAlertToWebhook sv cfg w)) =
     wire w @ (if newRequest w (Method cfg) (URL cfg) then [ReqHttp cfg] else [])"
  "wire (snd (sendRecoveryToWebhook sv cfg w)) =
     wire w @ (if newRequest w (Method cfg) (URL cfg) then [ReqHttp cfg] else [])"
  by (simp_all add: sendAlertToWebhook_def sendRecoveryToWebhook_def call_eq logmsg_def
      split: bool.splits)

lemma webhook_panics:
  "(fst (sendAlertToWebhook sv cfg w) = Some Panic) = (\<not> newRequest w (Method cfg) (URL cfg))"
  "(fst (sendRecoveryToWebhook sv cfg w) = Some Panic) = (\<not> newRequest w (Method cfg) (URL cfg))"
  by (simp_all add: sendAlertToWebhook_def sendRecoveryToWebhook_def call_eq logmsg_def
      split: bool.splits)

lemma slack_wire:
  "\<exists>a. wire (snd (postToSlack x y z sv cfg w)) =
     wire w @
     (case store w of MemoryStorage m \<Rightarrow> [] | EtcdStorage p \<Rightarrow> [ReqGet (Join [p, ''heartbeats'', ID sv])])
     @ [ReqSlack (SlackToken cfg) (Channel cfg) a]"
proof -
  obtain t err w1 where g:
    "GetLastHeartbeat (ID sv) (logmsg Info (ID sv) ''sending slack message'' w) = ((t, err), w1)"
    by (metis surj_pair)
  have w1: "wire w1 = wire w @
     (case store w of MemoryStorage m \<Rightarrow> [] | EtcdStorage p \<Rightarrow> [ReqGet (Join [p, ''heartbeats'', ID sv])])"
    using GetLastHeartbeat_snd [of "ID sv" "logmsg Info (ID sv) ''sending slack message'' w"] g
    by (cases "store w") (simp_all add: logmsg_def)
  define w2 where "w2 = (if err = None then w1
                         else logmsg Error (ID sv) ''can't load last heartbeat'' w1)"
  have w2: "wire w2 = wire w1"
    by (simp add: w2_def logmsg_def)
  define a where "a = \<lparr>Title = x, Color = y, Text = z,
      Fields = [(''service'', ID sv)]
        @ (if err = None then [(''last heartbeat'', render w1 (Format RFC3339 t))] else [])
        @ MessageFields cfg\<rparr>"
  have "snd (postToSlack x y z sv cfg w) = snd (call (ReqSlack (SlackToken cfg) (Channel cfg) a) w2)"
    unfolding postToSlack_def g a_def w2_def by (simp split: prod.splits bool.splits)
  then show ?thesis
    by (simp add: wire_call w1 w2)
qed

lemma step_new:
  "\<exists>new. wire (snd (notifyStep r sv n w)) = wire w @ new \<and>
     (\<forall>p k. store w = EtcdStorage p \<longrightarrow> ReqGet k \<in> set new \<longrightarrow>
        k = Join [p, ''heartbeats'', ID sv]) \<and>
     (calm w \<and> (queue w = None \<longrightarrow> dispatchable w n) \<longrightarrow>
        fst (notifyStep r sv n w) = None \<and> length (filter emits new) = 1)"
proof (cases "queue w")
  case (Some q)
  let ?t = "\<lparr>Service = sv, Notification = n, IsRecoveryMessage = r\<rparr>"
  let ?w = "logmsg Debug (ID sv) ''enqueuing notification call'' w"
  have s: "notifyStep r sv n w = Enqueue q ?t ?w"
    by (simp add: notifyStep_def Some)
  have "calm w \<longrightarrow> fst (Enqueue q ?t ?w) = None"
    using Enqueue_calm [of ?w q ?t] by (simp add: logmsg_def)
  then show ?thesis
    by (simp add: s Enqueue_wire logmsg_def)
next
  case None
  show ?thesis
  proof (cases "Type n = NotificationTypeWebhook")
    case True
    show ?thesis
    proof (cases "asWebhook (Config n)")
      case (Inl e)
      with None True show ?thesis
        by (simp add: notifyStep_def GetWebhookConfig_def dispatchable_def
            NotificationTypeWebhook_def NotificationTypeSlack_def)
    next
      case (Inr cfg)
      have d: "dispatchable w n = newRequest w (Method cfg) (URL cfg)"
        using True Inr
        by (simp add: dispatchable_def NotificationTypeWebhook_def NotificationTypeSlack_def)
      show ?thesis
        using None True Inr d webhook_panics [of sv cfg w]
        by (cases r)
          (simp_all add: notifyStep_def GetWebhookConfig_def webhook_wire case_prod_beta)
    qed
  next
    case nw: False
    show ?thesis
    proof (cases "Type n = NotificationTypeSlack")
      case True
      show ?thesis
      proof (cases "asSlack (Config n)")
        case (Inl e)
        with None True nw show ?thesis
          by (simp add: notifyStep_def GetSlackConfig_def dispatchable_def)
      next
        case (Inr cfg)
        obtain a where a: "wire (snd (postToSlack ''ALERT'' ''danger''
              (''The service '' @ ID sv @ '' has stopped sending heartbeats'') sv cfg w)) =
            wire w @ (case store w of MemoryStorage m \<Rightarrow> []
                      | EtcdStorage p \<Rightarrow> [ReqGet (Join [p, ''heartbeats'', ID sv])])
            @ [ReqSlack (SlackToken cfg) (Channel cfg) a]"
          using slack_wire by blast
        obtain b where b: "wire (snd (postToSlack ''RECOVERY'' ''good''
              (''The service '' @ ID sv @ '' started sending heartbeats again'') sv cfg w)) =
            wire w @ (case store w of MemoryStorage m \<Rightarrow> []
                      | EtcdStorage p \<Rightarrow> [ReqGet (Join [p, ''heartbeats'', ID sv])])
            @ [ReqSlack (SlackToken cfg) (Channel cfg) b]"
          using slack_wire by blast
        show ?thesis
          using None True nw Inr a b
          by (cases "store w"; cases r)
            (simp_all add: notifyStep_def GetSlackConfig_def sendAlertToSlack_def
              sendRecoveryToSlack_def)
      qed
    next
      case False
      with None nw show ?thesis
        by (simp add: notifyStep_def dispatchable_def)
    qed
  qed
qed

lemma loop_frame:
  "queue (snd (notifyLoop r sv ns w)) = queue w \<and>
   store (snd (notifyLoop r sv ns w)) = store w \<and>
   newRequest (snd (notifyLoop r sv ns w)) = newRequest w \<and>
   (calm w \<longrightarrow> calm (snd (notifyLoop r sv ns w)))"
proof (induction ns arbitrary: w)
  case Nil
  show ?case by simp
next
  case (Cons n ns)
  obtain e w1 where s: "notifyStep r sv n w = (e, w1)"
    by (cases "notifyStep r sv n w")
  have f: "queue w1 = queue w" "store w1 = store w" "newRequest w1 = newRequest w"
    "calm w \<longrightarrow> calm w1"
    using step_frame [of r sv n w] s by simp_all
  show ?case
  proof (cases e)
    case (Some err)
    with s f show ?thesis by (simp add: notifyLoop_step del: notifyLoop.simps)
  next
    case None
    with s f Cons.IH [of w1] show ?thesis by (simp add: notifyLoop_step del: notifyLoop.simps)
  qed
qed

lemma loop_new:
  "\<exists>new. wire (snd (notifyLoop r sv ns w)) = wire w @ new \<and>
     (\<forall>p k. store w = EtcdStorage p \<longrightarrow> ReqGet k \<in> set new \<longrightarrow>
        k = Join [p, ''heartbeats'', ID sv]) \<and>
     (calm w \<and> (queue w = None \<longrightarrow> list_all (dispatchable w) ns) \<longrightarrow>
        fst (notifyLoop r sv ns w) = None \<and> length (filter emits new) = length ns)"
proof (induction ns arbitrary: w)
  case Nil
  show ?case by simp
next
  case (Cons n ns)
  obtain e w1 where s: "notifyStep r sv n w = (e, w1)"
    by (cases "notifyStep r sv n w")
  have f: "queue w1 = queue w" "store w1 = store w" "calm w \<longrightarrow> calm w1"
    "dispatchable w1 = dispatchable w"
    using step_frame [of r sv n w] s dispatchable_frame [of w1 w] by auto
  obtain new1 where n1: "wire w1 = wire w @ new1"
    "\<forall>p k. store w = EtcdStorage p \<longrightarrow> ReqGet k \<in> set new1 \<longrightarrow> k = Join [p, ''heartbeats'', ID sv]"
    "calm w \<and> (queue w = None \<longrightarrow> dispatchable w n) \<longrightarrow> e = None \<and> length (filter emits new1) = 1"
    using step_new [of r sv n w] s by auto
  show ?case
  proof (cases e)
    case (Some err)
    have "notifyLoop r sv (n # ns) w = (Some err, w1)"
      using s Some by (simp add: notifyLoop_step del: notifyLoop.simps)
    moreover have "\<not> (calm w \<and> (queue w = None \<longrightarrow> list_all (dispatchable w) (n # ns)))"
      using n1(3) Some by auto
    ultimately show ?thesis
      using n1(1,2) by auto
  next
    case None
    have l: "notifyLoop r sv (n # ns) w = notifyLoop r sv ns w1"
      using s None by (simp add: notifyLoop_step del: notifyLoop.simps)
    obtain new2 where n2: "wire (snd (notifyLoop r sv ns w1)) = wire w1 @ new2"
      "\<forall>p k. store w1 = EtcdStorage p \<longrightarrow> ReqGet k \<in> set new2 \<longrightarrow>
         k = Join [p, ''heartbeats'', ID sv]"
      "calm w1 \<and> (queue w1 = None \<longrightarrow> list_all (dispatchable w1) ns) \<longrightarrow>
         fst (notifyLoop r sv ns w1) = None \<and> length (filter emits new2) = length ns"
      using Cons.IH [of w1] by auto
    have a: "wire (snd (notifyLoop r sv (n # ns) w)) = wire w @ (new1 @ new2)"
      using l n1(1) n2(1) by simp
    have b: "\<forall>p k. store w = EtcdStorage p \<longrightarrow> ReqGet k \<in> set (new1 @ new2) \<longrightarrow>
        k = Join [p, ''heartbeats'', ID sv]"
      using n1(2) n2(2) f(2) by auto
    have c: "calm w \<and> (queue w = None \<longrightarrow> list_all (dispatchable w) (n # ns)) \<longrightarrow>
        fst (notifyLoop r sv (n # ns) w) = None \<and>
        length (filter emits (new1 @ new2)) = length (n # ns)"
      using n1(3) n2(3) f l by auto
    show ?thesis
      using a b c by blast
  qed
qed

lemma SetLastMessage_wire:
  "wire (snd (SetLastMessageSendTimestamp k t w)) =
     wire w @ (case store w of
                 MemoryStorage m \<Rightarrow> []
               | EtcdStorage p \<Rightarrow> [ReqPut (Join [p, ''lastMessage'', k]) (TimeVal (Format RFC3339 t))])"
  by (cases "store w") (simp_all add: storage_defs call_eq split: bool.splits)

lemma recovery_new:
  "\<exists>new. wire (snd (SendRecoveryNotifications sv w)) = wire w @ new \<and>
     (\<forall>p k. store w = EtcdStorage p \<longrightarrow> ReqGet k \<in> set new \<longrightarrow>
        k = Join [p, ''heartbeats'', ID sv]) \<and>
     (calm w \<and> (queue w = None \<longrightarrow> list_all (dispatchable w) (RecoveryNotifications sv)) \<longrightarrow>
        length (filter emits new) = length (RecoveryNotifications sv))"
proof -
  let ?w0 = "logmsg Info (ID sv) ''send out recovery messages'' w"
  obtain e w1 where l: "notifyLoop True sv (RecoveryNotifications sv) ?w0 = (e, w1)"
    by (cases "notifyLoop True sv (RecoveryNotifications sv) ?w0")
  have "dispatchable ?w0 = dispatchable w"
    by (rule dispatchable_frame) (simp add: logmsg_def)
  then have w0: "wire ?w0 = wire w" "store ?w0 = store w" "queue ?w0 = queue w"
    "calm ?w0 = calm w" "dispatchable ?w0 = dispatchable w"
    by (simp_all add: logmsg_def)
  obtain new where n: "wire w1 = wire w @ new"
    "\<forall>p k. store w = EtcdStorage p \<longrightarrow> ReqGet k \<in> set new \<longrightarrow> k = Join [p, ''heartbeats'', ID sv]"
    "calm w \<and> (queue w = None \<longrightarrow> list_all (dispatchable w) (RecoveryNotifications sv)) \<longrightarrow>
       e = None \<and> length (filter emits new) = length (RecoveryNotifications sv)"
    using loop_new [of True sv "RecoveryNotifications sv" ?w0] l w0 by auto
  have f: "store w1 = store w"
    using loop_frame [of True sv "RecoveryNotifications sv" ?w0] l w0 by simp
  show ?thesis
  proof (cases e)
    case (Some err)
    then have "SendRecoveryNotifications sv w = (Some err, w1)"
      using l by (simp add: SendRecoveryNotifications_def)
    with n Some show ?thesis by auto
  next
    case None
    let ?w2 = "snd (Now w1)"
    have s: "SendRecoveryNotifications sv w = SetLastMessageSendTimestamp (ID sv) (clock w1) ?w2"
      using l None by (simp add: SendRecoveryNotifications_def Now_eq)
    have w2: "wire ?w2 = wire w1" "store ?w2 = store w"
      using f by (simp_all add: Now_eq)
    have "wire (snd (SendRecoveryNotifications sv w)) =
        wire w @ (new @ (case store w of
                 MemoryStorage m \<Rightarrow> []
               | EtcdStorage p \<Rightarrow>
                   [ReqPut (Join [p, ''lastMessage'', ID sv]) (TimeVal (Format RFC3339 (clock w1)))]))"
      by (simp add: s SetLastMessage_wire w2 n(1))
    moreover have "\<forall>p k. store w = EtcdStorage p \<longrightarrow>
        ReqGet k \<in> set (new @ (case store w of
                 MemoryStorage m \<Rightarrow> []
               | EtcdStorage p \<Rightarrow>
                   [ReqPut (Join [p, ''lastMessage'', ID sv]) (TimeVal (Format RFC3339 (clock w1)))]))
        \<longrightarrow> k = Join [p, ''heartbeats'', ID sv]"
      using n(2) by (cases "store w") auto
    moreover have "calm w \<and> (queue w = None \<longrightarrow> list_all (dispatchable w) (RecoveryNotifications sv)) \<longrightarrow>
        length (filter emits (new @ (case store w of
                 MemoryStorage m \<Rightarrow> []
               | EtcdStorage p \<Rightarrow>
                   [ReqPut (Join [p, ''lastMessage'', ID sv]) (TimeVal (Format RFC3339 (clock w1)))])))
          = length (RecoveryNotifications sv)"
      using n(3) by (cases "store w") auto
    ultimately show ?thesis by blast
  qed
qed

lemma sent_append: "wire w' = wire w @ new \<Longrightarrow> sent w w' = new"
  by (simp add: sent_def)

text \<open>Alerts that the debounce holds back: nothing leaves the node and the store stays as it is.\<close>

lemma sendAlerts_held_back:
  "Debounce service > 0 \<and>
  GetLastMessageSendTimestamp (ID service) w = ((lastMessageSend, None), w1) \<and>
  clock w - Debounce service < lastMessageSend \<longrightarrow>
    fst (SendAlerts service w) = None \<and>
    filter emits (sent w (snd (SendAlerts service w))) = [] \<and>
    kv (snd (SendAlerts service w)) = kv w \<and> store (snd (SendAlerts service w)) = store w"
proof (intro impI, elim conjE)
  assume d: "Debounce service > 0"
    and g: "GetLastMessageSendTimestamp (ID service) w = ((lastMessageSend, None), w1)"
    and l: "clock w - Debounce service < lastMessageSend"
  have cl: "clock w1 = clock w"
    using g by (cases "store w")
      (auto simp: storage_defs call_eq split: prod.splits sum.splits list.splits bool.splits)
  have "fst (debounced service w) = True"
    using d g l cl by (simp add: debounced_def Now_eq Before_def Add_def)
  then have sa: "SendAlerts service w =
      (None, logmsg Info (ID service) ''don't enqueue alert messages because of debouncing''
               (snd (debounced service w)))"
    by (cases "debounced service w") (simp add: SendAlerts_def)
  have db: "snd (debounced service w) = snd (Now w1)"
    using d g by (simp add: debounced_def Now_eq)
  have w1: "kv w1 = kv w" "store w1 = store w"
    "wire w1 = wire w @ (case store w of MemoryStorage m \<Rightarrow> []
        | EtcdStorage p \<Rightarrow> [ReqGet (Join [p, ''lastMessage'', ID service])])"
    using g by (cases "store w";
        auto simp: storage_defs call_eq split: prod.splits sum.splits list.splits bool.splits)+
  have df: "kv (snd (debounced service w)) = kv w" "store (snd (debounced service w)) = store w"
    "sent w (snd (debounced service w)) =
       (case store w of MemoryStorage m \<Rightarrow> []
        | EtcdStorage p \<Rightarrow> [ReqGet (Join [p, ''lastMessage'', ID service])])"
    by (simp_all add: db Now_eq w1 sent_def)
  show "fst (SendAlerts service w) = None \<and>
    filter emits (sent w (snd (SendAlerts service w))) = [] \<and>
    kv (snd (SendAlerts service w)) = kv w \<and> store (snd (SendAlerts service w)) = store w"
    using df by (cases "store w") (simp_all add: sa logmsg_def sent_def)
qed

text \<open>
  A recovery whose first notification is a webhook for which no request can be built
  panics after two log lines, before any call.
\<close>

lemma recovery_panics:
  assumes "queue v = None" and "RecoveryNotifications sv = n # rest"
    and "Type n = NotificationTypeWebhook" and "asWebhook (Config n) = Inr cfg"
    and "\<not> newRequest v (Method cfg) (URL cfg)"
  shows "SendRecoveryNotifications sv v =
           (Some Panic,
            logmsg Info (ID sv) ''calling webhook''
              (logmsg Info (ID sv) ''send out recovery messages'' v))"
  using assms
  by (simp add: SendRecoveryNotifications_def GetWebhookConfig_def sendRecoveryToWebhook_def
      logmsg_def)

text \<open>
  Claim C2. When the debounce of a service is positive, the last-message record is read
  without error and the clock less the debounce is before the time read, \<open>SendAlerts\<close>
  returns no error and emits nothing: no task is put on the queue, no webhook is called,
  no Slack message is posted, and the store is as it was. \<open>SendRecoveryNotifications\<close>
  does not depend on the last-message records: erasing them from the in-memory store
  changes neither its result nor the world it leaves (but for those records), and with
  the etcd store none of its calls reads a last-message key (the ids being clean path
  elements). It is not held back either: when no call fails (and, without a queue, every
  notification can be sent), it emits as many notifications as the service has recovery
  notifications, whatever the debounce and the last-message record are. What stops it is
  a webhook for which \<open>http.NewRequest\<close> builds no request: there the function panics
  before any call is made.
\<close>

theorem sendAlerts_debounced_recovery_not:
  "(Debounce service > 0 \<and>
    GetLastMessageSendTimestamp (ID service) w = ((lastMessageSend, None), w1) \<and>
    clock w - Debounce service < lastMessageSend \<longrightarrow>
      fst (SendAlerts service w) = None \<and>
      filter emits (sent w (snd (SendAlerts service w))) = [] \<and>
      kv (snd (SendAlerts service w)) = kv w \<and> store (snd (SendAlerts service w)) = store w) \<and>
   fst (SendRecoveryNotifications sv (forgetLastMessage v)) = fst (SendRecoveryNotifications sv v) \<and>
   forgetLastMessage (snd (SendRecoveryNotifications sv (forgetLastMessage v)))
     = forgetLastMessage (snd (SendRecoveryNotifications sv v)) \<and>
   (store v = EtcdStorage p \<and> simple (ID sv) \<and> simple k \<longrightarrow>
      ReqGet (Join [p, ''lastMessage'', k]) \<notin> set (sent v (snd (SendRecoveryNotifications sv v)))) \<and>
   (calm v \<and> (queue v = None \<longrightarrow> list_all (dispatchable v) (RecoveryNotifications sv)) \<longrightarrow>
      length (filter emits (sent v (snd (SendRecoveryNotifications sv v))))
        = length (RecoveryNotifications sv)) \<and>
   (queue v = None \<and> RecoveryNotifications sv = n # rest \<and>
    Type n = NotificationTypeWebhook \<and> asWebhook (Config n) = Inr cfg \<and>
    \<not> newRequest v (Method cfg) (URL cfg) \<longrightarrow>
      SendRecoveryNotifications sv v =
        (Some Panic,
         logmsg Info (ID sv) ''calling webhook''
           (logmsg Info (ID sv) ''send out recovery messages'' v)))"
proof -
  obtain new where n: "wire (snd (SendRecoveryNotifications sv v)) = wire v @ new"
    "\<forall>p k. store v = EtcdStorage p \<longrightarrow> ReqGet k \<in> set new \<longrightarrow> k = Join [p, ''heartbeats'', ID sv]"
    "calm v \<and> (queue v = None \<longrightarrow> list_all (dispatchable v) (RecoveryNotifications sv)) \<longrightarrow>
       length (filter emits new) = length (RecoveryNotifications sv)"
    using recovery_new [of sv v] by auto
  have s: "sent v (snd (SendRecoveryNotifications sv v)) = new"
    using n(1) by (rule sent_append)
  have r: "store v = EtcdStorage p \<and> simple (ID sv) \<and> simple k \<longrightarrow>
      ReqGet (Join [p, ''lastMessage'', k]) \<notin> set (sent v (snd (SendRecoveryNotifications sv v)))"
    using n(2) Join_heartbeats_lastMessage [of "ID sv" k p] by (auto simp: s)
  have c: "calm v \<and> (queue v = None \<longrightarrow> list_all (dispatchable v) (RecoveryNotifications sv)) \<longrightarrow>
      length (filter emits (sent v (snd (SendRecoveryNotifications sv v))))
        = length (RecoveryNotifications sv)"
    using n(3) by (simp add: s)
  have p: "queue v = None \<and> RecoveryNotifications sv = n # rest \<and>
    Type n = NotificationTypeWebhook \<and> asWebhook (Config n) = Inr cfg \<and>
    \<not> newRequest v (Method cfg) (URL cfg) \<longrightarrow>
      SendRecoveryNotifications sv v =
        (Some Panic,
         logmsg Info (ID sv) ''calling webhook''
           (logmsg Info (ID sv) ''send out recovery messages'' v))"
    using recovery_panics [of v sv n rest cfg] by blast
  show ?thesis
    using sendAlerts_held_back [of service w lastMessageSend w1] r c recovery_forget [of sv v]
    by (intro conjI p) simp_all
qed

text \<open>
  On \<open>debouncingNode\<close> the alerts of \<open>svc-2\<close> are held back while its recovery
  notification goes out; on an etcd node the recovery is enqueued without a read of the
  last-message key; on \<open>brokenHookNode\<close> the recovery of \<open>svc-4\<close> panics and no
  call is made.
\<close>

theorem sendAlerts_debounced_recovery_not_witness:
  "fst (SendAlerts svc2 debouncingNode) = None \<and>
   filter emits (sent debouncingNode (snd (SendAlerts svc2 debouncingNode))) = [] \<and>
   length (filter emits (sent debouncingNode (snd (SendRecoveryNotifications svc2 debouncingNode))))
     = 1 \<and>
   ReqGet ''/deadman-switch/store/lastMessage/svc-2''
     \<notin> set (sent etcdNode (snd (SendRecoveryNotifications svc2 etcdNode))) \<and>
   length (filter emits (sent etcdNode (snd (SendRecoveryNotifications svc2 etcdNode)))) = 1 \<and>
   fst (SendRecoveryNotifications svc4 brokenHookNode) = Some Panic \<and>
   wire (snd (SendRecoveryNotifications svc4 brokenHookNode)) = []"
proof -
  have d: "Debounce svc2 > 0" "ID svc2 = ''svc-2''" "RecoveryNotifications svc2 = [hook]"
    by (simp_all add: svc2_def Second_def)
  have g: "GetLastMessageSendTimestamp (ID svc2) debouncingNode
      = ((10 * Second, None), debouncingNode)"
    by (simp add: storage_defs debouncingNode_def memoryNode_def svc2_def)
  have l: "clock debouncingNode - Debounce svc2 < 10 * Second"
    by (simp add: debouncingNode_def svc2_def Second_def)
  have c: "calm debouncingNode" "calm etcdNode" "queue debouncingNode = None"
    "store etcdNode = EtcdStorage ''/deadman-switch/store''" "queue etcdNode \<noteq> None"
    by (simp_all add: debouncingNode_def memoryNode_def etcdNode_def calm_def)
  have h: "list_all (dispatchable debouncingNode) (RecoveryNotifications svc2)"
    by (simp add: d dispatchable_def hook_def NotificationTypeWebhook_def debouncingNode_def
        memoryNode_def exampleRequest_def)
  have j: "Join [''/deadman-switch/store'', ''lastMessage'', ''svc-2'']
      = ''/deadman-switch/store/lastMessage/svc-2''"
    by (simp add: Join3)
  have b: "queue brokenHookNode = None" "RecoveryNotifications svc4 = badHook # [hook]"
    "Type badHook = NotificationTypeWebhook"
    "asWebhook (Config badHook)
       = Inr \<lparr>URL = ''://bad'', Method = ''POST'', Body = [], Headers = None\<rparr>"
    "\<not> newRequest brokenHookNode ''POST'' ''://bad''"
    "wire brokenHookNode = []"
    by (simp_all add: brokenHookNode_def memoryNode_def svc4_def badHook_def
        NotificationTypeWebhook_def exampleRequest_def)
  show ?thesis
    using sendAlerts_debounced_recovery_not [where service = svc2 and w = debouncingNode
        and lastMessageSend = "10 * Second" and ?w1.0 = debouncingNode and sv = svc2
        and v = debouncingNode]
      sendAlerts_debounced_recovery_not [where sv = svc2 and v = etcdNode
        and p = "''/deadman-switch/store''" and k = "''svc-2''"]
      sendAlerts_debounced_recovery_not [where sv = svc4 and v = brokenHookNode
        and n = badHook and rest = "[hook]"
        and cfg = "\<lparr>URL = ''://bad'', Method = ''POST'', Body = [], Headers = None\<rparr>"]
      d g l c h j b
    by (simp add: logmsg_def)
qed

text \<open>
  Claim C10 (a failed enqueue or dispatch makes \<open>SendAlerts\<close> return the error at once,
  without the remaining notifications and without the update of the last-message record)
  does not hold for a dispatch without a queue. On a memory node whose first webhook
  call fails, \<open>SendAlerts\<close> for \<open>svc-2\<close> returns no error, calls the second webhook
  as well and sets the last-message record to the time of the call.
\<close>

theorem sendAlerts_dispatch_error_dropped:
  "fst (SendAlerts svc2 ((memoryNode [svc2])\<lparr>clock := 5 * Second, faults := [True]\<rparr>)) = None \<and>
   wire (snd (SendAlerts svc2 ((memoryNode [svc2])\<lparr>clock := 5 * Second, faults := [True]\<rparr>)))
     = [ReqHttp \<lparr>URL = ''http://example.org/alert'', Method = ''POST'', Body = [], Headers = None\<rparr>,
        ReqHttp \<lparr>URL = ''http://example.org/alert'', Method = ''POST'', Body = [], Headers = None\<rparr>] \<and>
   fst (GetLastMessageSendTimestamp ''svc-2''
         (snd (SendAlerts svc2 ((memoryNode [svc2])\<lparr>clock := 5 * Second, faults := [True]\<rparr>))))
     = (5 * Second, None)"
  by (simp add: SendAlerts_def debounced_def svc2_def hook_def memoryNode_def Second_def
      GetLastMessageSendTimestamp_def memoryStorage_GetLastMessageSendTimestamp_def
      SetLastMessageSendTimestamp_def memoryStorage_SetLastMessageSendTimestamp_def onMemory_def
      Now_eq call_eq logmsg_def NotificationTypeWebhook_def GetWebhookConfig_def
      sendAlertToWebhook_def exampleRequest_def)

subsection \<open>Recovery and debounce\<close>

lemma calm_not_failing [simp]: "calm w \<Longrightarrow> (faults w \<noteq> [] \<and> hd (faults w)) = False"
  by (cases "faults w") (auto simp: calm_def)

lemma kept_store: "store w' = store w \<Longrightarrow> kept w' t = kept w t"
  by (simp add: kept_def)

lemma readable_store: "store w' = store w \<Longrightarrow> readable w' t = readable w t"
  by (simp add: readable_def)

lemma set_then_get_lastMessage:
  assumes "fst (SetLastMessageSendTimestamp k t w) = None"
    and "store v = store (snd (SetLastMessageSendTimestamp k t w))"
    and "kv v = kv (snd (SetLastMessageSendTimestamp k t w))"
    and "calm v"
  shows "\<exists>v1. GetLastMessageSendTimestamp k v =
     ((if readable w t then (kept w t, None) else (zeroTime, Some ParseError)), v1)"
proof (cases "store w")
  case (MemoryStorage m)
  with assms show ?thesis
    by (simp add: storage_defs kept_def readable_def)
next
  case (EtcdStorage p)
  with assms(1) have ok: "\<not> (faults w \<noteq> [] \<and> hd (faults w))"
    by (simp add: storage_defs call_eq split: bool.splits)
  with EtcdStorage assms(2,3) have
    "store v = EtcdStorage p"
    "kv v = AList.update (Join [p, ''lastMessage'', k]) (TimeVal (Format RFC3339 t)) (kv w)"
    by (simp_all add: storage_defs call_eq)
  with assms(4) EtcdStorage show ?thesis
    by (simp add: storage_defs call_eq update_conv' Parse_Format kept_def readable_def)
qed

lemma recovery_success:
  assumes "fst (SendRecoveryNotifications sv w) = None"
  shows "\<exists>w2. store w2 = store w \<and>
     SendRecoveryNotifications sv w = SetLastMessageSendTimestamp (ID sv) (recoveryTime sv w) w2"
proof -
  let ?w0 = "logmsg Info (ID sv) ''send out recovery messages'' w"
  obtain e w1 where l: "notifyLoop True sv (RecoveryNotifications sv) ?w0 = (e, w1)"
    by (cases "notifyLoop True sv (RecoveryNotifications sv) ?w0")
  have f: "store w1 = store w"
    using loop_frame [of True sv "RecoveryNotifications sv" ?w0] l by (simp add: logmsg_def)
  have e: "e = None"
    using assms l by (cases e) (simp_all add: SendRecoveryNotifications_def)
  have "SendRecoveryNotifications sv w =
      SetLastMessageSendTimestamp (ID sv) (recoveryTime sv w) (snd (Now w1))"
    using l e by (simp add: SendRecoveryNotifications_def recoveryTime_def Now_eq)
  moreover have "store (snd (Now w1)) = store w"
    using f by (simp add: Now_eq)
  ultimately show ?thesis by blast
qed

text \<open>
  Claim C9, as the code has it. A \<open>SendRecoveryNotifications\<close> that returns no error
  has set the last-message record of the service to the time it read from the clock, as
  the store keeps it: the time itself in the in-memory store, the time cut to the whole
  second in the etcd store. In any later state of the node with that store (and no
  failing call), the record reads as that kept time, and for a positive debounce
  \<open>SendAlerts\<close> emits nothing while the clock less the debounce is before the kept time.
  The etcd store reads back only a time of the years 0 to 9999: of a time outside them
  the read of the record gives the zero time with the error of the parser.
\<close>

theorem recovery_sets_lastMessage:
  "fst (SendRecoveryNotifications sv w) = None \<and>
   store v = store (snd (SendRecoveryNotifications sv w)) \<and>
   kv v = kv (snd (SendRecoveryNotifications sv w)) \<and> calm v \<longrightarrow>
     fst (GetLastMessageSendTimestamp (ID sv) v) =
       (if readable w (recoveryTime sv w) then (kept w (recoveryTime sv w), None)
        else (zeroTime, Some ParseError)) \<and>
     (readable w (recoveryTime sv w) \<and> 0 < Debounce sv \<and>
      clock v - Debounce sv < kept w (recoveryTime sv w) \<longrightarrow>
        fst (SendAlerts sv v) = None \<and> filter emits (sent v (snd (SendAlerts sv v))) = [])"
proof (intro impI, elim conjE)
  assume ok: "fst (SendRecoveryNotifications sv w) = None"
    and st: "store v = store (snd (SendRecoveryNotifications sv w))"
    and kv: "kv v = kv (snd (SendRecoveryNotifications sv w))"
    and calm: "calm v"
  let ?t = "recoveryTime sv w"
  obtain w2 where w2: "store w2 = store w"
    "SendRecoveryNotifications sv w = SetLastMessageSendTimestamp (ID sv) ?t w2"
    using recovery_success [OF ok] by blast
  obtain v1 where g:
    "GetLastMessageSendTimestamp (ID sv) v =
       ((if readable w ?t then (kept w ?t, None) else (zeroTime, Some ParseError)), v1)"
    using set_then_get_lastMessage [of "ID sv" ?t w2 v] ok st kv calm w2
      kept_store [OF w2(1)] readable_store [OF w2(1)]
    by auto
  have held: "fst (SendAlerts sv v) = None \<and> filter emits (sent v (snd (SendAlerts sv v))) = []"
    if "readable w ?t" "0 < Debounce sv" "clock v - Debounce sv < kept w ?t"
    using g that sendAlerts_held_back [of sv v "kept w ?t" v1] by simp
  show "fst (GetLastMessageSendTimestamp (ID sv) v) =
       (if readable w ?t then (kept w ?t, None) else (zeroTime, Some ParseError)) \<and>
     (readable w ?t \<and> 0 < Debounce sv \<and> clock v - Debounce sv < kept w ?t \<longrightarrow>
        fst (SendAlerts sv v) = None \<and> filter emits (sent v (snd (SendAlerts sv v))) = [])"
    using g held by simp
qed

lemmas eval_defs =
  SendRecoveryNotifications_def SendAlerts_def debounced_def recoveryTime_def
  storage_defs notify_defs Now_eq call_eq GetWebhookConfig_def GetSlackConfig_def
  NotificationTypeWebhook_def NotificationTypeSlack_def Join2 Join3 Format_def Parse_def
  Before_def Add_def Second_def sent_def kept_def exampleRequest_def

text \<open>
  On \<open>debouncingNode\<close> the recovery of \<open>svc-2\<close> goes out at 30 seconds; at 80 seconds
  its alerts are still held back by the debounce of one minute. On the etcd node the
  recovery of \<open>svc-3\<close> at 1.5 seconds is recorded as 1 second, and the alerts at 1.7
  seconds are held back by the debounce of one second; a recovery in the first second of
  the year 10000 leaves a record that cannot be read.
\<close>

theorem recovery_sets_lastMessage_witness:
  "fst (GetLastMessageSendTimestamp ''svc-2''
         ((snd (SendRecoveryNotifications svc2 debouncingNode))\<lparr>clock := 80 * Second\<rparr>))
     = (30 * Second, None) \<and>
   fst (SendAlerts svc2
         ((snd (SendRecoveryNotifications svc2 debouncingNode))\<lparr>clock := 80 * Second\<rparr>)) = None \<and>
   filter emits
     (sent ((snd (SendRecoveryNotifications svc2 debouncingNode))\<lparr>clock := 80 * Second\<rparr>)
        (snd (SendAlerts svc2
               ((snd (SendRecoveryNotifications svc2 debouncingNode))\<lparr>clock := 80 * Second\<rparr>))))
     = [] \<and>
   fst (GetLastMessageSendTimestamp ''svc-3''
         ((snd (SendRecoveryNotifications svc3 (etcdNode\<lparr>clock := 1500000000\<rparr>)))
            \<lparr>clock := 1700000000\<rparr>))
     = (1000000000, None) \<and>
   fst (SendAlerts svc3
         ((snd (SendRecoveryNotifications svc3 (etcdNode\<lparr>clock := 1500000000\<rparr>)))
            \<lparr>clock := 1700000000\<rparr>)) = None \<and>
   filter emits
     (sent ((snd (SendRecoveryNotifications svc3 (etcdNode\<lparr>clock := 1500000000\<rparr>)))
              \<lparr>clock := 1700000000\<rparr>)
        (snd (SendAlerts svc3
               ((snd (SendRecoveryNotifications svc3 (etcdNode\<lparr>clock := 1500000000\<rparr>)))
                  \<lparr>clock := 1700000000\<rparr>))))
     = [] \<and>
   fst (GetLastMessageSendTimestamp ''svc-3''
         (snd (SendRecoveryNotifications svc3
                 (etcdNode\<lparr>clock := 253402300800000000000\<rparr>))))
     = (zeroTime, Some ParseError)"
proof -
  let ?v = "(snd (SendRecoveryNotifications svc2 debouncingNode))\<lparr>clock := 80 * Second\<rparr>"
  let ?E = "etcdNode\<lparr>clock := 1500000000\<rparr>"
  let ?u = "(snd (SendRecoveryNotifications svc3 ?E))\<lparr>clock := 1700000000\<rparr>"
  let ?Y = "etcdNode\<lparr>clock := 253402300800000000000\<rparr>"
  let ?y = "snd (SendRecoveryNotifications svc3 ?Y)"
  have a: "fst (SendRecoveryNotifications svc2 debouncingNode) = None"
    by (simp add: eval_defs svc2_def hook_def debouncingNode_def memoryNode_def)
  have b: "recoveryTime svc2 debouncingNode = 30 * Second"
    by (simp add: eval_defs svc2_def hook_def debouncingNode_def memoryNode_def)
  have c: "kept debouncingNode (30 * Second) = 30 * Second"
    by (simp add: kept_def debouncingNode_def)
  have d: "calm ?v" "ID svc2 = ''svc-2''" "0 < Debounce svc2"
    "clock ?v - Debounce svc2 < 30 * Second" "readable debouncingNode (30 * Second)"
    by (simp_all add: eval_defs svc2_def hook_def debouncingNode_def memoryNode_def calm_def
        readable_def)
  have m: "fst (GetLastMessageSendTimestamp ''svc-2'' ?v) = (30 * Second, None) \<and>
      fst (SendAlerts svc2 ?v) = None \<and>
      filter emits (sent ?v (snd (SendAlerts svc2 ?v))) = []"
    using recovery_sets_lastMessage [of svc2 debouncingNode ?v] a b c d by simp
  have a': "fst (SendRecoveryNotifications svc3 ?E) = None"
    by (simp add: eval_defs svc3_def hook_def etcdNode_def)
  have b': "recoveryTime svc3 ?E = 1500000000"
    by (simp add: eval_defs svc3_def hook_def etcdNode_def)
  have c': "kept ?E 1500000000 = 1000000000" "readable ?E 1500000000"
    by (simp_all add: kept_def readable_def inYears_def etcdNode_def Second_def)
  have d': "calm ?u" "ID svc3 = ''svc-3''" "0 < Debounce svc3"
    "clock ?u - Debounce svc3 < 1000000000"
    by (simp_all add: eval_defs svc3_def hook_def etcdNode_def calm_def)
  have e: "fst (GetLastMessageSendTimestamp ''svc-3'' ?u) = (1000000000, None) \<and>
      fst (SendAlerts svc3 ?u) = None \<and>
      filter emits (sent ?u (snd (SendAlerts svc3 ?u))) = []"
    using recovery_sets_lastMessage [of svc3 ?E ?u] a' b' c' d' by simp
  have a'': "fst (SendRecoveryNotifications svc3 ?Y) = None"
    by (simp add: eval_defs svc3_def hook_def etcdNode_def)
  have b'': "recoveryTime svc3 ?Y = 253402300800000000000"
    by (simp add: eval_defs svc3_def hook_def etcdNode_def)
  have c'': "\<not> readable ?Y 253402300800000000000"
    by (simp add: readable_def inYears_def etcdNode_def Second_def)
  have d'': "calm ?y"
    by (simp add: eval_defs svc3_def hook_def etcdNode_def calm_def)
  have y: "fst (GetLastMessageSendTimestamp ''svc-3'' ?y) = (zeroTime, Some ParseError)"
    using recovery_sets_lastMessage [of svc3 ?Y ?y] a'' b'' c'' d'' d'(2) by simp
  show ?thesis
    using m e y by (intro conjI) simp_all
qed

text \<open>
  Claim C9 as stated fails with the etcd store. The recovery of \<open>svc-3\<close> (debounce one
  second) goes out at 1.5 seconds and is recorded as 1 second; the alert attempted at
  2.2 seconds, 0.7 seconds after the recovery, is not held back: one task is enqueued.
\<close>

theorem recovery_debounce_counterexample:
  "fst (SendRecoveryNotifications svc3 (etcdNode\<lparr>clock := 1500000000\<rparr>)) = None \<and>
   recoveryTime svc3 (etcdNode\<lparr>clock := 1500000000\<rparr>) = 1500000000 \<and>
   Debounce svc3 = 1000000000 \<and>
   length (filter emits
     (sent ((snd (SendRecoveryNotifications svc3 (etcdNode\<lparr>clock := 1500000000\<rparr>)))
              \<lparr>clock := 2200000000\<rparr>)
        (snd (SendAlerts svc3
               ((snd (SendRecoveryNotifications svc3 (etcdNode\<lparr>clock := 1500000000\<rparr>)))
                  \<lparr>clock := 2200000000\<rparr>))))) = 1"
  by (simp add: eval_defs svc3_def hook_def etcdNode_def)

subsection \<open>Pings\<close>

lemma not_failing [simp]: "True \<notin> set fs \<Longrightarrow> (fs \<noteq> [] \<and> hd fs) = False"
  by (cases fs) auto

lemma findService_ID: "findService i cfgs = Inr cfg \<Longrightarrow> ID cfg = i"
  by (induction cfgs) (auto split: if_splits)

lemma findService_unknown: "i \<notin> ID ` set cfgs \<Longrightarrow> findService i cfgs = Inl (ErrorsNew ''not found'')"
  by (induction cfgs) auto

lemmas config_defs =
  GetServiceConfig_def memoryStorage_GetServiceConfig_def etcdStorage_GetServiceConfig_def

lemma GetServiceConfig_snd:
  "snd (GetServiceConfig i w) =
     (case store w of
        MemoryStorage m \<Rightarrow> w
      | EtcdStorage p \<Rightarrow>
          w\<lparr>faults := tl (faults w), wire := wire w @ [ReqGet (Join [p, ''services'', i])]\<rparr>)"
  by (cases "store w")
    (simp_all add: config_defs kvGet_def call_eq split: bool.splits option.splits)

lemma peek_frame:
  "store w' = store w \<Longrightarrow> kv w' = kv w \<Longrightarrow>
     heartbeatOf w' k = heartbeatOf w k \<and> alarmOf w' k = alarmOf w k \<and> kept w' t = kept w t \<and>
     readable w' t = readable w t \<and> plainID w' k = plainID w k"
  by (cases "store w")
    (simp_all add: heartbeatOf_def alarmOf_def kept_def readable_def plainID_def)

text \<open>The beginning of \<open>updateLastHeartbeat\<close> when no call fails.\<close>

lemma updateLastHeartbeat_calm:
  assumes "calm w" and "plainID w (ID svc)" and "readable w (clock w)"
  shows "(snd (alarmOf w (ID svc)) \<noteq> None \<longrightarrow>
            fst (updateLastHeartbeat svc w) = None \<and>
            heartbeatOf (snd (updateLastHeartbeat svc w)) (ID svc) = (kept w (clock w), None) \<and>
            alarmOf (snd (updateLastHeartbeat svc w)) (ID svc) = alarmOf w (ID svc) \<and>
            wire (snd (updateLastHeartbeat svc w)) = wire w @ tl (pingCalls w i svc False)) \<and>
         (snd (alarmOf w (ID svc)) = None \<longrightarrow>
            (\<exists>w4. heartbeatOf w4 (ID svc) = (kept w (clock w), None) \<and>
                  alarmOf w4 (ID svc) = (zeroTime, Some ErrNotFound) \<and>
                  wire w4 = wire w @ tl (pingCalls w i svc True) \<and>
                  queue w4 = queue w \<and> newRequest w4 = newRequest w \<and> calm w4 \<and>
                  updateLastHeartbeat svc w =
                    (case SendRecoveryNotifications svc w4 of
                       (Some e, w5) \<Rightarrow>
                         if e = Panic then (Some Panic, w5)
                         else
                           (None,
                            logmsg Error (ID svc) ''failed to send recovery notifications'' w5)
                     | (None, w5) \<Rightarrow> (None, w5))))"
proof (cases "store w")
  case (MemoryStorage m)
  let ?w4 = "w\<lparr>clock := clock w + (case drift w of [] \<Rightarrow> 0 | d # ds \<Rightarrow> d), drift := tl (drift w),
      store := MemoryStorage (m\<lparr>heartbeats := (heartbeats m)(ID svc \<mapsto> clock w),
                                 active := (active m)(ID svc := None)\<rparr>)\<rparr>"
  have a: "snd (alarmOf w (ID svc)) \<noteq> None \<longrightarrow>
      updateLastHeartbeat svc w =
        (None,
         w\<lparr>clock := clock w + (case drift w of [] \<Rightarrow> 0 | d # ds \<Rightarrow> d), drift := tl (drift w),
           store := MemoryStorage (m\<lparr>heartbeats := (heartbeats m)(ID svc \<mapsto> clock w)\<rparr>)\<rparr>)"
    using MemoryStorage
    by (auto simp: updateLastHeartbeat_def alarmOf_def storage_defs Now_eq split: option.splits)
  have b: "snd (alarmOf w (ID svc)) = None \<longrightarrow>
      updateLastHeartbeat svc w =
        (case SendRecoveryNotifications svc ?w4 of
           (Some e, w5) \<Rightarrow>
             if e = Panic then (Some Panic, w5)
             else (None, logmsg Error (ID svc) ''failed to send recovery notifications'' w5)
         | (None, w5) \<Rightarrow> (None, w5))"
    using MemoryStorage
    by (auto simp: updateLastHeartbeat_def alarmOf_def storage_defs Now_eq split: option.splits)
  have c: "heartbeatOf ?w4 (ID svc) = (kept w (clock w), None)"
    "alarmOf ?w4 (ID svc) = (zeroTime, Some ErrNotFound)"
    "wire ?w4 = wire w @ tl (pingCalls w i svc True)"
    "queue ?w4 = queue w" "newRequest ?w4 = newRequest w" "calm ?w4"
    using MemoryStorage assms(1)
    by (simp_all add: heartbeatOf_def alarmOf_def storage_defs kept_def pingCalls_def)
  show ?thesis
  proof (intro conjI impI)
    assume n: "snd (alarmOf w (ID svc)) \<noteq> None"
    show "fst (updateLastHeartbeat svc w) = None"
      "heartbeatOf (snd (updateLastHeartbeat svc w)) (ID svc) = (kept w (clock w), None)"
      "alarmOf (snd (updateLastHeartbeat svc w)) (ID svc) = alarmOf w (ID svc)"
      "wire (snd (updateLastHeartbeat svc w)) = wire w @ tl (pingCalls w i svc False)"
      using a n MemoryStorage
      by (simp_all add: heartbeatOf_def alarmOf_def storage_defs kept_def pingCalls_def)
  next
    assume "snd (alarmOf w (ID svc)) = None"
    with b have "updateLastHeartbeat svc w =
        (case SendRecoveryNotifications svc ?w4 of
           (Some e, w5) \<Rightarrow>
             if e = Panic then (Some Panic, w5)
             else (None, logmsg Error (ID svc) ''failed to send recovery notifications'' w5)
         | (None, w5) \<Rightarrow> (None, w5))"
      by simp
    then show "\<exists>w4. heartbeatOf w4 (ID svc) = (kept w (clock w), None) \<and>
                  alarmOf w4 (ID svc) = (zeroTime, Some ErrNotFound) \<and>
                  wire w4 = wire w @ tl (pingCalls w i svc True) \<and>
                  queue w4 = queue w \<and> newRequest w4 = newRequest w \<and> calm w4 \<and>
                  updateLastHeartbeat svc w =
                    (case SendRecoveryNotifications svc w4 of
                       (Some e, w5) \<Rightarrow>
                         if e = Panic then (Some Panic, w5)
                         else
                           (None,
                            logmsg Error (ID svc) ''failed to send recovery notifications'' w5)
                     | (None, w5) \<Rightarrow> (None, w5))"
      by (intro exI [of _ ?w4] conjI c)
  qed
next
  case (EtcdStorage p)
  let ?hk = "Join [p, ''heartbeats'', ID svc]"
  let ?ak = "Join [p, ''alarms'', ID svc]"
  let ?v = "TimeVal (Format RFC3339 (clock w))"
  let ?w3 = "w\<lparr>clock := clock w + (case drift w of [] \<Rightarrow> 0 | d # ds \<Rightarrow> d), drift := tl (drift w),
      faults := tl (tl (faults w)), wire := wire w @ [ReqPut ?hk ?v, ReqGet ?ak],
      kv := AList.update ?hk ?v (kv w)\<rparr>"
  let ?w4 = "w\<lparr>clock := clock w + (case drift w of [] \<Rightarrow> 0 | d # ds \<Rightarrow> d), drift := tl (drift w),
      faults := tl (tl (tl (faults w))),
      wire := wire w @ [ReqPut ?hk ?v, ReqGet ?ak, ReqDelete ?ak],
      kv := AList.delete ?ak (AList.update ?hk ?v (kv w))\<rparr>"
  have sm: "simple (ID svc)"
    using assms(2) EtcdStorage by (simp add: plainID_def)
  have yr: "inYears (clock w)"
    using assms(3) EtcdStorage by (simp add: readable_def)
  have k: "?ak \<noteq> ?hk"
    using sm by (rule Join_alarms_heartbeats [OF sm])
  have al: "alarmOf w (ID svc) =
      (case map_of (kv w) ?ak of None \<Rightarrow> (zeroTime, Some ErrNotFound) | Some v \<Rightarrow> Parse v)"
    using EtcdStorage by (simp add: alarmOf_def)
  have a: "snd (alarmOf w (ID svc)) \<noteq> None \<longrightarrow> updateLastHeartbeat svc w = (None, ?w3)"
    using EtcdStorage assms(1) k
    by (auto simp: updateLastHeartbeat_def al storage_defs Now_eq call_eq update_conv'
        split: option.splits prod.splits)
  have b: "snd (alarmOf w (ID svc)) = None \<longrightarrow>
      updateLastHeartbeat svc w =
        (case SendRecoveryNotifications svc ?w4 of
           (Some e, w5) \<Rightarrow>
             if e = Panic then (Some Panic, w5)
             else (None, logmsg Error (ID svc) ''failed to send recovery notifications'' w5)
         | (None, w5) \<Rightarrow> (None, w5))"
    using EtcdStorage assms(1) k
    by (auto simp: updateLastHeartbeat_def al storage_defs Now_eq call_eq update_conv'
        split: option.splits prod.splits)
  have c: "heartbeatOf ?w4 (ID svc) = (kept w (clock w), None)"
    "alarmOf ?w4 (ID svc) = (zeroTime, Some ErrNotFound)"
    "wire ?w4 = wire w @ tl (pingCalls w i svc True)"
    "queue ?w4 = queue w" "newRequest ?w4 = newRequest w" "calm ?w4"
    "heartbeatOf ?w3 (ID svc) = (kept w (clock w), None)"
    "alarmOf ?w3 (ID svc) = alarmOf w (ID svc)"
    "wire ?w3 = wire w @ tl (pingCalls w i svc False)"
    using EtcdStorage k yr assms(1)
    by (simp_all add: heartbeatOf_def alarmOf_def kept_def update_conv' delete_conv'
        Parse_Format pingCalls_def)
  show ?thesis
  proof (intro conjI impI)
    assume n: "snd (alarmOf w (ID svc)) \<noteq> None"
    show "fst (updateLastHeartbeat svc w) = None"
      "heartbeatOf (snd (updateLastHeartbeat svc w)) (ID svc) = (kept w (clock w), None)"
      "alarmOf (snd (updateLastHeartbeat svc w)) (ID svc) = alarmOf w (ID svc)"
      "wire (snd (updateLastHeartbeat svc w)) = wire w @ tl (pingCalls w i svc False)"
      using a n c(7,8,9) by simp_all
  next
    assume "snd (alarmOf w (ID svc)) = None"
    with b have "updateLastHeartbeat svc w =
        (case SendRecoveryNotifications svc ?w4 of
           (Some e, w5) \<Rightarrow>
             if e = Panic then (Some Panic, w5)
             else (None, logmsg Error (ID svc) ''failed to send recovery notifications'' w5)
         | (None, w5) \<Rightarrow> (None, w5))"
      by simp
    then show "\<exists>w4. heartbeatOf w4 (ID svc) = (kept w (clock w), None) \<and>
                  alarmOf w4 (ID svc) = (zeroTime, Some ErrNotFound) \<and>
                  wire w4 = wire w @ tl (pingCalls w i svc True) \<and>
                  queue w4 = queue w \<and> newRequest w4 = newRequest w \<and> calm w4 \<and>
                  updateLastHeartbeat svc w =
                    (case SendRecoveryNotifications svc w4 of
                       (Some e, w5) \<Rightarrow>
                         if e = Panic then (Some Panic, w5)
                         else
                           (None,
                            logmsg Error (ID svc) ''failed to send recovery notifications'' w5)
                     | (None, w5) \<Rightarrow> (None, w5))"
      by (intro exI [of _ ?w4] conjI c(1-6))
  qed
qed

lemma GetServiceConfig_frame:
  "store (snd (GetServiceConfig i w)) = store w \<and> kv (snd (GetServiceConfig i w)) = kv w \<and>
   clock (snd (GetServiceConfig i w)) = clock w \<and>
   queue (snd (GetServiceConfig i w)) = queue w \<and>
   newRequest (snd (GetServiceConfig i w)) = newRequest w \<and>
   (calm w \<longrightarrow> calm (snd (GetServiceConfig i w))) \<and>
   wire (snd (GetServiceConfig i w)) =
     wire w @ (case store w of
                 MemoryStorage m \<Rightarrow> []
               | EtcdStorage p \<Rightarrow> [ReqGet (Join [p, ''services'', i])])"
  by (cases "store w") (simp_all add: GetServiceConfig_snd)

lemma pingCalls_frame:
  "store w' = store w \<Longrightarrow> clock w' = clock w \<Longrightarrow> pingCalls w' i cfg a = pingCalls w i cfg a"
  by (cases "store w") (simp_all add: pingCalls_def)

lemma pingCalls_hd:
  "(case store w of MemoryStorage m \<Rightarrow> [] | EtcdStorage p \<Rightarrow> [ReqGet (Join [p, ''services'', i])])
     @ tl (pingCalls w i cfg a) = pingCalls w i cfg a"
  by (cases "store w") (simp_all add: pingCalls_def)

text \<open>
  Claim C3, as the code has it. A ping for a service whose configuration cannot be loaded
  (an id the store does not know, in particular) is answered with 404 and writes nothing
  to the store. A ping whose token differs from the non-empty token of the stored
  configuration is answered with 401, and writes nothing either. Any other ping is
  answered with 200 if it is answered at all. When no call fails (the id being a clean
  path element and the clock showing a year the store reads back), it sets the heartbeat
  record of the service to the time read from the clock as the store keeps it, which in
  the etcd store is that time cut to the whole second; after that it reads the alarm
  record. With no readable alarm record it leaves the alarm record as it was and answers
  200. With an alarm record it deletes the record and then, in a state in which the
  heartbeat is set and the alarm record is gone, calls \<open>SendRecoveryNotifications\<close> with
  the configuration; an error that call returns is only logged and the answer is 200,
  but when the call panics the ping gets no answer. In the in-memory store the
  configuration found has the id of the ping.
\<close>

theorem handlePing_spec:
  "(fst (GetServiceConfig serviceID w) = Inl e \<longrightarrow>
      map_option status (fst (handlePing serviceID token w)) = Some 404 \<and>
      store (snd (handlePing serviceID token w)) = store w \<and>
      kv (snd (handlePing serviceID token w)) = kv w) \<and>
   (store w = MemoryStorage m \<and> serviceID \<notin> ID ` set (services m) \<longrightarrow>
      map_option status (fst (handlePing serviceID token w)) = Some 404) \<and>
   (store w = EtcdStorage p \<and> calm w \<and> map_of (kv w) (Join [p, ''services'', serviceID]) = None \<longrightarrow>
      map_option status (fst (handlePing serviceID token w)) = Some 404) \<and>
   (store w = MemoryStorage m \<and> fst (GetServiceConfig serviceID w) = Inr cfg \<longrightarrow>
      ID cfg = serviceID) \<and>
   (fst (GetServiceConfig serviceID w) = Inr cfg \<and> Token cfg \<noteq> [] \<and> token \<noteq> Token cfg \<longrightarrow>
      map_option status (fst (handlePing serviceID token w)) = Some 401 \<and>
      store (snd (handlePing serviceID token w)) = store w \<and>
      kv (snd (handlePing serviceID token w)) = kv w) \<and>
   (fst (GetServiceConfig serviceID w) = Inr cfg \<and> (Token cfg = [] \<or> token = Token cfg) \<longrightarrow>
      fst (handlePing serviceID token w) = None \<or>
      fst (handlePing serviceID token w) =
        Some \<lparr>status = 200, body = ''got it '' @ serviceID @ '', you are still alive''\<rparr>) \<and>
   (fst (GetServiceConfig serviceID w) = Inr cfg \<and> (Token cfg = [] \<or> token = Token cfg) \<and>
    calm w \<and> plainID w (ID cfg) \<and> readable w (clock w) \<and> snd (alarmOf w (ID cfg)) \<noteq> None \<longrightarrow>
      map_option status (fst (handlePing serviceID token w)) = Some 200 \<and>
      heartbeatOf (snd (handlePing serviceID token w)) (ID cfg) = (kept w (clock w), None) \<and>
      alarmOf (snd (handlePing serviceID token w)) (ID cfg) = alarmOf w (ID cfg) \<and>
      sent w (snd (handlePing serviceID token w)) = pingCalls w serviceID cfg False) \<and>
   (fst (GetServiceConfig serviceID w) = Inr cfg \<and> (Token cfg = [] \<or> token = Token cfg) \<and>
    calm w \<and> plainID w (ID cfg) \<and> readable w (clock w) \<and> snd (alarmOf w (ID cfg)) = None \<longrightarrow>
      (\<exists>w4. heartbeatOf w4 (ID cfg) = (kept w (clock w), None) \<and>
            alarmOf w4 (ID cfg) = (zeroTime, Some ErrNotFound) \<and>
            sent w w4 = pingCalls w serviceID cfg True \<and>
            queue w4 = queue w \<and> newRequest w4 = newRequest w \<and> calm w4 \<and>
            handlePing serviceID token w =
              (case SendRecoveryNotifications cfg w4 of
                 (Some e, w5) \<Rightarrow>
                   if e = Panic then (None, w5)
                   else
                     (Some \<lparr>status = 200,
                            body = ''got it '' @ serviceID @ '', you are still alive''\<rparr>,
                      logmsg Error (ID cfg) ''failed to send recovery notifications'' w5)
               | (None, w5) \<Rightarrow>
                   (Some \<lparr>status = 200,
                          body = ''got it '' @ serviceID @ '', you are still alive''\<rparr>,
                    w5))))"
proof -
  let ?ok = "\<lparr>status = 200, body = ''got it '' @ serviceID @ '', you are still alive''\<rparr>"
  obtain r w1 where g: "GetServiceConfig serviceID w = (r, w1)"
    by (cases "GetServiceConfig serviceID w")
  have f: "store w1 = store w" "kv w1 = kv w" "clock w1 = clock w" "calm w \<longrightarrow> calm w1"
    "queue w1 = queue w" "newRequest w1 = newRequest w"
    "wire w1 = wire w @ (case store w of
                 MemoryStorage m \<Rightarrow> []
               | EtcdStorage p \<Rightarrow> [ReqGet (Join [p, ''services'', serviceID])])"
    using GetServiceConfig_frame [of serviceID w] g by simp_all
  let ?w0 = "logmsg Info serviceID ''received heartbeat'' w1"
  have w0: "store ?w0 = store w" "kv ?w0 = kv w" "clock ?w0 = clock w" "calm w \<longrightarrow> calm ?w0"
    "queue ?w0 = queue w" "newRequest ?w0 = newRequest w"
    "wire ?w0 = wire w @ (case store w of
                 MemoryStorage m \<Rightarrow> []
               | EtcdStorage p \<Rightarrow> [ReqGet (Join [p, ''services'', serviceID])])"
    using f by (simp_all add: logmsg_def)
  have pk: "heartbeatOf ?w0 (ID cfg) = heartbeatOf w (ID cfg)"
    "alarmOf ?w0 (ID cfg) = alarmOf w (ID cfg)" "kept ?w0 (clock w) = kept w (clock w)"
    "readable ?w0 (clock w) = readable w (clock w)" "plainID ?w0 (ID cfg) = plainID w (ID cfg)"
    using peek_frame [OF w0(1) w0(2)] by simp_all
  have pc: "pingCalls ?w0 serviceID cfg a = pingCalls w serviceID cfg a" for a
    using pingCalls_frame [OF w0(1) w0(3)] by simp
  have c404: "r = Inl e \<longrightarrow> map_option status (fst (handlePing serviceID token w)) = Some 404 \<and>
      store (snd (handlePing serviceID token w)) = store w \<and>
      kv (snd (handlePing serviceID token w)) = kv w"
    using g f by (simp add: handlePing_def logmsg_def)
  have mem: "store w = MemoryStorage m \<and> serviceID \<notin> ID ` set (services m) \<longrightarrow>
      map_option status (fst (handlePing serviceID token w)) = Some 404"
    using findService_unknown [of serviceID "services m"]
    by (auto simp: handlePing_def config_defs)
  have etcd: "store w = EtcdStorage p \<and> calm w \<and>
      map_of (kv w) (Join [p, ''services'', serviceID]) = None \<longrightarrow>
      map_option status (fst (handlePing serviceID token w)) = Some 404"
    by (auto simp: handlePing_def config_defs kvGet_calm)
  have same: "store w = MemoryStorage m \<and> r = Inr cfg \<longrightarrow> ID cfg = serviceID"
    using g findService_ID [of serviceID "services m" cfg] by (auto simp: config_defs)
  have c401: "r = Inr cfg \<and> Token cfg \<noteq> [] \<and> token \<noteq> Token cfg \<longrightarrow>
      map_option status (fst (handlePing serviceID token w)) = Some 401 \<and>
      store (snd (handlePing serviceID token w)) = store w \<and>
      kv (snd (handlePing serviceID token w)) = kv w"
    using g f by (simp add: handlePing_def logmsg_def)
  have ok: "r = Inr cfg \<and> (Token cfg = [] \<or> token = Token cfg) \<longrightarrow>
      handlePing serviceID token w =
        (case updateLastHeartbeat cfg ?w0 of
           (Some e, w2) \<Rightarrow> (None, w2)
         | (None, w2) \<Rightarrow> (Some ?ok, w2))"
    using g by (auto simp: handlePing_def)
  have any: "r = Inr cfg \<and> (Token cfg = [] \<or> token = Token cfg) \<longrightarrow>
      fst (handlePing serviceID token w) = None \<or> fst (handlePing serviceID token w) = Some ?ok"
    using ok by (auto split: prod.splits option.splits)
  have up1: "r = Inr cfg \<and> (Token cfg = [] \<or> token = Token cfg) \<and>
      calm w \<and> plainID w (ID cfg) \<and> readable w (clock w) \<and> snd (alarmOf w (ID cfg)) \<noteq> None \<longrightarrow>
      map_option status (fst (handlePing serviceID token w)) = Some 200 \<and>
      heartbeatOf (snd (handlePing serviceID token w)) (ID cfg) = (kept w (clock w), None) \<and>
      alarmOf (snd (handlePing serviceID token w)) (ID cfg) = alarmOf w (ID cfg) \<and>
      sent w (snd (handlePing serviceID token w)) = pingCalls w serviceID cfg False"
  proof (intro impI, elim conjE)
    assume r: "r = Inr cfg" and t: "Token cfg = [] \<or> token = Token cfg"
      and c: "calm w" and pl: "plainID w (ID cfg)" and rd: "readable w (clock w)"
      and n: "snd (alarmOf w (ID cfg)) \<noteq> None"
    have c0: "calm ?w0" using c w0(4) by simp
    have pl0: "plainID ?w0 (ID cfg)" using pl pk(5) by simp
    have rd0: "readable ?w0 (clock ?w0)" using rd pk(4) w0(3) by simp
    note u = updateLastHeartbeat_calm [OF c0 pl0 rd0, of serviceID, THEN conjunct1, THEN mp]
    have n0: "snd (alarmOf ?w0 (ID cfg)) \<noteq> None" using n pk(2) by simp
    obtain w2 where u2: "updateLastHeartbeat cfg ?w0 = (None, w2)"
      using u [OF n0] by (cases "updateLastHeartbeat cfg ?w0") simp
    have h: "handlePing serviceID token w = (Some ?ok, w2)"
      using ok r t u2 by simp
    have w2: "heartbeatOf w2 (ID cfg) = (kept w (clock w), None)"
      "alarmOf w2 (ID cfg) = alarmOf w (ID cfg)"
      "wire w2 = wire ?w0 @ tl (pingCalls w serviceID cfg False)"
      using u [OF n0] u2 pk w0(3) pc by simp_all
    have "sent w w2 = pingCalls w serviceID cfg False"
      using w2(3) w0(7) pingCalls_hd [where w = w and i = serviceID and cfg = cfg and a = False] by (simp add: sent_def)
    then show "map_option status (fst (handlePing serviceID token w)) = Some 200 \<and>
      heartbeatOf (snd (handlePing serviceID token w)) (ID cfg) = (kept w (clock w), None) \<and>
      alarmOf (snd (handlePing serviceID token w)) (ID cfg) = alarmOf w (ID cfg) \<and>
      sent w (snd (handlePing serviceID token w)) = pingCalls w serviceID cfg False"
      using h w2(1,2) by simp
  qed
  have up2: "r = Inr cfg \<and> (Token cfg = [] \<or> token = Token cfg) \<and>
      calm w \<and> plainID w (ID cfg) \<and> readable w (clock w) \<and> snd (alarmOf w (ID cfg)) = None \<longrightarrow>
      (\<exists>w4. heartbeatOf w4 (ID cfg) = (kept w (clock w), None) \<and>
            alarmOf w4 (ID cfg) = (zeroTime, Some ErrNotFound) \<and>
            sent w w4 = pingCalls w serviceID cfg True \<and>
            queue w4 = queue w \<and> newRequest w4 = newRequest w \<and> calm w4 \<and>
            handlePing serviceID token w =
              (case SendRecoveryNotifications cfg w4 of
                 (Some e, w5) \<Rightarrow>
                   if e = Panic then (None, w5)
                   else
                     (Some ?ok, logmsg Error (ID cfg) ''failed to send recovery notifications'' w5)
               | (None, w5) \<Rightarrow> (Some ?ok, w5)))"
  proof (intro impI, elim conjE)
    assume r: "r = Inr cfg" and t: "Token cfg = [] \<or> token = Token cfg"
      and c: "calm w" and pl: "plainID w (ID cfg)" and rd: "readable w (clock w)"
      and n: "snd (alarmOf w (ID cfg)) = None"
    have c0: "calm ?w0" using c w0(4) by simp
    have pl0: "plainID ?w0 (ID cfg)" using pl pk(5) by simp
    have rd0: "readable ?w0 (clock ?w0)" using rd pk(4) w0(3) by simp
    note u = updateLastHeartbeat_calm [OF c0 pl0 rd0, of serviceID, THEN conjunct2, THEN mp]
    have n0: "snd (alarmOf ?w0 (ID cfg)) = None" using n pk(2) by simp
    obtain w4 where w4: "heartbeatOf w4 (ID cfg) = (kept ?w0 (clock ?w0), None)"
      "alarmOf w4 (ID cfg) = (zeroTime, Some ErrNotFound)"
      "wire w4 = wire ?w0 @ tl (pingCalls ?w0 serviceID cfg True)"
      "queue w4 = queue ?w0" "newRequest w4 = newRequest ?w0" "calm w4"
      "updateLastHeartbeat cfg ?w0 =
         (case SendRecoveryNotifications cfg w4 of
            (Some e, w5) \<Rightarrow>
              if e = Panic then (Some Panic, w5)
              else (None, logmsg Error (ID cfg) ''failed to send recovery notifications'' w5)
          | (None, w5) \<Rightarrow> (None, w5))"
      using u [OF n0] by blast
    have s: "sent w w4 = pingCalls w serviceID cfg True"
      using w4(3) w0(7) pc pingCalls_hd [where w = w and i = serviceID and cfg = cfg and a = True] by (simp add: sent_def)
    have h: "handlePing serviceID token w =
        (case SendRecoveryNotifications cfg w4 of
           (Some e, w5) \<Rightarrow>
             if e = Panic then (None, w5)
             else (Some ?ok, logmsg Error (ID cfg) ''failed to send recovery notifications'' w5)
         | (None, w5) \<Rightarrow> (Some ?ok, w5))"
    proof (cases "SendRecoveryNotifications cfg w4")
      case (Pair e5 w5)
      show ?thesis
        using ok r t w4(7) Pair by (cases e5) simp_all
    qed
    have hb: "heartbeatOf w4 (ID cfg) = (kept w (clock w), None)"
      using w4(1) pk(3) w0(3) by simp
    have fr: "queue w4 = queue w" "newRequest w4 = newRequest w"
      using w4(4,5) w0(5,6) by simp_all
    show "\<exists>w4. heartbeatOf w4 (ID cfg) = (kept w (clock w), None) \<and>
            alarmOf w4 (ID cfg) = (zeroTime, Some ErrNotFound) \<and>
            sent w w4 = pingCalls w serviceID cfg True \<and>
            queue w4 = queue w \<and> newRequest w4 = newRequest w \<and> calm w4 \<and>
            handlePing serviceID token w =
              (case SendRecoveryNotifications cfg w4 of
                 (Some e, w5) \<Rightarrow>
                   if e = Panic then (None, w5)
                   else
                     (Some ?ok, logmsg Error (ID cfg) ''failed to send recovery notifications'' w5)
               | (None, w5) \<Rightarrow> (Some ?ok, w5))"
      by (intro exI [of _ w4] conjI hb w4(2) s fr w4(6) h)
  qed
  have gr: "fst (GetServiceConfig serviceID w) = r"
    using g by simp
  show ?thesis
    unfolding gr
    by (intro conjI) (rule c404 mem etcd same c401 any up1 up2)+
qed

lemma Join_items_empty:
  "Join [''/deadman-switch/queue'', ''items'', []] = ''/deadman-switch/queue/items''"
  by (simp add: Join_def Clean_def cleanStep_def)

lemma simple_ids' [simp]: "simple ''svc-4''" "simple ''svc-max''"
  by (simp_all add: simple_def)

text \<open>
  Claim C3 as stated fails with the etcd store: the ping of \<open>svc-2\<close> on
  \<open>alarmedEtcdNode\<close> arrives at 1.5 seconds and is answered with 200, but the heartbeat
  it leaves reads 1 second, not the time of the ping.
\<close>

theorem handlePing_now_counterexample:
  "clock alarmedEtcdNode = 1500000000 \<and>
   map_option status (fst (handlePing ''svc-2'' [] alarmedEtcdNode)) = Some 200 \<and>
   fst (GetLastHeartbeat ''svc-2'' (snd (handlePing ''svc-2'' [] alarmedEtcdNode)))
     = (1000000000, None)"
  by (simp add: handlePing_def updateLastHeartbeat_def config_defs eval_defs Join_items_empty
      unmarshalConfig_def alarmedEtcdNode_def etcdNode_def svc2_def hook_def)

text \<open>
  Pings for an unknown service on a memory node and on an etcd node, for \<open>svc-1\<close>
  (token \<open>abc\<close>) without a token, with a wrong one and with the right one, for
  \<open>svc-2\<close>, which is in alarm on \<open>debouncingNode\<close> and on \<open>alarmedEtcdNode\<close>, and for
  \<open>svc-4\<close>, whose recovery webhook cannot be built.
\<close>

theorem handlePing_spec_witness:
  "map_option status (fst (handlePing ''nope'' [] debouncingNode)) = Some 404 \<and>
   store (snd (handlePing ''nope'' [] debouncingNode)) = store debouncingNode \<and>
   map_option status (fst (handlePing ''svc-1'' [] etcdNode)) = Some 404 \<and>
   map_option status (fst (handlePing ''svc-1'' [] (memoryNode [svc1']))) = Some 401 \<and>
   map_option status (fst (handlePing ''svc-1'' ''xyz'' (memoryNode [svc1']))) = Some 401 \<and>
   map_option status (fst (handlePing ''svc-1'' ''abc'' (memoryNode [svc1']))) = Some 200 \<and>
   heartbeatOf (snd (handlePing ''svc-1'' ''abc'' (memoryNode [svc1']))) ''svc-1'' = (0, None) \<and>
   (\<exists>w4. heartbeatOf w4 ''svc-2'' = (30 * Second, None) \<and>
         alarmOf w4 ''svc-2'' = (zeroTime, Some ErrNotFound) \<and>
         sent debouncingNode w4 = [] \<and>
         handlePing ''svc-2'' [] debouncingNode =
           (case SendRecoveryNotifications svc2 w4 of
              (Some e, w5) \<Rightarrow>
                if e = Panic then (None, w5)
                else
                  (Some \<lparr>status = 200, body = ''got it svc-2, you are still alive''\<rparr>,
                   logmsg Error ''svc-2'' ''failed to send recovery notifications'' w5)
            | (None, w5) \<Rightarrow>
                (Some \<lparr>status = 200, body = ''got it svc-2, you are still alive''\<rparr>, w5))) \<and>
   (\<exists>w4. heartbeatOf w4 ''svc-2'' = (1000000000, None) \<and>
         alarmOf w4 ''svc-2'' = (zeroTime, Some ErrNotFound) \<and>
         sent alarmedEtcdNode w4 =
           [ReqGet ''/deadman-switch/store/services/svc-2'',
            ReqPut ''/deadman-switch/store/heartbeats/svc-2'' (TimeVal (TimeText 1 0)),
            ReqGet ''/deadman-switch/store/alarms/svc-2'',
            ReqDelete ''/deadman-switch/store/alarms/svc-2''] \<and>
         handlePing ''svc-2'' [] alarmedEtcdNode =
           (case SendRecoveryNotifications svc2 w4 of
              (Some e, w5) \<Rightarrow>
                if e = Panic then (None, w5)
                else
                  (Some \<lparr>status = 200, body = ''got it svc-2, you are still alive''\<rparr>,
                   logmsg Error ''svc-2'' ''failed to send recovery notifications'' w5)
            | (None, w5) \<Rightarrow>
                (Some \<lparr>status = 200, body = ''got it svc-2, you are still alive''\<rparr>, w5))) \<and>
   fst (handlePing ''svc-4'' [] brokenHookNode) = None"
proof -
  let ?m1 = "\<lparr>services = [svc1'], heartbeats = Map.empty, active = Map.empty,
              lastMessage = Map.empty\<rparr>"
  let ?m2 = "\<lparr>services = [svc2], heartbeats = Map.empty,
              active = [''svc-2'' \<mapsto> 5 * Second], lastMessage = [''svc-2'' \<mapsto> 10 * Second]\<rparr>"
  let ?p = "''/deadman-switch/store''"
  let ?bad = "\<lparr>URL = ''://bad'', Method = ''POST'', Body = [], Headers = None\<rparr>"
  have st: "store (memoryNode [svc1']) = MemoryStorage ?m1" "store debouncingNode = MemoryStorage ?m2"
    "store etcdNode = EtcdStorage ?p" "store alarmedEtcdNode = EtcdStorage ?p"
    "calm (memoryNode [svc1'])" "calm debouncingNode" "calm etcdNode" "calm alarmedEtcdNode"
    "calm brokenHookNode"
    "clock (memoryNode [svc1']) = 0" "clock debouncingNode = 30 * Second"
    "clock alarmedEtcdNode = 1500000000" "clock brokenHookNode = 30 * Second"
    by (simp_all add: memoryNode_def debouncingNode_def etcdNode_def alarmedEtcdNode_def
        brokenHookNode_def calm_def)
  have cfg: "fst (GetServiceConfig ''nope'' debouncingNode) = Inl (ErrorsNew ''not found'')"
    "''nope'' \<notin> ID ` set (services ?m2)"
    "map_of (kv etcdNode) (Join [?p, ''services'', ''svc-1'']) = None"
    "fst (GetServiceConfig ''svc-1'' (memoryNode [svc1'])) = Inr svc1'"
    "fst (GetServiceConfig ''svc-2'' debouncingNode) = Inr svc2"
    "fst (GetServiceConfig ''svc-2'' alarmedEtcdNode) = Inr svc2"
    "fst (GetServiceConfig ''svc-4'' brokenHookNode) = Inr svc4"
    by (simp_all add: config_defs kvGet_def call_def unmarshalConfig_def Join3
        memoryNode_def debouncingNode_def etcdNode_def
        alarmedEtcdNode_def brokenHookNode_def svc1'_def svc2_def svc4_def
        emptyServiceConfig_def)
  have tok: "Token svc1' = ''abc''" "Token svc2 = []" "Token svc4 = []"
    "ID svc1' = ''svc-1''" "ID svc2 = ''svc-2''" "ID svc4 = ''svc-4''"
    by (simp_all add: svc1'_def svc2_def svc4_def emptyServiceConfig_def)
  have al: "snd (alarmOf (memoryNode [svc1']) ''svc-1'') \<noteq> None"
    "snd (alarmOf debouncingNode ''svc-2'') = None"
    "snd (alarmOf alarmedEtcdNode ''svc-2'') = None"
    "snd (alarmOf brokenHookNode ''svc-4'') = None"
    by (simp_all add: alarmOf_def storage_defs memoryNode_def debouncingNode_def
        alarmedEtcdNode_def etcdNode_def brokenHookNode_def Join3 Parse_def)
  have kp: "kept (memoryNode [svc1']) 0 = 0" "kept debouncingNode (30 * Second) = 30 * Second"
    "kept alarmedEtcdNode 1500000000 = 1000000000"
    by (simp_all add: kept_def st Second_def)
  have pl: "plainID (memoryNode [svc1']) ''svc-1''" "plainID debouncingNode ''svc-2''"
    "plainID alarmedEtcdNode ''svc-2''" "plainID brokenHookNode ''svc-4''"
    "readable (memoryNode [svc1']) 0" "readable debouncingNode (30 * Second)"
    "readable alarmedEtcdNode 1500000000" "readable brokenHookNode (30 * Second)"
    by (simp_all add: plainID_def readable_def st inYears_def Second_def brokenHookNode_def
        memoryNode_def)
  have pc: "pingCalls debouncingNode ''svc-2'' svc2 True = []"
    "pingCalls alarmedEtcdNode ''svc-2'' svc2 True =
       [ReqGet ''/deadman-switch/store/services/svc-2'',
        ReqPut ''/deadman-switch/store/heartbeats/svc-2'' (TimeVal (TimeText 1 0)),
        ReqGet ''/deadman-switch/store/alarms/svc-2'',
        ReqDelete ''/deadman-switch/store/alarms/svc-2'']"
    by (simp_all add: pingCalls_def st tok Join3 Format_def Second_def)
  note t1 = handlePing_spec [where serviceID = "''nope''" and w = debouncingNode and token = "[]"
        and e = "ErrorsNew ''not found''" and m = ?m2]
  note t2 = handlePing_spec [where serviceID = "''svc-1''" and w = etcdNode and token = "[]"
        and p = ?p]
  note t3 = handlePing_spec [where serviceID = "''svc-1''" and w = "memoryNode [svc1']"
        and token = "[]" and cfg = svc1' and m = ?m1]
  note t4 = handlePing_spec [where serviceID = "''svc-1''" and w = "memoryNode [svc1']"
        and token = "''xyz''" and cfg = svc1' and m = ?m1]
  note t5 = handlePing_spec [where serviceID = "''svc-1''" and w = "memoryNode [svc1']"
        and token = "''abc''" and cfg = svc1' and m = ?m1]
  note t6 = handlePing_spec [where serviceID = "''svc-2''" and w = debouncingNode and token = "[]"
        and cfg = svc2 and m = ?m2]
  note t7 = handlePing_spec [where serviceID = "''svc-2''" and w = alarmedEtcdNode
        and token = "[]" and cfg = svc2 and p = ?p]
  note t8 = handlePing_spec [where serviceID = "''svc-4''" and w = brokenHookNode
        and token = "[]" and cfg = svc4]
  have a: "map_option status (fst (handlePing ''nope'' [] debouncingNode)) = Some 404"
    "store (snd (handlePing ''nope'' [] debouncingNode)) = store debouncingNode"
    using t1 cfg(1) by simp_all
  have b: "map_option status (fst (handlePing ''svc-1'' [] etcdNode)) = Some 404"
    using t2 st(3,7) cfg(3) by simp
  have c: "map_option status (fst (handlePing ''svc-1'' [] (memoryNode [svc1']))) = Some 401"
    "map_option status (fst (handlePing ''svc-1'' ''xyz'' (memoryNode [svc1']))) = Some 401"
    using t3 t4 cfg(4) tok by simp_all
  have d: "map_option status (fst (handlePing ''svc-1'' ''abc'' (memoryNode [svc1']))) = Some 200"
    "heartbeatOf (snd (handlePing ''svc-1'' ''abc'' (memoryNode [svc1']))) ''svc-1'' = (0, None)"
    using t5 cfg(4) tok st(5,10) al(1) kp(1) pl(1,5) by simp_all
  note last = conjunct2 [THEN conjunct2, THEN conjunct2, THEN conjunct2, THEN conjunct2,
      THEN conjunct2, THEN conjunct2, THEN mp]
  have e: "\<exists>w4. heartbeatOf w4 ''svc-2'' = (30 * Second, None) \<and>
         alarmOf w4 ''svc-2'' = (zeroTime, Some ErrNotFound) \<and>
         sent debouncingNode w4 = [] \<and>
         handlePing ''svc-2'' [] debouncingNode =
           (case SendRecoveryNotifications svc2 w4 of
              (Some e, w5) \<Rightarrow>
                if e = Panic then (None, w5)
                else
                  (Some \<lparr>status = 200, body = ''got it svc-2, you are still alive''\<rparr>,
                   logmsg Error ''svc-2'' ''failed to send recovery notifications'' w5)
            | (None, w5) \<Rightarrow>
                (Some \<lparr>status = 200, body = ''got it svc-2, you are still alive''\<rparr>, w5))"
  proof -
    have "\<exists>w4. heartbeatOf w4 (ID svc2) = (kept debouncingNode (clock debouncingNode), None) \<and>
            alarmOf w4 (ID svc2) = (zeroTime, Some ErrNotFound) \<and>
            sent debouncingNode w4 = pingCalls debouncingNode ''svc-2'' svc2 True \<and>
            queue w4 = queue debouncingNode \<and> newRequest w4 = newRequest debouncingNode \<and>
            calm w4 \<and>
            handlePing ''svc-2'' [] debouncingNode =
              (case SendRecoveryNotifications svc2 w4 of
                 (Some e, w5) \<Rightarrow>
                   if e = Panic then (None, w5)
                   else
                     (Some \<lparr>status = 200,
                            body = ''got it '' @ ''svc-2'' @ '', you are still alive''\<rparr>,
                      logmsg Error (ID svc2) ''failed to send recovery notifications'' w5)
               | (None, w5) \<Rightarrow>
                   (Some \<lparr>status = 200,
                          body = ''got it '' @ ''svc-2'' @ '', you are still alive''\<rparr>,
                    w5))"
      using cfg(5) tok st(6,11) al(2) pl(2,6) by (intro last [OF t6]) simp
    then obtain w4 where w4:
      "heartbeatOf w4 (ID svc2) = (kept debouncingNode (clock debouncingNode), None)"
      "alarmOf w4 (ID svc2) = (zeroTime, Some ErrNotFound)"
      "sent debouncingNode w4 = pingCalls debouncingNode ''svc-2'' svc2 True"
      "handlePing ''svc-2'' [] debouncingNode =
              (case SendRecoveryNotifications svc2 w4 of
                 (Some e, w5) \<Rightarrow>
                   if e = Panic then (None, w5)
                   else
                     (Some \<lparr>status = 200,
                            body = ''got it '' @ ''svc-2'' @ '', you are still alive''\<rparr>,
                      logmsg Error (ID svc2) ''failed to send recovery notifications'' w5)
               | (None, w5) \<Rightarrow>
                   (Some \<lparr>status = 200,
                          body = ''got it '' @ ''svc-2'' @ '', you are still alive''\<rparr>,
                    w5))"
      by blast
    show ?thesis
    proof (intro exI [of _ w4] conjI)
      show "handlePing ''svc-2'' [] debouncingNode =
           (case SendRecoveryNotifications svc2 w4 of
              (Some e, w5) \<Rightarrow>
                if e = Panic then (None, w5)
                else
                  (Some \<lparr>status = 200, body = ''got it svc-2, you are still alive''\<rparr>,
                   logmsg Error ''svc-2'' ''failed to send recovery notifications'' w5)
            | (None, w5) \<Rightarrow>
                (Some \<lparr>status = 200, body = ''got it svc-2, you are still alive''\<rparr>, w5))"
        by (cases "SendRecoveryNotifications svc2 w4")
          (simp add: w4(4) tok split: option.splits)
    qed (use w4(1-3) tok st(11) kp(2) pc(1) in simp_all)
  qed
  have f: "\<exists>w4. heartbeatOf w4 ''svc-2'' = (1000000000, None) \<and>
         alarmOf w4 ''svc-2'' = (zeroTime, Some ErrNotFound) \<and>
         sent alarmedEtcdNode w4 =
           [ReqGet ''/deadman-switch/store/services/svc-2'',
            ReqPut ''/deadman-switch/store/heartbeats/svc-2'' (TimeVal (TimeText 1 0)),
            ReqGet ''/deadman-switch/store/alarms/svc-2'',
            ReqDelete ''/deadman-switch/store/alarms/svc-2''] \<and>
         handlePing ''svc-2'' [] alarmedEtcdNode =
           (case SendRecoveryNotifications svc2 w4 of
              (Some e, w5) \<Rightarrow>
                if e = Panic then (None, w5)
                else
                  (Some \<lparr>status = 200, body = ''got it svc-2, you are still alive''\<rparr>,
                   logmsg Error ''svc-2'' ''failed to send recovery notifications'' w5)
            | (None, w5) \<Rightarrow>
                (Some \<lparr>status = 200, body = ''got it svc-2, you are still alive''\<rparr>, w5))"
  proof -
    have "\<exists>w4. heartbeatOf w4 (ID svc2) = (kept alarmedEtcdNode (clock alarmedEtcdNode), None) \<and>
            alarmOf w4 (ID svc2) = (zeroTime, Some ErrNotFound) \<and>
            sent alarmedEtcdNode w4 = pingCalls alarmedEtcdNode ''svc-2'' svc2 True \<and>
            queue w4 = queue alarmedEtcdNode \<and> newRequest w4 = newRequest alarmedEtcdNode \<and>
            calm w4 \<and>
            handlePing ''svc-2'' [] alarmedEtcdNode =
              (case SendRecoveryNotifications svc2 w4 of
                 (Some e, w5) \<Rightarrow>
                   if e = Panic then (None, w5)
                   else
                     (Some \<lparr>status = 200,
                            body = ''got it '' @ ''svc-2'' @ '', you are still alive''\<rparr>,
                      logmsg Error (ID svc2) ''failed to send recovery notifications'' w5)
               | (None, w5) \<Rightarrow>
                   (Some \<lparr>status = 200,
                          body = ''got it '' @ ''svc-2'' @ '', you are still alive''\<rparr>,
                    w5))"
      using cfg(6) tok st(8,12) al(3) pl(3,7) by (intro last [OF t7]) simp
    then obtain w4 where w4:
      "heartbeatOf w4 (ID svc2) = (kept alarmedEtcdNode (clock alarmedEtcdNode), None)"
      "alarmOf w4 (ID svc2) = (zeroTime, Some ErrNotFound)"
      "sent alarmedEtcdNode w4 = pingCalls alarmedEtcdNode ''svc-2'' svc2 True"
      "handlePing ''svc-2'' [] alarmedEtcdNode =
              (case SendRecoveryNotifications svc2 w4 of
                 (Some e, w5) \<Rightarrow>
                   if e = Panic then (None, w5)
                   else
                     (Some \<lparr>status = 200,
                            body = ''got it '' @ ''svc-2'' @ '', you are still alive''\<rparr>,
                      logmsg Error (ID svc2) ''failed to send recovery notifications'' w5)
               | (None, w5) \<Rightarrow>
                   (Some \<lparr>status = 200,
                          body = ''got it '' @ ''svc-2'' @ '', you are still alive''\<rparr>,
                    w5))"
      by blast
    show ?thesis
    proof (intro exI [of _ w4] conjI)
      show "handlePing ''svc-2'' [] alarmedEtcdNode =
           (case SendRecoveryNotifications svc2 w4 of
              (Some e, w5) \<Rightarrow>
                if e = Panic then (None, w5)
                else
                  (Some \<lparr>status = 200, body = ''got it svc-2, you are still alive''\<rparr>,
                   logmsg Error ''svc-2'' ''failed to send recovery notifications'' w5)
            | (None, w5) \<Rightarrow>
                (Some \<lparr>status = 200, body = ''got it svc-2, you are still alive''\<rparr>, w5))"
        by (cases "SendRecoveryNotifications svc2 w4")
          (simp add: w4(4) tok split: option.splits)
    qed (use w4(1-3) tok st(12) kp(3) pc(2) in simp_all)
  qed
  have g: "fst (handlePing ''svc-4'' [] brokenHookNode) = None"
  proof -
    have "\<exists>w4. heartbeatOf w4 (ID svc4) = (kept brokenHookNode (clock brokenHookNode), None) \<and>
            alarmOf w4 (ID svc4) = (zeroTime, Some ErrNotFound) \<and>
            sent brokenHookNode w4 = pingCalls brokenHookNode ''svc-4'' svc4 True \<and>
            queue w4 = queue brokenHookNode \<and> newRequest w4 = newRequest brokenHookNode \<and>
            calm w4 \<and>
            handlePing ''svc-4'' [] brokenHookNode =
              (case SendRecoveryNotifications svc4 w4 of
                 (Some e, w5) \<Rightarrow>
                   if e = Panic then (None, w5)
                   else
                     (Some \<lparr>status = 200,
                            body = ''got it '' @ ''svc-4'' @ '', you are still alive''\<rparr>,
                      logmsg Error (ID svc4) ''failed to send recovery notifications'' w5)
               | (None, w5) \<Rightarrow>
                   (Some \<lparr>status = 200,
                          body = ''got it '' @ ''svc-4'' @ '', you are still alive''\<rparr>,
                    w5))"
      using cfg(7) tok st(9,13) al(4) pl(4,8) by (intro last [OF t8]) simp
    then obtain w4 where w4: "queue w4 = queue brokenHookNode"
      "newRequest w4 = newRequest brokenHookNode"
      "handlePing ''svc-4'' [] brokenHookNode =
              (case SendRecoveryNotifications svc4 w4 of
                 (Some e, w5) \<Rightarrow>
                   if e = Panic then (None, w5)
                   else
                     (Some \<lparr>status = 200,
                            body = ''got it '' @ ''svc-4'' @ '', you are still alive''\<rparr>,
                      logmsg Error (ID svc4) ''failed to send recovery notifications'' w5)
               | (None, w5) \<Rightarrow>
                   (Some \<lparr>status = 200,
                          body = ''got it '' @ ''svc-4'' @ '', you are still alive''\<rparr>,
                    w5))"
      by blast
    have q: "queue w4 = None" "\<not> newRequest w4 (Method ?bad) (URL ?bad)"
      using w4(1,2) by (simp_all add: brokenHookNode_def memoryNode_def exampleRequest_def)
    have r: "RecoveryNotifications svc4 = badHook # [hook]"
      "Type badHook = NotificationTypeWebhook" "asWebhook (Config badHook) = Inr ?bad"
      by (simp_all add: svc4_def badHook_def NotificationTypeWebhook_def)
    show ?thesis
      using recovery_panics [OF q(1) r q(2)] w4(3) by simp
  qed
  show ?thesis
    by (intro conjI a b c d e f g)
qed

subsection \<open>Checking the deadline of a service\<close>

text \<open>
  A failed read of the heartbeat gives the zero time, and the time since the zero time
  is the largest duration: \<open>time.Since\<close> saturates.
\<close>

lemma heartbeat_error_zero:
  "snd (fst (GetLastHeartbeat k w)) \<noteq> None \<longrightarrow> fst (fst (GetLastHeartbeat k w)) = zeroTime"
  by (cases "store w")
    (auto simp: storage_defs call_eq Parse_def
      split: bool.splits option.splits list.splits val.splits timetext.splits if_splits)

lemma since_zero: "0 \<le> t \<Longrightarrow> Sub t zeroTime = maxDuration"
  by (simp add: Sub_def zeroTime_def maxDuration_def)

lemma since_at_most: "Sub t u \<le> maxDuration"
  by (simp add: Sub_def maxDuration_def minDuration_def)

lemma checkServices_append:
  "checkServices (xs @ ys) w =
     (case checkServices xs w of
        (Some err, w1) \<Rightarrow> (Some err, w1)
      | (None, w1) \<Rightarrow> checkServices ys w1)"
  by (induction xs arbitrary: w) (auto split: prod.splits option.splits)

lemma quietly_refl [simp]: "quietly w w"
  by (simp add: quietly_def)

lemma quietly_trans: "quietly a b \<Longrightarrow> quietly b c \<Longrightarrow> quietly a c"
  by (auto simp: quietly_def)

lemma quietly_logmsg [simp]: "quietly w (logmsg l sv m w)"
  by (simp add: quietly_def logmsg_def)

lemma GetAlarmActiveSince_snd:
  "snd (GetAlarmActiveSince k w) =
     (case store w of
        MemoryStorage m \<Rightarrow> w
      | EtcdStorage p \<Rightarrow>
          w\<lparr>faults := tl (faults w), wire := wire w @ [ReqGet (Join [p, ''alarms'', k])]\<rparr>)"
  by (cases "store w")
    (simp_all add: storage_defs call_eq split: bool.splits option.splits)

lemma quietly_reads [simp]:
  "quietly w (snd (GetLastHeartbeat k w))" "quietly w (snd (GetAlarmActiveSince k w))"
  by (cases "store w"; simp add: quietly_def GetLastHeartbeat_snd GetAlarmActiveSince_snd)+

lemma reads_calm:
  "calm w \<Longrightarrow> fst (GetLastHeartbeat k w) = heartbeatOf w k"
  "calm w \<Longrightarrow> fst (GetAlarmActiveSince k w) = alarmOf w k"
  by (cases "store w"; simp add: storage_defs heartbeatOf_def alarmOf_def call_eq
      split: option.splits)+

lemma quietly_peeks:
  "quietly w w' \<Longrightarrow>
     heartbeatOf w' k = heartbeatOf w k \<and> alarmOf w' k = alarmOf w k \<and> kept w' t = kept w t"
  using peek_frame [of w' w k t] by (simp add: quietly_def)

lemma quietly_Now:
  "quietly w w' \<Longrightarrow> fst (Now w') = clock w \<and> clock (snd (Now w')) = clock (snd (Now w)) \<and>
     store (snd (Now w')) = store w \<and> kv (snd (Now w')) = kv w \<and>
     (calm w \<longrightarrow> calm (snd (Now w'))) \<and>
     (\<exists>new. wire (snd (Now w')) = wire w @ new \<and> filter emits new = [])"
  by (auto simp: quietly_def Now_eq)

lemma SetAlarmActiveSince_calm:
  assumes "calm w" and "plainID w k" and "readable w t"
  shows "\<exists>w'. SetAlarmActiveSince k t w = (None, w') \<and>
           alarmOf w' k = (kept w t, None) \<and> heartbeatOf w' k = heartbeatOf w k \<and>
           (\<exists>new. wire w' = wire w @ new \<and> filter emits new = [])"
proof (cases "store w")
  case (MemoryStorage m)
  then show ?thesis
    by (simp add: storage_defs alarmOf_def heartbeatOf_def kept_def)
next
  case (EtcdStorage p)
  have "simple k" "inYears t"
    using assms(2,3) EtcdStorage by (simp_all add: plainID_def readable_def)
  then have "Join [p, ''heartbeats'', k] \<noteq> Join [p, ''alarms'', k]" "inYears t"
    using Join_alarms_heartbeats [of k k p] by simp_all
  with EtcdStorage assms(1) show ?thesis
    by (simp add: storage_defs alarmOf_def heartbeatOf_def kept_def call_eq update_conv'
        Parse_Format)
qed

lemma sent_quiet: "\<exists>new. wire w' = wire w @ new \<and> filter emits new = [] \<Longrightarrow> filter emits (sent w w') = []"
  by (auto simp: sent_def)

text \<open>
  The check of one service on a node whose calls do not fail, state by state: the read
  of the heartbeat, the clock, the read of the alarm record, the clock again and the
  write of the alarm record.
\<close>

lemma checkDeadlineOfService_calm:
  "(calm w \<and> \<not> Sub (clock w) (fst (heartbeatOf w (ID svc))) > Timeout svc \<longrightarrow>
            fst (checkDeadlineOfService svc w) = None \<and>
            store (snd (checkDeadlineOfService svc w)) = store w \<and>
            kv (snd (checkDeadlineOfService svc w)) = kv w \<and>
            filter emits (sent w (snd (checkDeadlineOfService svc w))) = []) \<and>
         (calm w \<and> plainID w (ID svc) \<and> readable w (clock (snd (Now w))) \<and>
          Sub (clock w) (fst (heartbeatOf w (ID svc))) > Timeout svc \<and>
          snd (alarmOf w (ID svc)) = Some ErrNotFound \<longrightarrow>
            (\<exists>w5. alarmOf w5 (ID svc) = (kept w (clock (snd (Now w))), None) \<and>
                  heartbeatOf w5 (ID svc) = heartbeatOf w (ID svc) \<and>
                  filter emits (sent w w5) = [] \<and>
                  checkDeadlineOfService svc w = SendAlerts svc w5)) \<and>
         (calm w \<and> Sub (clock w) (fst (heartbeatOf w (ID svc))) > Timeout svc \<and>
          snd (alarmOf w (ID svc)) \<noteq> Some ErrNotFound \<longrightarrow>
            (\<exists>w5. alarmOf w5 (ID svc) = alarmOf w (ID svc) \<and>
                  heartbeatOf w5 (ID svc) = heartbeatOf w (ID svc) \<and>
                  filter emits (sent w w5) = [] \<and>
                  checkDeadlineOfService svc w = SendAlerts svc w5))"
proof (cases "calm w")
  case False
  then show ?thesis by simp
next
  case assms: True
  let ?i = "ID svc"
  obtain t err where hb: "heartbeatOf w ?i = (t, err)"
    by (cases "heartbeatOf w ?i")
  obtain a err' where al: "alarmOf w ?i = (a, err')"
    by (cases "alarmOf w ?i")
  obtain wa where g1: "GetLastHeartbeat ?i w = (heartbeatOf w ?i, wa)"
    using reads_calm(1) [OF assms, of ?i] by (cases "GetLastHeartbeat ?i w") simp
  have qa: "quietly w wa"
    using quietly_reads(1) [of w ?i] g1 by simp
  define w1 where "w1 = (if snd (heartbeatOf w ?i) \<noteq> None
      then logmsg Error ?i ''failed to get last heartbeat'' wa else wa)"
  have q1: "quietly w w1"
    using qa quietly_trans [OF qa quietly_logmsg] by (simp add: w1_def)
  define w2 where "w2 = snd (Now w1)"
  have n1: "Now w1 = (clock w, w2)"
    using quietly_Now [OF q1] by (cases "Now w1") (simp add: w2_def)
  have f2: "clock w2 = clock (snd (Now w))" "store w2 = store w" "kv w2 = kv w" "calm w2"
    "\<exists>new. wire w2 = wire w @ new \<and> filter emits new = []"
    using quietly_Now [OF q1] assms by (simp_all add: w2_def)
  have alive: "\<not> Sub (clock w) (fst (heartbeatOf w ?i)) > Timeout svc \<Longrightarrow>
      checkDeadlineOfService svc w =
        (None, logmsg Info ?i ''service is considered alive'' (snd (Now w2)))"
    using g1 n1 by (simp add: checkDeadlineOfService_def w1_def hb)
  define w3 where "w3 = logmsg Info ?i ''service is overdue'' w2"
  have f3: "clock w3 = clock (snd (Now w))" "store w3 = store w" "kv w3 = kv w" "calm w3"
    "\<exists>new. wire w3 = wire w @ new \<and> filter emits new = []"
    using f2 by (simp_all add: w3_def logmsg_def)
  have p3: "alarmOf w3 ?i = alarmOf w ?i" "heartbeatOf w3 ?i = heartbeatOf w ?i"
    "kept w3 (clock (snd (Now w))) = kept w (clock (snd (Now w)))"
    using peek_frame [OF f3(2,3)] by simp_all
  obtain wb where g2: "GetAlarmActiveSince ?i w3 = (alarmOf w ?i, wb)"
    using reads_calm(2) [OF f3(4), of ?i] p3 by (cases "GetAlarmActiveSince ?i w3") simp
  have qb: "quietly w3 wb"
    using quietly_reads(2) [of w3 ?i] g2 by simp
  have fb: "clock wb = clock (snd (Now w))" "store wb = store w" "kv wb = kv w" "calm wb"
    "\<exists>new. wire wb = wire w @ new \<and> filter emits new = []"
    using qb f3 by (auto simp: quietly_def)
  have pb: "alarmOf wb ?i = alarmOf w ?i" "heartbeatOf wb ?i = heartbeatOf w ?i"
    "kept wb (clock (snd (Now w))) = kept w (clock (snd (Now w)))"
    using peek_frame [OF fb(2,3)] by simp_all
  have exists: "Sub (clock w) (fst (heartbeatOf w ?i)) > Timeout svc \<Longrightarrow>
      snd (alarmOf w ?i) \<noteq> Some ErrNotFound \<Longrightarrow>
      checkDeadlineOfService svc w = SendAlerts svc wb"
    using g1 n1 g2 by (simp add: checkDeadlineOfService_def w1_def w3_def hb al)
  define w4 where "w4 = snd (Now wb)"
  have n4: "Now wb = (clock (snd (Now w)), w4)"
    using fb(1) by (cases "Now wb") (simp add: w4_def Now_eq)
  have f4: "store w4 = store w" "kv w4 = kv w" "calm w4"
    "\<exists>new. wire w4 = wire w @ new \<and> filter emits new = []"
    using fb by (simp_all add: w4_def Now_eq)
  have p4: "heartbeatOf w4 ?i = heartbeatOf w ?i"
    "kept w4 (clock (snd (Now w))) = kept w (clock (snd (Now w)))"
    "plainID w4 ?i = plainID w ?i"
    "readable w4 (clock (snd (Now w))) = readable w (clock (snd (Now w)))"
    using peek_frame [OF f4(1,2)] by simp_all
  have missing: "\<exists>w5. alarmOf w5 ?i = (kept w (clock (snd (Now w))), None) \<and>
                  heartbeatOf w5 ?i = heartbeatOf w ?i \<and>
                  filter emits (sent w w5) = [] \<and>
                  checkDeadlineOfService svc w = SendAlerts svc w5"
    if pl: "plainID w ?i" and rd: "readable w (clock (snd (Now w)))"
      and ov: "Sub (clock w) (fst (heartbeatOf w ?i)) > Timeout svc"
      and nf: "snd (alarmOf w ?i) = Some ErrNotFound"
  proof -
    have pl4: "plainID w4 ?i" and rd4: "readable w4 (clock (snd (Now w)))"
      using pl rd p4(3,4) by simp_all
    obtain w5 where s5: "SetAlarmActiveSince ?i (clock (snd (Now w))) w4 = (None, w5)"
      "alarmOf w5 ?i = (kept w4 (clock (snd (Now w))), None)"
      "heartbeatOf w5 ?i = heartbeatOf w4 ?i"
      "\<exists>new. wire w5 = wire w4 @ new \<and> filter emits new = []"
      using SetAlarmActiveSince_calm [OF f4(3) pl4 rd4] by blast
    have w5: "\<exists>new. wire w5 = wire w @ new \<and> filter emits new = []"
      using s5(4) f4(4) by auto
    have "checkDeadlineOfService svc w = SendAlerts svc w5"
      using g1 n1 g2 n4 s5(1) ov nf
      by (simp add: checkDeadlineOfService_def w1_def w3_def hb al)
    then show ?thesis
      using s5(2,3) p4(1,2) sent_quiet [OF w5] by auto
  qed
  show ?thesis
  proof (intro conjI impI)
    assume "calm w \<and> \<not> Sub (clock w) (fst (heartbeatOf w ?i)) > Timeout svc"
    then show "fst (checkDeadlineOfService svc w) = None"
      "store (snd (checkDeadlineOfService svc w)) = store w"
      "kv (snd (checkDeadlineOfService svc w)) = kv w"
      "filter emits (sent w (snd (checkDeadlineOfService svc w))) = []"
      using alive f2 by (auto simp: logmsg_def Now_eq sent_def)
  next
    assume "calm w \<and> plainID w ?i \<and> readable w (clock (snd (Now w))) \<and>
          Sub (clock w) (fst (heartbeatOf w ?i)) > Timeout svc \<and>
          snd (alarmOf w ?i) = Some ErrNotFound"
    then show "\<exists>w5. alarmOf w5 ?i = (kept w (clock (snd (Now w))), None) \<and>
                  heartbeatOf w5 ?i = heartbeatOf w ?i \<and>
                  filter emits (sent w w5) = [] \<and>
                  checkDeadlineOfService svc w = SendAlerts svc w5"
      using missing by blast
  next
    assume "calm w \<and> Sub (clock w) (fst (heartbeatOf w ?i)) > Timeout svc \<and>
          snd (alarmOf w ?i) \<noteq> Some ErrNotFound"
    then show "\<exists>w5. alarmOf w5 ?i = alarmOf w ?i \<and>
                  heartbeatOf w5 ?i = heartbeatOf w ?i \<and>
                  filter emits (sent w w5) = [] \<and>
                  checkDeadlineOfService svc w = SendAlerts svc w5"
      using exists pb sent_quiet [OF fb(5)] by auto
  qed
qed

lemma read_heartbeat_ok:
  "faults w = False # fs \<Longrightarrow> fst (GetLastHeartbeat k w) = heartbeatOf w k"
  by (cases "store w")
    (simp_all add: storage_defs heartbeatOf_def call_eq split: option.splits)

lemma read_alarm_ok:
  "faults w = False # fs \<Longrightarrow> fst (GetAlarmActiveSince k w) = alarmOf w k"
  by (cases "store w")
    (simp_all add: storage_defs alarmOf_def call_eq split: option.splits)

lemma write_alarm_fails:
  "store w = EtcdStorage p \<Longrightarrow> faults w = True # fs \<Longrightarrow>
     SetAlarmActiveSince k t w =
       (Some Transport,
        w\<lparr>faults := fs, wire := wire w @ [ReqPut (Join [p, ''alarms'', k]) (TimeVal (Format RFC3339 t))]\<rparr>)"
  by (simp add: storage_defs call_eq)

text \<open>
  The same run on an etcd node whose two reads succeed and whose write of the alarm
  record fails.
\<close>

lemma checkDeadlineOfService_write_fails:
  "store w = EtcdStorage p \<and> faults w = False # False # True # fs \<and>
   Sub (clock w) (fst (heartbeatOf w (ID svc))) > Timeout svc \<and>
   snd (alarmOf w (ID svc)) = Some ErrNotFound \<longrightarrow>
     (\<exists>w5. alarmOf w5 (ID svc) = alarmOf w (ID svc) \<and>
           (Error, ID svc, ''failed to set alarm active state'') \<in> set (logs w5) \<and>
           filter emits (sent w w5) = [] \<and>
           checkDeadlineOfService svc w = SendAlerts svc w5)"
proof (intro impI, elim conjE)
  let ?i = "ID svc"
  assume st: "store w = EtcdStorage p"
    and fl: "faults w = False # False # True # fs"
    and ov: "Sub (clock w) (fst (heartbeatOf w ?i)) > Timeout svc"
    and nf: "snd (alarmOf w ?i) = Some ErrNotFound"
  obtain t err where hb: "heartbeatOf w ?i = (t, err)"
    by (cases "heartbeatOf w ?i")
  obtain a where al: "alarmOf w ?i = (a, Some ErrNotFound)"
    using nf by (cases "alarmOf w ?i") simp
  define wa where "wa = snd (GetLastHeartbeat ?i w)"
  have g1: "GetLastHeartbeat ?i w = ((t, err), wa)"
    using read_heartbeat_ok [OF fl, of ?i] hb
    by (cases "GetLastHeartbeat ?i w") (simp add: wa_def)
  have fa: "store wa = EtcdStorage p" "kv wa = kv w" "clock wa = clock w"
    "faults wa = False # True # fs"
    "wire wa = wire w @ [ReqGet (Join [p, ''heartbeats'', ?i])]"
    using st fl by (simp_all add: wa_def GetLastHeartbeat_snd)
  define w1 where "w1 = (if err \<noteq> None
      then logmsg Error ?i ''failed to get last heartbeat'' wa else wa)"
  have f1: "store w1 = EtcdStorage p" "kv w1 = kv w" "clock w1 = clock w"
    "faults w1 = False # True # fs" "wire w1 = wire wa"
    using fa by (simp_all add: w1_def logmsg_def)
  define w2 where "w2 = snd (Now w1)"
  define w3 where "w3 = logmsg Info ?i ''service is overdue'' w2"
  have n1: "Now w1 = (clock w, w2)"
    using f1(3) by (simp add: Now_eq w2_def)
  have f3: "store w3 = EtcdStorage p" "kv w3 = kv w" "faults w3 = False # True # fs"
    "wire w3 = wire wa"
    using f1 by (simp_all add: w3_def w2_def logmsg_def Now_eq)
  define wb where "wb = snd (GetAlarmActiveSince ?i w3)"
  have p3: "alarmOf w3 ?i = alarmOf w ?i"
    using peek_frame [of w3 w ?i] f3(1,2) st by simp
  have g2: "GetAlarmActiveSince ?i w3 = ((a, Some ErrNotFound), wb)"
    using read_alarm_ok [OF f3(3), of ?i] p3 al
    by (cases "GetAlarmActiveSince ?i w3") (simp add: wb_def)
  have fb: "store wb = EtcdStorage p" "kv wb = kv w" "faults wb = True # fs"
    "wire wb = wire wa @ [ReqGet (Join [p, ''alarms'', ?i])]"
    using f3 by (simp_all add: wb_def GetAlarmActiveSince_snd)
  define w4 where "w4 = snd (Now wb)"
  have n4: "Now wb = (clock wb, w4)"
    by (simp add: w4_def Now_eq)
  have f4: "store w4 = EtcdStorage p" "kv w4 = kv w" "faults w4 = True # fs"
    "wire w4 = wire wb"
    using fb st by (simp_all add: w4_def Now_eq)
  define w5 where "w5 = snd (SetAlarmActiveSince ?i (clock wb) w4)"
  have s5: "SetAlarmActiveSince ?i (clock wb) w4 = (Some Transport, w5)"
    by (simp add: w5_def write_alarm_fails [OF f4(1,3)])
  have f5: "store w5 = EtcdStorage p" "kv w5 = kv w"
    "wire w5 = wire wb @
       [ReqPut (Join [p, ''alarms'', ?i]) (TimeVal (Format RFC3339 (clock wb)))]"
    using f4 st by (simp_all add: w5_def write_alarm_fails [OF f4(1,3)])
  let ?w6 = "logmsg Error ?i ''failed to set alarm active state'' w5"
  have f6: "store ?w6 = EtcdStorage p" "kv ?w6 = kv w"
    "(Error, ?i, ''failed to set alarm active state'') \<in> set (logs ?w6)"
    using f5 by (simp_all add: logmsg_def)
  have "wire ?w6 = wire w @
      [ReqGet (Join [p, ''heartbeats'', ?i]), ReqGet (Join [p, ''alarms'', ?i]),
       ReqPut (Join [p, ''alarms'', ?i]) (TimeVal (Format RFC3339 (clock wb)))]"
    using f5(3) fb(4) fa(5) by (simp add: logmsg_def)
  then have q: "filter emits (sent w ?w6) = []"
    by (simp add: sent_def)
  have e: "checkDeadlineOfService svc w = SendAlerts svc ?w6"
    using g1 n1 g2 n4 s5 ov hb
    by (simp add: checkDeadlineOfService_def w1_def w3_def)
  have k: "alarmOf ?w6 ?i = alarmOf w ?i"
    using peek_frame [of ?w6 w ?i] f6(1,2) st by simp
  show "\<exists>w5. alarmOf w5 ?i = alarmOf w ?i \<and>
           (Error, ?i, ''failed to set alarm active state'') \<in> set (logs w5) \<and>
           filter emits (sent w w5) = [] \<and>
           checkDeadlineOfService svc w = SendAlerts svc w5"
    by (rule exI [of _ ?w6]) (intro conjI k f6(3) q e)
qed

lemma heartbeatOf_error_zero:
  "snd (heartbeatOf w k) \<noteq> None \<Longrightarrow> fst (heartbeatOf w k) = zeroTime"
  by (cases "store w")
    (auto simp: heartbeatOf_def memoryStorage_GetLastHeartbeat_def Parse_def
      split: option.splits val.splits timetext.splits if_splits)

lemma no_heartbeat_overdue:
  "snd (heartbeatOf w (ID svc)) \<noteq> None \<and> 0 \<le> clock w \<and> Timeout svc < maxDuration \<longrightarrow>
      Sub (clock w) (fst (heartbeatOf w (ID svc))) > Timeout svc"
  using heartbeatOf_error_zero [of w "ID svc"] since_zero [of "clock w"] by auto

lemma largest_timeout_alive:
  "maxDuration \<le> Timeout svc \<longrightarrow> \<not> Sub (clock w) (fst (heartbeatOf w (ID svc))) > Timeout svc"
  using since_at_most [of "clock w" "fst (heartbeatOf w (ID svc))"] by simp

lemma checkServices_step:
  "checkServices (svc # rest) w =
     (case checkDeadlineOfService svc w of
        (Some err, w1) \<Rightarrow>
          if err = Panic then (Some Panic, w1)
          else checkServices rest (logmsg Error (ID svc) ''failed to check deadline'' w1)
      | (None, w1) \<Rightarrow> checkServices rest w1)"
  by simp

text \<open>
  Claim C1, as the code has it. The checker reads the heartbeat of the service, and a
  read that fails (with \<open>ErrNotFound\<close> when there is no record) gives the zero time. A
  service without a heartbeat record is then overdue when its timeout is below the
  largest duration and the clock is not before the Unix epoch; a service whose timeout
  is the largest duration is never overdue. When no call fails: a service that is not
  overdue is left alone (no error, store and key space unchanged, nothing emitted); for
  an overdue service without an alarm record the record is set to the time the clock
  gives then, as the store keeps it (the id being a clean path element and the time one
  the store reads back), the heartbeat stays, nothing is emitted before \<open>SendAlerts\<close>
  runs and the check returns what \<open>SendAlerts\<close> returns; for an overdue service with
  an alarm record (or a failing read of it) the record stays as it is and the check again
  returns what \<open>SendAlerts\<close> returns. When the write of the alarm record fails on
  etcd, the failure is logged, the record stays absent and \<open>SendAlerts\<close> still runs. In
  the loop over the configurations an error that a check returns is logged and the loop
  goes on with the remaining configurations; a check that panics ends the loop.
\<close>

theorem checkDeadlineOfService_spec:
  "(snd (fst (GetLastHeartbeat (ID svc) w)) \<noteq> None \<longrightarrow>
      fst (fst (GetLastHeartbeat (ID svc) w)) = zeroTime) \<and>
   (snd (heartbeatOf w (ID svc)) \<noteq> None \<and> 0 \<le> clock w \<and> Timeout svc < maxDuration \<longrightarrow>
      Sub (clock w) (fst (heartbeatOf w (ID svc))) > Timeout svc) \<and>
   (maxDuration \<le> Timeout svc \<longrightarrow>
      \<not> Sub (clock w) (fst (heartbeatOf w (ID svc))) > Timeout svc) \<and>
   (calm w \<and> \<not> Sub (clock w) (fst (heartbeatOf w (ID svc))) > Timeout svc \<longrightarrow>
      fst (checkDeadlineOfService svc w) = None \<and>
      store (snd (checkDeadlineOfService svc w)) = store w \<and>
      kv (snd (checkDeadlineOfService svc w)) = kv w \<and>
      filter emits (sent w (snd (checkDeadlineOfService svc w))) = []) \<and>
   (calm w \<and> plainID w (ID svc) \<and> readable w (clock (snd (Now w))) \<and>
    Sub (clock w) (fst (heartbeatOf w (ID svc))) > Timeout svc \<and>
    snd (alarmOf w (ID svc)) = Some ErrNotFound \<longrightarrow>
      (\<exists>w5. alarmOf w5 (ID svc) = (kept w (clock (snd (Now w))), None) \<and>
            heartbeatOf w5 (ID svc) = heartbeatOf w (ID svc) \<and>
            filter emits (sent w w5) = [] \<and>
            checkDeadlineOfService svc w = SendAlerts svc w5)) \<and>
   (calm w \<and> Sub (clock w) (fst (heartbeatOf w (ID svc))) > Timeout svc \<and>
    snd (alarmOf w (ID svc)) \<noteq> Some ErrNotFound \<longrightarrow>
      (\<exists>w5. alarmOf w5 (ID svc) = alarmOf w (ID svc) \<and>
            heartbeatOf w5 (ID svc) = heartbeatOf w (ID svc) \<and>
            filter emits (sent w w5) = [] \<and>
            checkDeadlineOfService svc w = SendAlerts svc w5)) \<and>
   (store w = EtcdStorage p \<and> faults w = False # False # True # fs \<and>
    Sub (clock w) (fst (heartbeatOf w (ID svc))) > Timeout svc \<and>
    snd (alarmOf w (ID svc)) = Some ErrNotFound \<longrightarrow>
      (\<exists>w5. alarmOf w5 (ID svc) = alarmOf w (ID svc) \<and>
            (Error, ID svc, ''failed to set alarm active state'') \<in> set (logs w5) \<and>
            filter emits (sent w w5) = [] \<and>
            checkDeadlineOfService svc w = SendAlerts svc w5)) \<and>
   checkServices (svc # rest) w =
     (case checkDeadlineOfService svc w of
        (Some err, w1) \<Rightarrow>
          if err = Panic then (Some Panic, w1)
          else checkServices rest (logmsg Error (ID svc) ''failed to check deadline'' w1)
      | (None, w1) \<Rightarrow> checkServices rest w1) \<and>
   checkServices (xs @ ys) w =
     (case checkServices xs w of
        (Some err, w1) \<Rightarrow> (Some err, w1)
      | (None, w1) \<Rightarrow> checkServices ys w1)"
proof -
  note l = checkDeadlineOfService_calm [of w svc]
  note l3 = conjunct1 [OF l] and l4 = conjunct1 [OF conjunct2 [OF l]]
    and l5 = conjunct2 [OF conjunct2 [OF l]]
  show ?thesis
    by (intro conjI)
      (rule heartbeat_error_zero no_heartbeat_overdue largest_timeout_alive l3 l4 l5
         checkDeadlineOfService_write_fails checkServices_step checkServices_append)+
qed

text \<open>
  The witness of C1: \<open>svc-1\<close> without heartbeat on a fresh memory node (overdue, the
  alarm record is set to the clock reading 0) and on an etcd node at 1.5 seconds (the
  alarm record reads 1 second), \<open>svc-2\<close> on \<open>debouncingNode\<close> (overdue, the alarm record
  of 5 seconds stays), \<open>svc-1\<close> on \<open>pingedNode\<close> (alive), \<open>svc-max\<close> without heartbeat
  (alive), \<open>svc-1\<close> on \<open>failingNode\<close> (the write of the alarm record fails and is
  logged), and the loop on \<open>brokenHookNode\<close>, which the panic of the check of \<open>svc-4\<close>
  ends before \<open>svc-1\<close> is checked.
\<close>

theorem checkDeadlineOfService_spec_witness:
  "fst (fst (GetLastHeartbeat ''svc-1'' (memoryNode [svc1]))) = zeroTime \<and>
   Sub (clock (memoryNode [svc1])) zeroTime > 30 * Second \<and>
   (\<exists>w5. alarmOf w5 ''svc-1'' = (0, None) \<and>
         heartbeatOf w5 ''svc-1'' = (zeroTime, Some ErrNotFound) \<and>
         filter emits (sent (memoryNode [svc1]) w5) = [] \<and>
         checkDeadlineOfService svc1 (memoryNode [svc1]) = SendAlerts svc1 w5) \<and>
   (\<exists>w5. alarmOf w5 ''svc-1'' = (1000000000, None) \<and>
         filter emits (sent (etcdNode\<lparr>clock := 1500000000\<rparr>) w5) = [] \<and>
         checkDeadlineOfService svc1 (etcdNode\<lparr>clock := 1500000000\<rparr>) = SendAlerts svc1 w5) \<and>
   (\<exists>w5. alarmOf w5 ''svc-2'' = (5 * Second, None) \<and>
         filter emits (sent debouncingNode w5) = [] \<and>
         checkDeadlineOfService svc2 debouncingNode = SendAlerts svc2 w5) \<and>
   fst (checkDeadlineOfService svc1 pingedNode) = None \<and>
   store (snd (checkDeadlineOfService svc1 pingedNode)) = store pingedNode \<and>
   filter emits (sent pingedNode (snd (checkDeadlineOfService svc1 pingedNode))) = [] \<and>
   fst (checkDeadlineOfService svcMax (memoryNode [svcMax])) = None \<and>
   filter emits (sent (memoryNode [svcMax])
     (snd (checkDeadlineOfService svcMax (memoryNode [svcMax])))) = [] \<and>
   (\<exists>w5. alarmOf w5 ''svc-1'' = (zeroTime, Some ErrNotFound) \<and>
         (Error, ''svc-1'', ''failed to set alarm active state'') \<in> set (logs w5) \<and>
         filter emits (sent failingNode w5) = [] \<and>
         checkDeadlineOfService svc1 failingNode = SendAlerts svc1 w5) \<and>
   fst (checkServices [svc4, svc1] brokenHookNode) = Some Panic \<and>
   wire (snd (checkServices [svc4, svc1] brokenHookNode)) = []"
proof -
  let ?A = "memoryNode [svc1]"
  let ?E = "etcdNode\<lparr>clock := 1500000000\<rparr>"
  let ?M = "memoryNode [svcMax]"
  note A = checkDeadlineOfService_spec [where svc = svc1 and w = ?A]
  note B = checkDeadlineOfService_spec [where svc = svc2 and w = debouncingNode]
  note C = checkDeadlineOfService_spec [where svc = svc1 and w = pingedNode]
  note D = checkDeadlineOfService_spec [where svc = svc1 and w = failingNode
      and p = "''/deadman-switch/store''" and fs = "[]"]
  note E = checkDeadlineOfService_spec [where svc = svc1 and w = ?E]
  note M = checkDeadlineOfService_spec [where svc = svcMax and w = ?M]
  note L = checkDeadlineOfService_spec [where svc = svc4 and w = brokenHookNode
      and rest = "[svc1]"]
  have ids: "ID svc1 = ''svc-1''" "ID svc2 = ''svc-2''"
    "Timeout svc1 = 30 * Second" "Timeout svc2 = 30 * Second"
    "ID svcMax = ''svc-max''" "Timeout svcMax = maxDuration"
    by (simp_all add: svc1_def svc2_def svcMax_def emptyServiceConfig_def)
  have small: "30 * Second < maxDuration"
    by (simp add: Second_def maxDuration_def)
  have calm: "calm ?A" "calm debouncingNode" "calm pingedNode" "calm ?E" "calm ?M"
    by (simp_all add: calm_def memoryNode_def debouncingNode_def pingedNode_def etcdNode_def)
  have hb: "heartbeatOf ?A ''svc-1'' = (zeroTime, Some ErrNotFound)"
    "heartbeatOf debouncingNode ''svc-2'' = (zeroTime, Some ErrNotFound)"
    "heartbeatOf pingedNode ''svc-1'' = (0, None)"
    "heartbeatOf failingNode ''svc-1'' = (zeroTime, Some ErrNotFound)"
    "heartbeatOf ?E ''svc-1'' = (zeroTime, Some ErrNotFound)"
    by (simp_all add: heartbeatOf_def storage_defs memoryNode_def debouncingNode_def
        pingedNode_def failingNode_def etcdNode_def)
  have al: "alarmOf ?A ''svc-1'' = (zeroTime, Some ErrNotFound)"
    "alarmOf debouncingNode ''svc-2'' = (5 * Second, None)"
    "alarmOf failingNode ''svc-1'' = (zeroTime, Some ErrNotFound)"
    "alarmOf ?E ''svc-1'' = (zeroTime, Some ErrNotFound)"
    by (simp_all add: alarmOf_def storage_defs memoryNode_def debouncingNode_def
        failingNode_def etcdNode_def)
  have ck: "clock ?A = 0" "clock debouncingNode = 30 * Second" "clock pingedNode = 10 * Second"
    "clock failingNode = 0" "kept ?A (clock (snd (Now ?A))) = 0"
    "clock ?E = 1500000000" "kept ?E (clock (snd (Now ?E))) = 1000000000"
    by (simp_all add: memoryNode_def debouncingNode_def pingedNode_def failingNode_def
        etcdNode_def kept_def Now_eq Second_def)
  have pl: "plainID ?A ''svc-1''" "readable ?A (clock (snd (Now ?A)))"
    "plainID ?E ''svc-1''" "readable ?E (clock (snd (Now ?E)))"
    by (simp_all add: plainID_def readable_def memoryNode_def etcdNode_def Now_eq inYears_def
        Second_def)
  have sD: "store failingNode = EtcdStorage ''/deadman-switch/store''"
    "faults failingNode = [False, False, True]"
    by (simp_all add: failingNode_def etcdNode_def)
  have gl: "snd (fst (GetLastHeartbeat ''svc-1'' ?A)) \<noteq> None"
    by (simp add: storage_defs memoryNode_def)
  have z: "fst (fst (GetLastHeartbeat ''svc-1'' ?A)) = zeroTime"
    using A [THEN conjunct1] gl by (simp add: ids)
  have oA: "Sub (clock ?A) zeroTime > 30 * Second"
    using A [THEN conjunct2, THEN conjunct1] small by (simp add: ids hb ck)
  have oB: "Sub (clock debouncingNode) zeroTime > 30 * Second"
    using B [THEN conjunct2, THEN conjunct1] small by (simp add: ids hb ck Second_def)
  have oD: "Sub (clock failingNode) zeroTime > 30 * Second"
    using D [THEN conjunct2, THEN conjunct1] small by (simp add: ids hb ck)
  have oE: "Sub (clock ?E) zeroTime > 30 * Second"
    using E [THEN conjunct2, THEN conjunct1] small by (simp add: ids hb ck)
  have nC: "\<not> Sub (clock pingedNode) 0 > 30 * Second"
    by (simp add: ck Sub_def Second_def maxDuration_def minDuration_def)
  have nM: "\<not> Sub (clock ?M) (fst (heartbeatOf ?M ''svc-max'')) > maxDuration"
    using M [THEN conjunct2, THEN conjunct2, THEN conjunct1] by (simp add: ids)
  have eA: "\<exists>w5. alarmOf w5 ''svc-1'' = (0, None) \<and>
         heartbeatOf w5 ''svc-1'' = (zeroTime, Some ErrNotFound) \<and>
         filter emits (sent ?A w5) = [] \<and>
         checkDeadlineOfService svc1 ?A = SendAlerts svc1 w5"
    using A [THEN conjunct2, THEN conjunct2, THEN conjunct2, THEN conjunct2, THEN conjunct1]
      calm(1) oA pl(1,2)
    by (simp add: ids hb al ck(5))
  have eE: "\<exists>w5. alarmOf w5 ''svc-1'' = (1000000000, None) \<and>
         filter emits (sent ?E w5) = [] \<and>
         checkDeadlineOfService svc1 ?E = SendAlerts svc1 w5"
    using E [THEN conjunct2, THEN conjunct2, THEN conjunct2, THEN conjunct2, THEN conjunct1]
      calm(4) oE pl(3,4)
    by (simp add: ids hb al ck(7)) blast
  have eB: "\<exists>w5. alarmOf w5 ''svc-2'' = (5 * Second, None) \<and>
         filter emits (sent debouncingNode w5) = [] \<and>
         checkDeadlineOfService svc2 debouncingNode = SendAlerts svc2 w5"
    using B [THEN conjunct2, THEN conjunct2, THEN conjunct2, THEN conjunct2, THEN conjunct2,
        THEN conjunct1]
      calm(2) oB
    by (simp add: ids hb al) blast
  have eC: "fst (checkDeadlineOfService svc1 pingedNode) = None \<and>
      store (snd (checkDeadlineOfService svc1 pingedNode)) = store pingedNode \<and>
      filter emits (sent pingedNode (snd (checkDeadlineOfService svc1 pingedNode))) = []"
    using C [THEN conjunct2, THEN conjunct2, THEN conjunct2, THEN conjunct1] calm(3) nC
    by (simp add: ids hb)
  have eM: "fst (checkDeadlineOfService svcMax ?M) = None \<and>
      filter emits (sent ?M (snd (checkDeadlineOfService svcMax ?M))) = []"
    using M [THEN conjunct2, THEN conjunct2, THEN conjunct2, THEN conjunct1] calm(5) nM
    by (simp add: ids)
  have eD: "\<exists>w5. alarmOf w5 ''svc-1'' = (zeroTime, Some ErrNotFound) \<and>
         (Error, ''svc-1'', ''failed to set alarm active state'') \<in> set (logs w5) \<and>
         filter emits (sent failingNode w5) = [] \<and>
         checkDeadlineOfService svc1 failingNode = SendAlerts svc1 w5"
    using D [THEN conjunct2, THEN conjunct2, THEN conjunct2, THEN conjunct2, THEN conjunct2,
        THEN conjunct2, THEN conjunct1] oD
    by (simp add: ids hb al sD)
  have p: "fst (checkDeadlineOfService svc4 brokenHookNode) = Some Panic"
    "wire (snd (checkDeadlineOfService svc4 brokenHookNode)) = []"
    by (simp_all add: checkDeadlineOfService_def eval_defs svc4_def badHook_def hook_def
        brokenHookNode_def memoryNode_def Sub_def zeroTime_def maxDuration_def minDuration_def)
  have eL: "fst (checkServices [svc4, svc1] brokenHookNode) = Some Panic \<and>
      wire (snd (checkServices [svc4, svc1] brokenHookNode)) = []"
    using L [THEN conjunct2, THEN conjunct2, THEN conjunct2, THEN conjunct2, THEN conjunct2,
        THEN conjunct2, THEN conjunct2, THEN conjunct1] p
    by (cases "checkDeadlineOfService svc4 brokenHookNode") simp
  show ?thesis
    by (intro conjI z oA eA eE eB eC [THEN conjunct1] eC [THEN conjunct2, THEN conjunct1]
        eC [THEN conjunct2, THEN conjunct2] eM [THEN conjunct1] eM [THEN conjunct2] eD
        eL [THEN conjunct1] eL [THEN conjunct2])
qed

text \<open>
  The counterexample to C1 as stated: \<open>svc-max\<close> has no heartbeat record, the time since
  the zero time saturates at the largest duration, which is not larger than the timeout
  of the service; the check logs the service as alive and neither sets an alarm record
  nor calls \<open>SendAlerts\<close>.
\<close>

theorem checkDeadlineOfService_maxTimeout_counterexample:
  "heartbeatOf (memoryNode [svcMax]) (ID svcMax) = (zeroTime, Some ErrNotFound) \<and>
   \<not> Sub (clock (memoryNode [svcMax])) zeroTime > Timeout svcMax \<and>
   checkDeadlineOfService svcMax (memoryNode [svcMax]) =
     (None,
      (memoryNode [svcMax])
        \<lparr>logs := [(Error, ''svc-max'', ''failed to get last heartbeat''),
                  (Info, ''svc-max'', ''service is considered alive'')]\<rparr>)"
  by (simp add: checkDeadlineOfService_def heartbeatOf_def storage_defs memoryNode_def
      svcMax_def emptyServiceConfig_def Now_eq logmsg_def Sub_def zeroTime_def maxDuration_def
      minDuration_def)

end
